theory Spec2Isabelle
  imports Main "HOL-Library.Word"
begin

unbundle bit_operations_syntax

section \<open>C strings and the C library\<close>

text \<open>
  A C string is modelled by the list of its characters before the terminating NUL, so a
  \<^typ>\<open>string\<close> of the model never holds the NUL character itself. Wide-character
  strings (\<^verbatim>\<open>wchar_t *\<close>) are lists of code units, read as integers the way
  \<^verbatim>\<open>int32_t ch = string_w[i]\<close> reads them.
\<close>

type_synonym wstring = "int list"

text \<open>\<^verbatim>\<open>strncmp(a, b, n) == 0\<close>: the first \<open>n\<close> characters agree (or both strings
  end, equal, before that).\<close>

definition strncmp_eq :: "string \<Rightarrow> string \<Rightarrow> nat \<Rightarrow> bool" where
  "strncmp_eq a b n = (take n a = take n b)"

text \<open>\<^verbatim>\<open>strcmp(a, b) == 0\<close>.\<close>

definition strcmp_eq :: "string \<Rightarrow> string \<Rightarrow> bool" where
  "strcmp_eq a b = (a = b)"

text \<open>
  What the bootloader cannot decide by itself is a parameter of the model: whether an
  allocation succeeds, what \<^verbatim>\<open>calloc(0, ...)\<close> returns (a pointer that can be freed on
  most platforms, NULL on AIX, as the comment in \<^verbatim>\<open>pyi_runtime_options_read\<close> says), and
  the multi-byte to wide-character conversion of the C locale.
\<close>

record libc =
  calloc_struct_ok :: bool
  calloc_zero_null :: bool
  calloc_ok :: "nat \<Rightarrow> bool"
  malloc_ok :: "nat \<Rightarrow> bool"
  strdup_ok :: "string \<Rightarrow> bool"
  wcsdup_ok :: "wstring \<Rightarrow> bool"
  mbstowcs :: "string \<Rightarrow> wstring option"
  PYI_PATH_MAX :: nat
  LONG_BIT :: nat
  SIZE_MAX :: nat

text \<open>
  A pointer to an array of string pointers: \<open>None\<close> is the NULL pointer, \<open>Some xs\<close> an
  allocated array whose slot \<open>i\<close> is \<open>xs ! i\<close>, itself NULL (\<open>None\<close>) or a string.
  \<^verbatim>\<open>calloc\<close> zero-fills, so every slot of a fresh array is NULL.
\<close>

type_synonym 'a ptr_array = "'a option list option"

definition c_calloc :: "libc \<Rightarrow> nat \<Rightarrow> 'a ptr_array" where
  "c_calloc lc n =
     (if n = 0 then (if calloc_zero_null lc then None else Some [])
      else if calloc_ok lc n then Some (replicate n None)
      else None)"

text \<open>
  A store \<^verbatim>\<open>arr[i] = p\<close>. C leaves a store through a NULL pointer or past the end of
  the allocation undefined; the model stops there with a fault that names the access.
\<close>

datatype fault =
    Null_Store nat
  | Out_Of_Bounds_Store nat nat
  | Out_Of_Bounds_Read nat nat
  | Null_String_Read
  | Indeterminate_Read

definition array_store :: "'a ptr_array \<Rightarrow> nat \<Rightarrow> 'a option \<Rightarrow> fault + 'a ptr_array" where
  "array_store arr i p =
     (case arr of
        None \<Rightarrow> Inl (Null_Store i)
      | Some xs \<Rightarrow>
          if i < length xs then Inr (Some (xs[i := p]))
          else Inl (Out_Of_Bounds_Store i (length xs)))"

text \<open>The slots of an array: a NULL array has none.\<close>

definition array_slots :: "'a ptr_array \<Rightarrow> 'a option list" where
  "array_slots arr = (case arr of None \<Rightarrow> [] | Some xs \<Rightarrow> xs)"

subsection \<open>\<^verbatim>\<open>strtol\<close> and \<^verbatim>\<open>strtoul\<close>\<close>

text \<open>
  The conversions of ISO C: optional white space, an optional sign, in base 0 or 16 an
  optional \<^verbatim>\<open>0x\<close> prefix, in base 0 a leading \<^verbatim>\<open>0\<close> for octal, then the longest run
  of digits of the base. The result is the value and the rest of the string at
  \<^verbatim>\<open>endptr\<close>; with no digits nothing is converted and \<^verbatim>\<open>endptr\<close> is the whole string.
\<close>

definition c_isspace :: "char \<Rightarrow> bool" where
  "c_isspace c = (c \<in> set [CHR '' '', CHR 0x09, CHR 0x0A, CHR 0x0B, CHR 0x0C, CHR 0x0D])"

definition digit_value :: "char \<Rightarrow> nat option" where
  "digit_value c =
     (let n = (of_char c :: nat) in
      if 48 \<le> n \<and> n \<le> 57 then Some (n - 48)
      else if 97 \<le> n \<and> n \<le> 122 then Some (n - 87)
      else if 65 \<le> n \<and> n \<le> 90 then Some (n - 55)
      else None)"

definition is_digit_of :: "nat \<Rightarrow> char \<Rightarrow> bool" where
  "is_digit_of base c = (case digit_value c of None \<Rightarrow> False | Some d \<Rightarrow> d < base)"

definition digits_value :: "nat \<Rightarrow> string \<Rightarrow> nat" where
  "digits_value base ds = foldl (\<lambda>acc c. acc * base + the (digit_value c)) 0 ds"

text \<open>The sign, and the string after it.\<close>

definition strto_sign :: "string \<Rightarrow> bool \<times> string" where
  "strto_sign s =
     (case s of
        c # rest \<Rightarrow>
          if c = CHR ''-'' then (True, rest)
          else if c = CHR ''+'' then (False, rest)
          else (False, s)
      | [] \<Rightarrow> (False, s))"

text \<open>The base in effect, and the string after the prefix that selects it.\<close>

definition strto_base :: "nat \<Rightarrow> string \<Rightarrow> nat \<times> string" where
  "strto_base base s =
     (case s of
        c0 # cx # h # rest \<Rightarrow>
          if (base = 0 \<or> base = 16) \<and> c0 = CHR ''0'' \<and> (cx = CHR ''x'' \<or> cx = CHR ''X'')
             \<and> is_digit_of 16 h
          then (16, h # rest)
          else if base = 0 then (if c0 = CHR ''0'' then 8 else 10, s)
          else (base, s)
      | c0 # _ \<Rightarrow>
          if base = 0 then (if c0 = CHR ''0'' then 8 else 10, s) else (base, s)
      | [] \<Rightarrow> (if base = 0 then 10 else base, s))"

text \<open>\<open>None\<close>: no conversion. \<open>Some (neg, magnitude, rest)\<close> otherwise.\<close>

definition strto_scan :: "nat \<Rightarrow> string \<Rightarrow> (bool \<times> nat \<times> string) option" where
  "strto_scan base s =
     (let (neg, s1) = strto_sign (dropWhile c_isspace s);
          (b, s2) = strto_base base s1;
          ds = takeWhile (is_digit_of b) s2
      in if ds = [] then None
         else Some (neg, digits_value b ds, dropWhile (is_digit_of b) s2))"

text \<open>\<^verbatim>\<open>strtol\<close>: the value is clamped to the range of \<^verbatim>\<open>long\<close>.\<close>

definition c_strtol :: "libc \<Rightarrow> string \<Rightarrow> nat \<Rightarrow> int \<times> string" where
  "c_strtol lc s base =
     (case strto_scan base s of
        None \<Rightarrow> (0, s)
      | Some (neg, m, rest) \<Rightarrow>
          (let v = (if neg then - int m else int m);
               long_max = 2 ^ (LONG_BIT lc - 1) - 1;
               long_min = - (2 ^ (LONG_BIT lc - 1))
           in (max long_min (min long_max v), rest)))"

text \<open>\<^verbatim>\<open>strtoul\<close>: a magnitude beyond \<^verbatim>\<open>ULONG_MAX\<close> gives \<^verbatim>\<open>ULONG_MAX\<close>; a minus sign
  negates in the unsigned type.\<close>

definition c_strtoul :: "libc \<Rightarrow> string \<Rightarrow> nat \<Rightarrow> nat \<times> string" where
  "c_strtoul lc s base =
     (case strto_scan base s of
        None \<Rightarrow> (0, s)
      | Some (neg, m, rest) \<Rightarrow>
          (let ulong_max = 2 ^ LONG_BIT lc - 1
           in if m > ulong_max then (ulong_max, rest)
              else if neg then ((2 ^ LONG_BIT lc - m) mod 2 ^ LONG_BIT lc, rest)
              else (m, rest)))"

section \<open>The archive and its table of contents\<close>

text \<open>
  \<^verbatim>\<open>pyi_archive.h\<close> is not among the sources. The type codes are the ones the sources
  compare against; every other code is \<open>ARCHIVE_ITEM_OTHER\<close>. The table of contents, walked
  with \<^verbatim>\<open>pyi_archive_next_toc_entry\<close> from \<^verbatim>\<open>archive->toc\<close> to \<^verbatim>\<open>archive->toc_end\<close>, is
  the list of its entries. Offsets are unsigned: \<^verbatim>\<open>pkg_offset\<close> is 64 bits wide and an
  entry's offset 32 bits.
\<close>

datatype archive_item =
    ARCHIVE_ITEM_PYMODULE
  | ARCHIVE_ITEM_PYPACKAGE
  | ARCHIVE_ITEM_PYZ
  | ARCHIVE_ITEM_RUNTIME_OPTION
  | ARCHIVE_ITEM_OTHER char

record TOC_ENTRY =
  typecode :: archive_item
  name :: string
  offset :: "32 word"
  uncompressed_length :: "32 word"

record ARCHIVE =
  pkg_offset :: "64 word"
  toc :: "TOC_ENTRY list"
  contains_extractable_entries :: bool
  toc_splash :: "TOC_ENTRY option"

section \<open>Run-time options (\<^verbatim>\<open>pyi_pyconfig.c\<close>)\<close>

text \<open>
  \<^verbatim>\<open>struct PyiRuntimeOptions\<close>. The \<^verbatim>\<open>int\<close> fields are integers (the counters grow by
  one per entry of the table of contents, far from the range of \<^verbatim>\<open>int\<close>); the two flag
  counts only count up from zero and index the arrays, so they are naturals.
\<close>

record PyiRuntimeOptions =
  verbose :: int
  unbuffered :: int
  optimize :: int
  use_hash_seed :: int
  hash_seed :: nat
  utf8_mode :: int
  dev_mode :: int
  num_wflags :: nat
  wflags :: "string ptr_array"
  wflags_w :: "wstring ptr_array"
  num_xflags :: nat
  xflags :: "string ptr_array"
  xflags_w :: "wstring ptr_array"

text \<open>The structure after \<^verbatim>\<open>calloc(1, sizeof(struct PyiRuntimeOptions))\<close>.\<close>

definition zeroed_options :: PyiRuntimeOptions where
  "zeroed_options =
     \<lparr>verbose = 0, unbuffered = 0, optimize = 0, use_hash_seed = 0, hash_seed = 0,
      utf8_mode = 0, dev_mode = 0,
      num_wflags = 0, wflags = None, wflags_w = None,
      num_xflags = 0, xflags = None, xflags_w = None\<rparr>"

text \<open>
  \<^verbatim>\<open>_pyi_match_key_value_flag\<close>: \<open>None\<close> when the name does not match, the value string
  (empty for a bare name) when it does.
\<close>

definition pyi_match_key_value_flag :: "string \<Rightarrow> string \<Rightarrow> string option" where
  "pyi_match_key_value_flag flag nm =
     (let name_len = length nm in
      if \<not> strncmp_eq flag nm name_len then None
      else (case drop name_len flag of
              [] \<Rightarrow> Some []
            | c # rest \<Rightarrow>
                if c = CHR ''='' \<or> c = CHR '' '' then Some rest
                else None))"

text \<open>\<^verbatim>\<open>_pyi_match_and_parse_xflag\<close>: the new value of \<^verbatim>\<open>*dest_var\<close>.\<close>

definition pyi_match_and_parse_xflag :: "string \<Rightarrow> string \<Rightarrow> int \<Rightarrow> int" where
  "pyi_match_and_parse_xflag flag nm dest_var =
     (case pyi_match_key_value_flag flag nm of
        None \<Rightarrow> dest_var
      | Some value_str \<Rightarrow>
          if value_str = [] then 1
          else (if \<not> strcmp_eq value_str ''0'' then 1 else 0))"

text \<open>
  \<^verbatim>\<open>_pyi_copy_xwflag\<close>: the pointer stored into \<^verbatim>\<open>*pdest_buf\<close> and whether the helper
  reports success. \<^verbatim>\<open>mbstowcs\<close> returns a \<^verbatim>\<open>size_t\<close>, so the test \<^verbatim>\<open>< 0\<close> never holds:
  after a failed conversion, and after one that fills all \<^verbatim>\<open>PYI_PATH_MAX\<close> code units and
  so writes no terminator, \<^verbatim>\<open>wcsdup\<close> reads a buffer whose contents are indeterminate.
\<close>

definition pyi_copy_xwflag :: "libc \<Rightarrow> string \<Rightarrow> fault + (wstring option \<times> bool)" where
  "pyi_copy_xwflag lc flag =
     (case mbstowcs lc flag of
        None \<Rightarrow> Inl Indeterminate_Read
      | Some flag_w \<Rightarrow>
          if length flag_w \<ge> PYI_PATH_MAX lc then Inl Indeterminate_Read
          else if wcsdup_ok lc flag_w then Inr (Some flag_w, True)
          else Inr (None, False))"

text \<open>
  The first loop of \<^verbatim>\<open>pyi_runtime_options_read\<close>: one entry of the table of contents.
  The state is the options structure and the local counters \<^verbatim>\<open>num_wflags\<close> and
  \<^verbatim>\<open>num_xflags\<close>.
\<close>

definition options_scan_entry ::
  "libc \<Rightarrow> TOC_ENTRY \<Rightarrow> PyiRuntimeOptions \<times> nat \<times> nat \<Rightarrow> PyiRuntimeOptions \<times> nat \<times> nat" where
  "options_scan_entry lc e st =
     (case st of (options, n_w, n_x) \<Rightarrow>
      if typecode e \<noteq> ARCHIVE_ITEM_RUNTIME_OPTION then st
      else if strncmp_eq (name e) ''pyi-'' 4 then st
      else if strcmp_eq (name e) ''v'' \<or> strcmp_eq (name e) ''verbose''
        then (options\<lparr>verbose := verbose options + 1\<rparr>, n_w, n_x)
      else if strcmp_eq (name e) ''u'' \<or> strcmp_eq (name e) ''unbuffered''
        then (options\<lparr>unbuffered := 1\<rparr>, n_w, n_x)
      else if strcmp_eq (name e) ''O'' \<or> strcmp_eq (name e) ''optimize''
        then (options\<lparr>optimize := optimize options + 1\<rparr>, n_w, n_x)
      else if strncmp_eq (name e) ''W '' 2 then (options, n_w + 1, n_x)
      else if strncmp_eq (name e) ''X '' 2 then (options, n_w, n_x + 1)
      else (case pyi_match_key_value_flag (name e) ''hash_seed'' of
              None \<Rightarrow> st
            | Some value_str \<Rightarrow>
                if value_str \<noteq> []
                then (options\<lparr>use_hash_seed := 1,
                               hash_seed := fst (c_strtoul lc value_str 10)\<rparr>, n_w, n_x)
                else st))"

fun options_scan ::
  "libc \<Rightarrow> TOC_ENTRY list \<Rightarrow> PyiRuntimeOptions \<times> nat \<times> nat \<Rightarrow> PyiRuntimeOptions \<times> nat \<times> nat" where
  "options_scan lc [] st = st"
| "options_scan lc (e # es) st = options_scan lc es (options_scan_entry lc e st)"

text \<open>
  The second loop: one entry. \<open>Inl\<close> is a fault, \<open>Inr None\<close> the jump to \<^verbatim>\<open>end\<close> with
  \<^verbatim>\<open>failed = 1\<close>, \<open>Inr (Some options)\<close> the structure after the entry.
\<close>

definition options_collect_entry ::
  "libc \<Rightarrow> bool \<Rightarrow> TOC_ENTRY \<Rightarrow> PyiRuntimeOptions \<Rightarrow> fault + PyiRuntimeOptions option" where
  "options_collect_entry lc use_pep741 e options =
     (if typecode e \<noteq> ARCHIVE_ITEM_RUNTIME_OPTION then Inr (Some options)
      else if strncmp_eq (name e) ''W '' 2 then
        (let flag = drop 2 (name e) in
         if use_pep741 then
           (if \<not> strdup_ok lc flag then Inr None
            else (case array_store (wflags options) (num_wflags options) (Some flag) of
                    Inl f \<Rightarrow> Inl f
                  | Inr arr \<Rightarrow>
                      Inr (Some (options\<lparr>wflags := arr, num_wflags := num_wflags options + 1\<rparr>))))
         else
           (case pyi_copy_xwflag lc flag of
              Inl f \<Rightarrow> Inl f
            | Inr (p, ok) \<Rightarrow>
                (case array_store (wflags_w options) (num_wflags options) p of
                   Inl f \<Rightarrow> Inl f
                 | Inr arr \<Rightarrow>
                     if \<not> ok then Inr None
                     else Inr (Some (options\<lparr>wflags_w := arr,
                                              num_wflags := num_wflags options + 1\<rparr>)))))
      else if strncmp_eq (name e) ''X '' 2 then
        (let flag = drop 2 (name e);
             parse = (\<lambda>o1. o1\<lparr>utf8_mode := pyi_match_and_parse_xflag flag ''utf8'' (utf8_mode o1),
                               dev_mode := pyi_match_and_parse_xflag flag ''dev'' (dev_mode o1)\<rparr>)
         in
         if use_pep741 then
           (if \<not> strdup_ok lc flag then Inr None
            else (case array_store (xflags options) (num_wflags options) (Some flag) of
                    Inl f \<Rightarrow> Inl f
                  | Inr arr \<Rightarrow>
                      Inr (Some (parse (options\<lparr>xflags := arr,
                                                 num_xflags := num_xflags options + 1\<rparr>)))))
         else
           (case pyi_copy_xwflag lc flag of
              Inl f \<Rightarrow> Inl f
            | Inr (p, ok) \<Rightarrow>
                (case array_store (xflags_w options) (num_xflags options) p of
                   Inl f \<Rightarrow> Inl f
                 | Inr arr \<Rightarrow>
                     if \<not> ok then Inr None
                     else Inr (Some (parse (options\<lparr>xflags_w := arr,
                                                     num_xflags := num_xflags options + 1\<rparr>))))))
      else Inr (Some options))"

fun options_collect ::
  "libc \<Rightarrow> bool \<Rightarrow> TOC_ENTRY list \<Rightarrow> PyiRuntimeOptions \<Rightarrow> fault + PyiRuntimeOptions option" where
  "options_collect lc use_pep741 [] options = Inr (Some options)"
| "options_collect lc use_pep741 (e # es) options =
     (case options_collect_entry lc use_pep741 e options of
        Inl f \<Rightarrow> Inl f
      | Inr None \<Rightarrow> Inr None
      | Inr (Some options') \<Rightarrow> options_collect lc use_pep741 es options')"

text \<open>
  \<^verbatim>\<open>pyi_runtime_options_read\<close>, from the flag \<^verbatim>\<open>pyi_ctx->dylib_python->has_pep741\<close> and
  the table of contents of \<^verbatim>\<open>pyi_ctx->archive\<close>. \<open>Inr None\<close> is the NULL return.
\<close>

definition pyi_runtime_options_read ::
  "libc \<Rightarrow> bool \<Rightarrow> TOC_ENTRY list \<Rightarrow> fault + PyiRuntimeOptions option" where
  "pyi_runtime_options_read lc use_pep741 entries =
     (if \<not> calloc_struct_ok lc then Inr None
      else
        (case options_scan lc entries (zeroed_options\<lparr>utf8_mode := - 1\<rparr>, 0, 0) of
           (options, n_w, n_x) \<Rightarrow>
             if use_pep741 then
               (let options1 = options\<lparr>wflags := c_calloc lc n_w, xflags := c_calloc lc n_x\<rparr> in
                if (n_w \<noteq> 0 \<and> wflags options1 = None) \<or> (n_x \<noteq> 0 \<and> xflags options1 = None)
                then Inr None
                else options_collect lc use_pep741 entries options1)
             else
               (let options1 = options\<lparr>wflags_w := c_calloc lc n_w, xflags_w := c_calloc lc n_x\<rparr> in
                if (n_w \<noteq> 0 \<and> wflags_w options1 = None) \<or> (n_x \<noteq> 0 \<and> xflags_w options1 = None)
                then Inr None
                else options_collect lc use_pep741 entries options1)))"

section \<open>The process context and the Python runtime\<close>

text \<open>
  The platform a bootloader is compiled for decides its \<^verbatim>\<open>#if\<close> branches: \<^verbatim>\<open>_WIN32\<close>,
  \<^verbatim>\<open>__APPLE__\<close>, \<^verbatim>\<open>__CYGWIN__\<close>, or none of them (the other POSIX systems).
\<close>

datatype platform = Win32 | Darwin | Cygwin | Other_POSIX

definition PYI_SEPSTR :: "platform \<Rightarrow> string" where
  "PYI_SEPSTR p = (if p = Win32 then [CHR 0x5C] else ''/'')"

text \<open>\<^verbatim>\<open>struct DYLIB_PYTHON\<close> and \<^verbatim>\<open>struct PYI_CONTEXT\<close>: the fields the modelled functions use.
  \<^verbatim>\<open>argc\<close> and \<^verbatim>\<open>pyi_argc\<close> are the lengths of the argument lists; the process levels are
  the values of the \<^verbatim>\<open>signed char\<close> fields.\<close>

record DYLIB_PYTHON =
  version :: int
  has_pep741 :: bool

record PYI_CONTEXT =
  argv :: "string list"
  argv_w :: "wstring list"
  pyi_argv :: "string list option"
  executable_filename :: string
  archive_filename :: string
  archive :: ARCHIVE
  has_splash :: bool
  suppress_splash :: bool
  is_onefile :: bool
  process_level :: int
  parent_process_level :: int
  application_home_dir :: string
  dylib_python :: DYLIB_PYTHON
  strict_unpack_mode :: bool
  nogil_enabled :: nat

text \<open>
  The configuration structure of PEP 587, \<^verbatim>\<open>PyConfig_v38\<close> to
  \<^verbatim>\<open>PyConfig_v313_GIL_DISABLED\<close>: the layouts differ, the bootloader writes the same
  fields in each, by name. The fields carry the prefix \<open>cfg_\<close> here (\<^verbatim>\<open>verbose\<close> is a
  field of the run-time options as well). A string field is NULL or a wide string.
\<close>

record PyConfig =
  cfg_program_name :: "wstring option"
  cfg_home :: "wstring option"
  cfg_module_search_paths :: "wstring list"
  cfg_module_search_paths_set :: int
  cfg_argv :: "wstring list"
  cfg_site_import :: int
  cfg_write_bytecode :: int
  cfg_configure_c_stdio :: int
  cfg_optimization_level :: int
  cfg_buffered_stdio :: int
  cfg_verbose :: int
  cfg_use_hash_seed :: int
  cfg_hash_seed :: nat
  cfg_dev_mode :: int
  cfg_warnoptions :: "wstring list"
  cfg_xoptions :: "wstring list"
  cfg_install_signal_handlers :: int

definition zeroed_config :: PyConfig where
  "zeroed_config =
     \<lparr>cfg_program_name = None, cfg_home = None, cfg_module_search_paths = [],
      cfg_module_search_paths_set = 0, cfg_argv = [], cfg_site_import = 0,
      cfg_write_bytecode = 0, cfg_configure_c_stdio = 0, cfg_optimization_level = 0,
      cfg_buffered_stdio = 0, cfg_verbose = 0, cfg_use_hash_seed = 0, cfg_hash_seed = 0,
      cfg_dev_mode = 0, cfg_warnoptions = [], cfg_xoptions = [],
      cfg_install_signal_handlers = 0\<rparr>"

text \<open>
  The configuration of PEP 741 is opaque: options are set by name, so it is a map from
  option names to the values set.
\<close>

datatype config_value = Config_Int int | Config_Str string | Config_StrList "string list"

type_synonym PyInitConfig = "string \<Rightarrow> config_value option"

text \<open>
  The Python shared library and the platform's conversion helpers (\<^verbatim>\<open>pyi_utils\<close>) are not
  part of the modelled code. Their results are parameters: what a conversion returns
  (\<open>None\<close> for NULL) and whether a call reports success. A setter that reports success has
  stored the value it was given.
\<close>

record py_runtime =
  Py_DecodeLocale :: "string \<Rightarrow> wstring option"
  pyi_win32_utf8_to_wcs :: "string \<Rightarrow> wstring option"
  pyi_win32_wcs_to_utf8 :: "wstring \<Rightarrow> string option"
  PyConfig_InitIsolatedConfig :: "PyConfig \<Rightarrow> PyConfig"
  PyConfig_SetString_ok :: "wstring \<Rightarrow> bool"
  PyConfig_SetBytesString :: "string \<Rightarrow> wstring option"
  PyConfig_SetWideStringList_ok :: "wstring list \<Rightarrow> bool"
  PyInitConfig_Create :: "PyInitConfig option"
  PyInitConfig_SetInt_ok :: "string \<Rightarrow> int \<Rightarrow> bool"
  PyInitConfig_SetStr_ok :: "string \<Rightarrow> string \<Rightarrow> bool"
  PyInitConfig_SetStrList_ok :: "string \<Rightarrow> string list \<Rightarrow> bool"
  Py_PreInitialize_ok :: "int \<Rightarrow> int \<Rightarrow> bool"
  Py_InitializeFromConfig_ok :: "PyConfig \<Rightarrow> bool"
  Py_InitializeFromInitConfig_ok :: "PyInitConfig \<Rightarrow> bool"
  PyUnicode_Decode_filename :: "string \<Rightarrow> wstring option"
  PyUnicode_FromFormat_ok :: "wstring \<Rightarrow> bool"
  PySys_SetObject_ok :: "string \<Rightarrow> wstring \<Rightarrow> bool"

subsection \<open>Formatting\<close>

text \<open>\<^verbatim>\<open>%d\<close> and \<^verbatim>\<open>%llu\<close>: decimal digits, with a minus sign for a negative \<^verbatim>\<open>int\<close>.\<close>

fun show_nat :: "nat \<Rightarrow> string" where
  "show_nat n =
     (if n < 10 then [''0123456789'' ! n]
      else show_nat (n div 10) @ [''0123456789'' ! (n mod 10)])"

declare show_nat.simps [simp del]

definition show_int :: "int \<Rightarrow> string" where
  "show_int i = (if i < 0 then CHR ''-'' # show_nat (nat (- i)) else show_nat (nat i))"

text \<open>Integer division and remainder of C truncate towards zero.\<close>

definition c_div :: "int \<Rightarrow> int \<Rightarrow> int" where
  "c_div a b = sgn a * sgn b * (\<bar>a\<bar> div \<bar>b\<bar>)"

definition c_mod :: "int \<Rightarrow> int \<Rightarrow> int" where
  "c_mod a b = a - b * c_div a b"

text \<open>
  \<^verbatim>\<open>snprintf(buf, PYI_PATH_MAX, ...) >= PYI_PATH_MAX\<close>: the formatted string does not fit
  the buffer with its terminator.
\<close>

definition snprintf_overflows :: "libc \<Rightarrow> string \<Rightarrow> bool" where
  "snprintf_overflows lc s = (length s \<ge> PYI_PATH_MAX lc)"

text \<open>
  Reading the first \<open>n\<close> strings of an array, as the runtime does with the array and the
  count it is given: undefined in C when the count exceeds the allocation or a slot is
  NULL.
\<close>

definition array_read_strings :: "'a ptr_array \<Rightarrow> nat \<Rightarrow> fault + 'a list" where
  "array_read_strings arr n =
     (let xs = array_slots arr in
      if n > length xs then Inl (Out_Of_Bounds_Read n (length xs))
      else if None \<in> set (take n xs) then Inl Null_String_Read
      else Inr (map the (take n xs)))"

section \<open>The PEP 587 configurator (\<^verbatim>\<open>pyi_pyconfig_pep587.c\<close>)\<close>

text \<open>\<^verbatim>\<open>_MAKE_VERSION_ID(version, flags)\<close> is \<^verbatim>\<open>(version << 1 | flags)\<close>.\<close>

definition MAKE_VERSION_ID :: "int \<Rightarrow> int \<Rightarrow> int" where
  "MAKE_VERSION_ID v flags = push_bit 1 v OR flags"

datatype PYCONFIG_IMPL =
    PyConfig_v38 | PyConfig_v39 | PyConfig_v310 | PyConfig_v311 | PyConfig_v312
  | PyConfig_v313 | PyConfig_v313_GIL_DISABLED

text \<open>The \<^verbatim>\<open>switch (version_id)\<close> that every helper repeats through \<^verbatim>\<open>_IMPL_CASE\<close>: the
  layout selected, \<open>None\<close> in the \<^verbatim>\<open>default\<close> case.\<close>

definition pep587_impl_case :: "int \<Rightarrow> PYCONFIG_IMPL option" where
  "pep587_impl_case version_id =
     (if version_id = MAKE_VERSION_ID 308 0 then Some PyConfig_v38
      else if version_id = MAKE_VERSION_ID 309 0 then Some PyConfig_v39
      else if version_id = MAKE_VERSION_ID 310 0 then Some PyConfig_v310
      else if version_id = MAKE_VERSION_ID 311 0 then Some PyConfig_v311
      else if version_id = MAKE_VERSION_ID 312 0 then Some PyConfig_v312
      else if version_id = MAKE_VERSION_ID 313 0 then Some PyConfig_v313
      else if version_id = MAKE_VERSION_ID 313 1 then Some PyConfig_v313_GIL_DISABLED
      else None)"

definition context_version_id :: "PYI_CONTEXT \<Rightarrow> int" where
  "context_version_id pyi_ctx =
     MAKE_VERSION_ID (version (dylib_python pyi_ctx)) (int (nogil_enabled pyi_ctx))"





text \<open>\<^verbatim>\<open>_pyi_pyconfig_set_module_search_paths\<close>: the flag is set whatever the status of
  \<^verbatim>\<open>PyConfig_SetWideStringList\<close>.\<close>

definition pyi_pyconfig_set_module_search_paths ::
  "py_runtime \<Rightarrow> PYI_CONTEXT \<Rightarrow> PyConfig \<Rightarrow> wstring list \<Rightarrow> int \<times> PyConfig" where
  "pyi_pyconfig_set_module_search_paths rt pyi_ctx config paths =
     (case pep587_impl_case (context_version_id pyi_ctx) of
        Some impl \<Rightarrow>
          if PyConfig_SetWideStringList_ok rt paths
          then (0, config\<lparr>cfg_module_search_paths := paths, cfg_module_search_paths_set := 1\<rparr>)
          else (- 1, config\<lparr>cfg_module_search_paths_set := 1\<rparr>)
      | None \<Rightarrow> (- 1, config))"

text \<open>The three paths, as narrow strings, from \<^verbatim>\<open>application_home_dir\<close> and the version.\<close>

definition base_library_path :: "platform \<Rightarrow> string \<Rightarrow> string" where
  "base_library_path plat home_dir = home_dir @ PYI_SEPSTR plat @ ''base_library.zip''"

definition lib_dynload_path :: "platform \<Rightarrow> string \<Rightarrow> int \<Rightarrow> string" where
  "lib_dynload_path plat home_dir ver =
     home_dir @ PYI_SEPSTR plat @ ''python'' @ show_int (c_div ver 100) @ ''.''
       @ show_int (c_mod ver 100) @ PYI_SEPSTR plat @ ''lib-dynload''"

definition pyi_pyconfig_pep587_set_module_search_paths ::
  "libc \<Rightarrow> py_runtime \<Rightarrow> platform \<Rightarrow> PYI_CONTEXT \<Rightarrow> PyConfig \<Rightarrow> int \<times> PyConfig" where
  "pyi_pyconfig_pep587_set_module_search_paths lc rt plat pyi_ctx config =
     (let ver = version (dylib_python pyi_ctx);
          home_dir = application_home_dir pyi_ctx;
          base_library = base_library_path plat home_dir;
          lib_dynload = lib_dynload_path plat home_dir ver
      in
      if snprintf_overflows lc base_library then (- 1, config)
      else if snprintf_overflows lc lib_dynload then (- 1, config)
      else
        (let module_search_paths = [base_library, lib_dynload, home_dir];
             module_search_paths_w =
               map (if plat = Win32 then pyi_win32_utf8_to_wcs rt else Py_DecodeLocale rt)
                 module_search_paths
         in
         if None \<in> set module_search_paths_w then (- 1, config)
         else pyi_pyconfig_set_module_search_paths rt pyi_ctx config
                (map the module_search_paths_w)))"



text \<open>
  \<^verbatim>\<open>pyi_pyconfig_pep587_set_runtime_options\<close>. A flag list is passed to
  \<^verbatim>\<open>PyConfig_SetWideStringList\<close> only when its count is not zero. The result of setting
  one list: a fault, \<open>None\<close> for an exception status, or the new value of the field.
\<close>

definition pep587_set_flag_list ::
  "py_runtime \<Rightarrow> nat \<Rightarrow> wstring ptr_array \<Rightarrow> wstring list \<Rightarrow> fault + wstring list option" where
  "pep587_set_flag_list rt n arr old =
     (if n = 0 then Inr (Some old)
      else (case array_read_strings arr n of
              Inl f \<Rightarrow> Inl f
            | Inr items \<Rightarrow>
                if PyConfig_SetWideStringList_ok rt items then Inr (Some items) else Inr None))"

definition pyi_pyconfig_pep587_set_runtime_options ::
  "py_runtime \<Rightarrow> PYI_CONTEXT \<Rightarrow> PyConfig \<Rightarrow> PyiRuntimeOptions \<Rightarrow> fault + int \<times> PyConfig" where
  "pyi_pyconfig_pep587_set_runtime_options rt pyi_ctx config runtime_options =
     (case pep587_impl_case (context_version_id pyi_ctx) of
        None \<Rightarrow> Inr (- 1, config)
      | Some impl \<Rightarrow>
          (let c1 = config\<lparr>cfg_site_import := 0,
                           cfg_write_bytecode := 0,
                           cfg_configure_c_stdio := 1,
                           cfg_optimization_level := optimize runtime_options,
                           cfg_buffered_stdio := (if unbuffered runtime_options = 0 then 1 else 0),
                           cfg_verbose := verbose runtime_options,
                           cfg_use_hash_seed := use_hash_seed runtime_options,
                           cfg_hash_seed := hash_seed runtime_options,
                           cfg_dev_mode := dev_mode runtime_options\<rparr>
           in
           case pep587_set_flag_list rt (num_wflags runtime_options) (wflags_w runtime_options)
                  (cfg_warnoptions c1) of
             Inl f \<Rightarrow> Inl f
           | Inr None \<Rightarrow> Inr (- 1, c1)
           | Inr (Some ws) \<Rightarrow>
               (let c2 = c1\<lparr>cfg_warnoptions := ws\<rparr> in
                case pep587_set_flag_list rt (num_xflags runtime_options)
                       (xflags_w runtime_options) (cfg_xoptions c2) of
                  Inl f \<Rightarrow> Inl f
                | Inr None \<Rightarrow> Inr (- 1, c2)
                | Inr (Some xs) \<Rightarrow>
                    Inr (0, c2\<lparr>cfg_xoptions := xs, cfg_install_signal_handlers := 1\<rparr>))))"

section \<open>The PEP 741 configurator (\<^verbatim>\<open>pyi_pyconfig_pep741.c\<close>)\<close>

text \<open>
  \<^verbatim>\<open>_wchar_to_utf8\<close>. One code unit, or a UTF-16 surrogate pair, becomes one to four bytes;
  the cast \<^verbatim>\<open>(char)\<close> keeps the low eight bits.
\<close>

definition utf8_encode :: "int \<Rightarrow> string" where
  "utf8_encode ch =
     (if ch < 0x80 then [char_of ch]
      else if ch < 0x0800 then
        [char_of (0xc0 OR drop_bit 6 ch), char_of (0x80 OR (ch AND 0x3f))]
      else if ch < 0x10000 then
        [char_of (0xe0 OR drop_bit 12 ch), char_of (0x80 OR (drop_bit 6 ch AND 0x3f)),
         char_of (0x80 OR (ch AND 0x3f))]
      else
        [char_of (0xf0 OR drop_bit 18 ch), char_of (0x80 OR (drop_bit 12 ch AND 0x3f)),
         char_of (0x80 OR (drop_bit 6 ch AND 0x3f)), char_of (0x80 OR (ch AND 0x3f))])"

fun wchar_to_utf8_loop :: "wstring \<Rightarrow> string" where
  "wchar_to_utf8_loop [] = []"
| "wchar_to_utf8_loop [ch] = utf8_encode ch"
| "wchar_to_utf8_loop (ch # next_ch # rest) =
     (if 0xD800 \<le> ch \<and> ch \<le> 0xDBFF \<and> 0xDC00 \<le> next_ch \<and> next_ch \<le> 0xDFFF
      then utf8_encode (0x10000 + (push_bit 10 (ch AND 0x03FF) OR (next_ch AND 0x03FF)))
             @ wchar_to_utf8_loop rest
      else utf8_encode ch @ wchar_to_utf8_loop (next_ch # rest))"

definition wchar_to_utf8 :: "libc \<Rightarrow> wstring \<Rightarrow> string option" where
  "wchar_to_utf8 lc string_w =
     (let len = length string_w in
      if len + 1 > SIZE_MAX lc div 4 then None
      else if \<not> malloc_ok lc ((len + 1) * 4) then None
      else Some (wchar_to_utf8_loop string_w))"

text \<open>
  \<^verbatim>\<open>_locale_encoding_to_utf8\<close>, with the size of the output buffer when one is given. With
  a buffer, a NULL result of \<^verbatim>\<open>_wchar_to_utf8\<close> reaches \<^verbatim>\<open>snprintf("%s")\<close>, which C leaves
  undefined.
\<close>

definition locale_encoding_to_utf8 ::
  "libc \<Rightarrow> py_runtime \<Rightarrow> string \<Rightarrow> nat option \<Rightarrow> fault + string option" where
  "locale_encoding_to_utf8 lc rt str output_buffer_size =
     (case Py_DecodeLocale rt str of
        None \<Rightarrow> Inr None
      | Some string_w \<Rightarrow>
          (case output_buffer_size of
             Some buffer_size \<Rightarrow>
               (case wchar_to_utf8 lc string_w of
                  None \<Rightarrow> Inl Null_String_Read
                | Some string_utf8 \<Rightarrow>
                    if length string_utf8 \<ge> buffer_size then Inr None
                    else Inr (Some string_utf8))
           | None \<Rightarrow> Inr (wchar_to_utf8 lc string_w)))"

text \<open>
  The helpers return their status, the configuration, and the messages they pass to
  \<^verbatim>\<open>PYI_ERROR\<close> (the format strings, without the arguments and the newline).
\<close>

type_synonym pep741_result = "fault + int \<times> PyInitConfig \<times> string list"



text \<open>The home directory in UTF-8: copied on Windows, converted elsewhere; \<open>Inr None\<close> is
  the failure of either, with its message.\<close>

definition pep741_home_dir_utf8 ::
  "libc \<Rightarrow> py_runtime \<Rightarrow> platform \<Rightarrow> PYI_CONTEXT \<Rightarrow> fault + (string + string)" where
  "pep741_home_dir_utf8 lc rt plat pyi_ctx =
     (if plat = Win32 then
        (if snprintf_overflows lc (application_home_dir pyi_ctx)
         then Inr (Inl ''Failed to copy path to application home directory - path is too long!'')
         else Inr (Inr (application_home_dir pyi_ctx)))
      else
        (case locale_encoding_to_utf8 lc rt (application_home_dir pyi_ctx)
                (Some (PYI_PATH_MAX lc)) of
           Inl f \<Rightarrow> Inl f
         | Inr None \<Rightarrow>
             Inr (Inl ''Failed to convert path to application home directory to UTF-8!'')
         | Inr (Some s) \<Rightarrow> Inr (Inr s)))"

definition pyi_pyconfig_pep741_set_module_search_paths ::
  "libc \<Rightarrow> py_runtime \<Rightarrow> platform \<Rightarrow> PYI_CONTEXT \<Rightarrow> PyInitConfig \<Rightarrow> pep741_result" where
  "pyi_pyconfig_pep741_set_module_search_paths lc rt plat pyi_ctx config =
     (case pep741_home_dir_utf8 lc rt plat pyi_ctx of
        Inl f \<Rightarrow> Inl f
      | Inr (Inl msg) \<Rightarrow> Inr (- 1, config, [msg])
      | Inr (Inr home_dir_utf8) \<Rightarrow>
          (let ver = version (dylib_python pyi_ctx);
               base_library_path_utf8 = base_library_path plat home_dir_utf8;
               lib_dynload_path_utf8 = lib_dynload_path plat home_dir_utf8 ver
           in
           if snprintf_overflows lc base_library_path_utf8 then
             Inr (- 1, config,
                  [''Failed to construct path to base_library.zip - path is too long!''])
           else if snprintf_overflows lc lib_dynload_path_utf8 then
             Inr (- 1, config,
                  [''Failed to construct path to lib-dynload directory - path is too long!''])
           else
             (let module_search_paths_utf8 =
                    [base_library_path_utf8, lib_dynload_path_utf8, home_dir_utf8] in
              if \<not> PyInitConfig_SetStrList_ok rt ''module_search_paths'' module_search_paths_utf8
              then Inr (- 1, config, [''Failed to set module search paths: %s''])
              else Inr (0, config(''module_search_paths'' \<mapsto>
                                    Config_StrList module_search_paths_utf8), []))))"




text \<open>
  \<^verbatim>\<open>pyi_pyconfig_pep741_set_runtime_options\<close>: ten calls of \<^verbatim>\<open>PyInitConfig_SetInt\<close>, each
  followed by the same error return, then the two flag lists. The \<^verbatim>\<open>unsigned long\<close> hash
  seed is converted to the \<^verbatim>\<open>int64_t\<close> parameter.
\<close>

definition set_failed_message :: "string \<Rightarrow> string" where
  "set_failed_message nm = ''Failed to set '' @ [CHR 0x27] @ nm @ [CHR 0x27] @ '': %s''"

fun pep741_set_ints ::
  "py_runtime \<Rightarrow> PyInitConfig \<Rightarrow> (string \<times> int) list \<Rightarrow> int \<times> PyInitConfig \<times> string list" where
  "pep741_set_ints rt config [] = (0, config, [])"
| "pep741_set_ints rt config ((nm, v) # rest) =
     (if \<not> PyInitConfig_SetInt_ok rt nm v then (- 1, config, [set_failed_message nm])
      else pep741_set_ints rt (config(nm \<mapsto> Config_Int v)) rest)"

definition pep741_runtime_ints :: "PyiRuntimeOptions \<Rightarrow> (string \<times> int) list" where
  "pep741_runtime_ints runtime_options =
     [(''site_import'', 0),
      (''write_bytecode'', 0),
      (''configure_c_stdio'', 0),
      (''optimization_level'', optimize runtime_options),
      (''buffered_stdio'', if unbuffered runtime_options = 0 then 1 else 0),
      (''verbose'', verbose runtime_options),
      (''use_hash_seed'', use_hash_seed runtime_options),
      (''hash_seed'', signed_take_bit 63 (int (hash_seed runtime_options))),
      (''dev_mode'', dev_mode runtime_options),
      (''install_signal_handlers'', 1)]"

definition pyi_pyconfig_pep741_set_runtime_options ::
  "py_runtime \<Rightarrow> PyInitConfig \<Rightarrow> PyiRuntimeOptions \<Rightarrow> pep741_result" where
  "pyi_pyconfig_pep741_set_runtime_options rt config runtime_options =
     (case pep741_set_ints rt config (pep741_runtime_ints runtime_options) of
        (r, c1, errs) \<Rightarrow>
          if r < 0 then Inr (- 1, c1, errs)
          else
            (case array_read_strings (wflags runtime_options) (num_wflags runtime_options) of
               Inl f \<Rightarrow> Inl f
             | Inr ws \<Rightarrow>
                 if \<not> PyInitConfig_SetStrList_ok rt ''warnoptions'' ws
                 then Inr (- 1, c1, [set_failed_message ''warnoptions''])
                 else
                   (let c2 = c1(''warnoptions'' \<mapsto> Config_StrList ws) in
                    case array_read_strings (xflags runtime_options)
                           (num_xflags runtime_options) of
                      Inl f \<Rightarrow> Inl f
                    | Inr xs \<Rightarrow>
                        if \<not> PyInitConfig_SetStrList_ok rt ''xoptions'' xs
                        then Inr (- 1, c2, [set_failed_message ''xoptions''])
                        else Inr (0, c2(''xoptions'' \<mapsto> Config_StrList xs), []))))"

section \<open>Starting the interpreter (\<^verbatim>\<open>pyi_python.c\<close>)\<close>












text \<open>
  \<^verbatim>\<open>pyi_python_install_pyz\<close>, on the attributes of the \<^verbatim>\<open>sys\<close> module (Python strings are
  lists of code points). The result is the return value, the attributes and the messages.
  The loop stops at the first entry of type PYZ. A NULL file name object is passed on to
  \<^verbatim>\<open>PyUnicode_FromFormat("%U?%llu")\<close>, which reads it. The sum is computed in
  \<^verbatim>\<open>unsigned long long\<close>.
\<close>

definition pyi_python_install_pyz ::
  "py_runtime \<Rightarrow> PYI_CONTEXT \<Rightarrow> (string \<Rightarrow> wstring option)
     \<Rightarrow> fault + int \<times> (string \<Rightarrow> wstring option) \<times> string list" where
  "pyi_python_install_pyz rt pyi_ctx sys_attrs =
     (case find (\<lambda>e. typecode e = ARCHIVE_ITEM_PYZ) (toc (archive pyi_ctx)) of
        None \<Rightarrow> Inr (- 1, sys_attrs, [''PYZ archive entry not found in the TOC!''])
      | Some toc_entry \<Rightarrow>
          (case PyUnicode_Decode_filename rt (archive_filename pyi_ctx) of
             None \<Rightarrow> Inl Null_String_Read
           | Some archive_filename_obj \<Rightarrow>
               (let pyz_offset = pkg_offset (archive pyi_ctx) + ucast (offset toc_entry);
                    pyz_path_obj =
                      archive_filename_obj @ map of_char (''?'' @ show_nat (unat pyz_offset))
                in
                if \<not> PyUnicode_FromFormat_ok rt pyz_path_obj then
                  Inr (- 1, sys_attrs, [''Failed to format PYZ archive path and offset''])
                else if \<not> PySys_SetObject_ok rt ''_pyinstaller_pyz'' pyz_path_obj then
                  Inr (- 1, sys_attrs, [''Failed to store path to PYZ archive into sys.%s!''])
                else Inr (0, sys_attrs(''_pyinstaller_pyz'' \<mapsto> pyz_path_obj), []))))"

section \<open>The orchestrator (\<^verbatim>\<open>pyi_main.c\<close>)\<close>

text \<open>The values of \<^verbatim>\<open>enum PYI_PROCESS_LEVEL\<close>.\<close>

definition PYI_PROCESS_LEVEL_UNKNOWN :: int where
  "PYI_PROCESS_LEVEL_UNKNOWN = - 2"

definition PYI_PROCESS_LEVEL_PARENT_NEEDS_RESTART :: int where
  "PYI_PROCESS_LEVEL_PARENT_NEEDS_RESTART = - 1"

definition PYI_PROCESS_LEVEL_PARENT :: int where
  "PYI_PROCESS_LEVEL_PARENT = 0"

definition PYI_PROCESS_LEVEL_MAIN :: int where
  "PYI_PROCESS_LEVEL_MAIN = 1"

definition PYI_PROCESS_LEVEL_SUBPROCESS :: int where
  "PYI_PROCESS_LEVEL_SUBPROCESS = 2"

text \<open>
  The environment of the process is a map from variable names to values. The helpers
  \<^verbatim>\<open>pyi_getenv\<close>, \<^verbatim>\<open>pyi_setenv\<close> and \<^verbatim>\<open>pyi_unsetenv\<close> belong to the platform port, which
  is not among the sources: \<^verbatim>\<open>pyi_getenv\<close> is the lookup (NULL for an unset variable),
  \<^verbatim>\<open>pyi_unsetenv\<close> removes the variable, and \<^verbatim>\<open>pyi_setenv\<close> stores the value unless the
  system call fails. Whether it fails, what the two resolution steps at the start of
  \<^verbatim>\<open>pyi_main\<close> make of the context, and whether the build is one for Linux, are
  parameters.
\<close>

type_synonym environ = "string \<Rightarrow> string option"

record os_calls =
  resolve_executable :: "PYI_CONTEXT \<Rightarrow> PYI_CONTEXT option"
  resolve_pkg_archive :: "PYI_CONTEXT \<Rightarrow> PYI_CONTEXT option"
  setenv_ok :: "string \<Rightarrow> string \<Rightarrow> bool"
  is_linux :: bool

definition pyi_setenv :: "os_calls \<Rightarrow> environ \<Rightarrow> string \<Rightarrow> string \<Rightarrow> int \<times> environ" where
  "pyi_setenv os env var val =
     (if setenv_ok os var val then (0, env(var \<mapsto> val)) else (- 1, env))"

text \<open>The flags \<^verbatim>\<open>is_onefile\<close>, \<^verbatim>\<open>has_splash\<close> and \<^verbatim>\<open>suppress_splash\<close>.\<close>

definition pyi_main_splash_flags :: "environ \<Rightarrow> PYI_CONTEXT \<Rightarrow> PYI_CONTEXT" where
  "pyi_main_splash_flags env pyi_ctx =
     (let c1 = pyi_ctx\<lparr>is_onefile := contains_extractable_entries (archive pyi_ctx),
                       has_splash := (toc_splash (archive pyi_ctx) \<noteq> None)\<rparr>
      in if has_splash c1 then
           (case env ''PYINSTALLER_SUPPRESS_SPLASH_SCREEN'' of
              Some env_var_value \<Rightarrow> c1\<lparr>suppress_splash := strcmp_eq env_var_value ''1''\<rparr>
            | None \<Rightarrow> c1)
         else c1)"

text \<open>The environment reset: requested with \<^verbatim>\<open>PYINSTALLER_RESET_ENVIRONMENT=1\<close>, or done
  because \<^verbatim>\<open>_PYI_ARCHIVE_FILE\<close> is unset or names another archive.\<close>

definition pyi_main_reset_environment ::
  "os_calls \<Rightarrow> platform \<Rightarrow> PYI_CONTEXT \<Rightarrow> environ \<Rightarrow> environ" where
  "pyi_main_reset_environment os plat pyi_ctx env =
     (let requested =
            (case env ''PYINSTALLER_RESET_ENVIRONMENT'' of
               Some env_var_value \<Rightarrow> strcmp_eq env_var_value ''1''
             | None \<Rightarrow> False);
          env1 = env(''PYINSTALLER_RESET_ENVIRONMENT'' := None);
          reset_environment =
            (if requested then True
             else (case env1 ''_PYI_ARCHIVE_FILE'' of
                     Some env_var_value \<Rightarrow> \<not> strcmp_eq (archive_filename pyi_ctx) env_var_value
                   | None \<Rightarrow> True))
      in if reset_environment then
           (let env2 = snd (pyi_setenv os env1 ''_PYI_ARCHIVE_FILE'' (archive_filename pyi_ctx));
                env3 = env2(''_PYI_APPLICATION_HOME_DIR'' := None,
                            ''_PYI_PARENT_PROCESS_LEVEL'' := None,
                            ''_PYI_SPLASH_IPC'' := None)
            in if plat = Other_POSIX \<and> is_linux os
               then env3(''_PYI_LINUX_PROCESS_NAME'' := None) else env3)
         else env1)"

text \<open>
  Reading \<^verbatim>\<open>_PYI_PARENT_PROCESS_LEVEL\<close>: the level of the parent process, or the message
  of the error return. The cast to \<^verbatim>\<open>signed char\<close> keeps the low eight bits.
\<close>

definition pyi_main_read_parent_level :: "libc \<Rightarrow> environ \<Rightarrow> string + int" where
  "pyi_main_read_parent_level lc env =
     (case env ''_PYI_PARENT_PROCESS_LEVEL'' of
        None \<Rightarrow> Inr PYI_PROCESS_LEVEL_UNKNOWN
      | Some env_var_value \<Rightarrow>
          if env_var_value = [] then Inr PYI_PROCESS_LEVEL_UNKNOWN
          else (case c_strtol lc env_var_value 0 of
                  (n, endptr) \<Rightarrow>
                    if endptr \<noteq> [] then Inl ''Invalid value in _PYI_PARENT_PROCESS_LEVEL: %s''
                    else Inr (signed_take_bit 7 n)))"

text \<open>
  The \<^verbatim>\<open>switch\<close> on the parent's level: this process's level, or the message of the
  \<^verbatim>\<open>default\<close> case. The case \<^verbatim>\<open>PYI_PROCESS_LEVEL_PARENT_NEEDS_RESTART\<close> is compiled only
  where none of \<^verbatim>\<open>_WIN32\<close>, \<^verbatim>\<open>__APPLE__\<close>, \<^verbatim>\<open>__CYGWIN__\<close> is defined.
\<close>

definition pyi_main_resolve_level :: "platform \<Rightarrow> PYI_CONTEXT \<Rightarrow> string + int" where
  "pyi_main_resolve_level plat pyi_ctx =
     (if parent_process_level pyi_ctx = PYI_PROCESS_LEVEL_UNKNOWN then
        (if is_onefile pyi_ctx then
           (if plat \<noteq> Other_POSIX then Inr PYI_PROCESS_LEVEL_PARENT
            else if has_splash pyi_ctx \<and> \<not> suppress_splash pyi_ctx
              then Inr PYI_PROCESS_LEVEL_PARENT_NEEDS_RESTART
            else Inr PYI_PROCESS_LEVEL_PARENT)
         else
           (if plat \<noteq> Other_POSIX then Inr PYI_PROCESS_LEVEL_MAIN
            else Inr PYI_PROCESS_LEVEL_PARENT_NEEDS_RESTART))
      else if plat = Other_POSIX
              \<and> parent_process_level pyi_ctx = PYI_PROCESS_LEVEL_PARENT_NEEDS_RESTART then
        (if is_onefile pyi_ctx then Inr PYI_PROCESS_LEVEL_PARENT
         else Inr PYI_PROCESS_LEVEL_MAIN)
      else if parent_process_level pyi_ctx = PYI_PROCESS_LEVEL_PARENT then
        Inr PYI_PROCESS_LEVEL_MAIN
      else if parent_process_level pyi_ctx = PYI_PROCESS_LEVEL_MAIN then
        Inr PYI_PROCESS_LEVEL_SUBPROCESS
      else Inl ''Invalid parent process level: %d'')"

text \<open>Publishing the level for child processes, unless it is that of a sub-process.\<close>

definition pyi_main_publish_level :: "os_calls \<Rightarrow> environ \<Rightarrow> int \<Rightarrow> string + environ" where
  "pyi_main_publish_level os env level =
     (if level < PYI_PROCESS_LEVEL_SUBPROCESS then
        (case pyi_setenv os env ''_PYI_PARENT_PROCESS_LEVEL'' (show_int level) of
           (r, env') \<Rightarrow>
             if r < 0 then Inl ''Failed to set _PYI_PARENT_PROCESS_LEVEL environment variable!''
             else Inr env')
      else Inr env)"

text \<open>
  \<^verbatim>\<open>pyi_main\<close> up to the publication of the level: the messages and the environment of
  an error return, or the context and the environment with which \<^verbatim>\<open>pyi_main\<close> goes on.
  The two resolution steps report their own errors.
\<close>

definition pyi_main_roles ::
  "os_calls \<Rightarrow> libc \<Rightarrow> platform \<Rightarrow> PYI_CONTEXT \<Rightarrow> environ
     \<Rightarrow> (string list \<times> environ) + (PYI_CONTEXT \<times> environ)" where
  "pyi_main_roles os lc plat pyi_ctx env =
     (case resolve_executable os pyi_ctx of
        None \<Rightarrow> Inl ([], env)
      | Some c1 \<Rightarrow>
          (case resolve_pkg_archive os c1 of
             None \<Rightarrow> Inl ([], env)
           | Some c2 \<Rightarrow>
               (let c3 = pyi_main_splash_flags env c2;
                    env1 = pyi_main_reset_environment os plat c3 env
                in case pyi_main_read_parent_level lc env1 of
                     Inl msg \<Rightarrow> Inl ([msg], env1)
                   | Inr parent \<Rightarrow>
                       (let c4 = c3\<lparr>parent_process_level := parent\<rparr> in
                        case pyi_main_resolve_level plat c4 of
                          Inl msg \<Rightarrow> Inl ([msg], env1)
                        | Inr level \<Rightarrow>
                            (let c5 = c4\<lparr>process_level := level\<rparr> in
                             case pyi_main_publish_level os env1 level of
                               Inl msg \<Rightarrow> Inl ([msg], env1)
                             | Inr env2 \<Rightarrow> Inr (c5, env2))))))"

text \<open>
  \<^verbatim>\<open>pyi_main\<close>: the return value, the environment and the messages. Everything after the
  publication of the level (reading the remaining options, the application directory, the
  library search path and the restart with \<^verbatim>\<open>execvp\<close>, the splash screen, and the parent
  or child code path with \<^verbatim>\<open>pyi_utils_create_child\<close>) is the parameter \<open>continue\<close>: no
  process is spawned or replaced before it.
\<close>

definition pyi_main ::
  "os_calls \<Rightarrow> libc \<Rightarrow> platform \<Rightarrow> (PYI_CONTEXT \<Rightarrow> environ \<Rightarrow> int \<times> environ \<times> string list)
     \<Rightarrow> PYI_CONTEXT \<Rightarrow> environ \<Rightarrow> int \<times> environ \<times> string list" where
  "pyi_main os lc plat continue pyi_ctx env =
     (case pyi_main_roles os lc plat pyi_ctx env of
        Inl (errs, env') \<Rightarrow> (- 1, env', errs)
      | Inr (pyi_ctx', env') \<Rightarrow> continue pyi_ctx' env')"

subsection \<open>The role table of the specification\<close>

text \<open>
  The role table, written row by row from its statement and not from the \<^verbatim>\<open>switch\<close>
  above, for comparison with it: the columns are the mode of the application with the class
  of the platform, the rows the level of the parent process. A parent of level
  \<open>PARENT_NEEDS_RESTART\<close> has a role only on the other POSIX platforms, where it gives
  \<open>PARENT\<close> in single-file mode and \<open>MAIN\<close> in directory mode; a parent of level \<open>PARENT\<close>
  gives \<open>MAIN\<close> and one of level \<open>MAIN\<close> gives \<open>SUBPROCESS\<close> in every column. \<open>None\<close> is a
  level that is rejected.
\<close>

datatype role_column =
    Single_File_Win32_Darwin_Cygwin
  | Single_File_Other_Posix_Splash
  | Single_File_Other_Posix_No_Splash
  | Directory_Win32_Darwin_Cygwin
  | Directory_Other_Posix

definition role_column_of :: "platform \<Rightarrow> bool \<Rightarrow> bool \<Rightarrow> role_column" where
  "role_column_of plat single_file splash_eligible =
     (if single_file then
        (if plat \<noteq> Other_POSIX then Single_File_Win32_Darwin_Cygwin
         else if splash_eligible then Single_File_Other_Posix_Splash
         else Single_File_Other_Posix_No_Splash)
      else (if plat \<noteq> Other_POSIX then Directory_Win32_Darwin_Cygwin else Directory_Other_Posix))"

definition spec_role_table :: "int \<Rightarrow> role_column \<Rightarrow> int option" where
  "spec_role_table parent col =
     (if parent = PYI_PROCESS_LEVEL_UNKNOWN then
        (case col of
           Single_File_Win32_Darwin_Cygwin \<Rightarrow> Some PYI_PROCESS_LEVEL_PARENT
         | Single_File_Other_Posix_Splash \<Rightarrow> Some PYI_PROCESS_LEVEL_PARENT_NEEDS_RESTART
         | Single_File_Other_Posix_No_Splash \<Rightarrow> Some PYI_PROCESS_LEVEL_PARENT
         | Directory_Win32_Darwin_Cygwin \<Rightarrow> Some PYI_PROCESS_LEVEL_MAIN
         | Directory_Other_Posix \<Rightarrow> Some PYI_PROCESS_LEVEL_PARENT_NEEDS_RESTART)
      else if parent = PYI_PROCESS_LEVEL_PARENT_NEEDS_RESTART then
        (case col of
           Single_File_Win32_Darwin_Cygwin \<Rightarrow> None
         | Single_File_Other_Posix_Splash \<Rightarrow> Some PYI_PROCESS_LEVEL_PARENT
         | Single_File_Other_Posix_No_Splash \<Rightarrow> Some PYI_PROCESS_LEVEL_PARENT
         | Directory_Win32_Darwin_Cygwin \<Rightarrow> None
         | Directory_Other_Posix \<Rightarrow> Some PYI_PROCESS_LEVEL_MAIN)
      else if parent = PYI_PROCESS_LEVEL_PARENT then Some PYI_PROCESS_LEVEL_MAIN
      else if parent = PYI_PROCESS_LEVEL_MAIN then Some PYI_PROCESS_LEVEL_SUBPROCESS
      else None)"

text \<open>Concrete inputs: system calls that succeed, on a build for Linux.\<close>

definition os_ok :: os_calls where
  "os_ok = \<lparr>resolve_executable = Some, resolve_pkg_archive = Some, setenv_ok = (\<lambda>_ _. True),
            is_linux = True\<rparr>"

text \<open>
  The arguments of the W-flag and X-flag entries of a table of contents, in its order: what
  the second loop passes through.
\<close>

definition wflag_args :: "TOC_ENTRY list \<Rightarrow> string list" where
  "wflag_args entries =
     map (\<lambda>e. drop 2 (name e))
       (filter (\<lambda>e. typecode e = ARCHIVE_ITEM_RUNTIME_OPTION \<and> strncmp_eq (name e) ''W '' 2)
          entries)"

definition xflag_args :: "TOC_ENTRY list \<Rightarrow> string list" where
  "xflag_args entries =
     map (\<lambda>e. drop 2 (name e))
       (filter (\<lambda>e. typecode e = ARCHIVE_ITEM_RUNTIME_OPTION \<and> strncmp_eq (name e) ''X '' 2)
          entries)"

text \<open>
  Concrete inputs for the examples: a C library in which every allocation succeeds and
  \<^verbatim>\<open>mbstowcs\<close> maps each byte to its code (the C locale on ASCII), and a run-time option
  entry with a given name.
\<close>

definition libc_ok :: libc where
  "libc_ok =
     \<lparr>calloc_struct_ok = True, calloc_zero_null = False, calloc_ok = (\<lambda>_. True),
      malloc_ok = (\<lambda>_. True), strdup_ok = (\<lambda>_. True), wcsdup_ok = (\<lambda>_. True),
      mbstowcs = (\<lambda>s. Some (map of_char s)), PYI_PATH_MAX = 4096, LONG_BIT = 64,
      SIZE_MAX = 2 ^ 64 - 1\<rparr>"

definition option_entry :: "string \<Rightarrow> TOC_ENTRY" where
  "option_entry n =
     \<lparr>typecode = ARCHIVE_ITEM_RUNTIME_OPTION, name = n, offset = 0, uncompressed_length = 0\<rparr>"

definition toc_w_x_x :: "TOC_ENTRY list" where
  "toc_w_x_x = [option_entry ''W a'', option_entry ''X b'', option_entry ''X c'']"

definition toc_w_x :: "TOC_ENTRY list" where
  "toc_w_x = [option_entry ''W a'', option_entry ''X b'']"

definition toc_modes :: "TOC_ENTRY list" where
  "toc_modes =
     [option_entry ''W a'', option_entry ''X utf8=0'', option_entry ''X dev'', option_entry ''v'']"

definition toc_x_w_x :: "TOC_ENTRY list" where
  "toc_x_w_x = [option_entry ''X utf8'', option_entry ''W a'', option_entry ''X dev=0'']"

definition options_w_x_x :: PyiRuntimeOptions where
  "options_w_x_x =
     \<lparr>verbose = 0, unbuffered = 0, optimize = 0, use_hash_seed = 0, hash_seed = 0,
      utf8_mode = - 1, dev_mode = 0,
      num_wflags = 1, wflags = Some [Some ''a''], wflags_w = None,
      num_xflags = 2, xflags = Some [None, Some ''c''], xflags_w = None\<rparr>"

definition options_modes :: PyiRuntimeOptions where
  "options_modes =
     \<lparr>verbose = 1, unbuffered = 0, optimize = 0, use_hash_seed = 0, hash_seed = 0,
      utf8_mode = 0, dev_mode = 1,
      num_wflags = 1, wflags = None, wflags_w = Some [Some [97]],
      num_xflags = 2, xflags = None,
      xflags_w = Some [Some [117, 116, 102, 56, 61, 48], Some [100, 101, 118]]\<rparr>"

definition options_x_w_x :: PyiRuntimeOptions where
  "options_x_w_x =
     \<lparr>verbose = 0, unbuffered = 0, optimize = 0, use_hash_seed = 0, hash_seed = 0,
      utf8_mode = 1, dev_mode = 0,
      num_wflags = 1, wflags = Some [Some ''a''], wflags_w = None,
      num_xflags = 2, xflags = Some [Some ''utf8'', Some ''dev=0''], xflags_w = None\<rparr>"

definition toc_x_x :: "TOC_ENTRY list" where
  "toc_x_x = [option_entry ''X a'', option_entry ''X b'']"

definition options_x_x :: PyiRuntimeOptions where
  "options_x_x =
     \<lparr>verbose = 0, unbuffered = 0, optimize = 0, use_hash_seed = 0, hash_seed = 0,
      utf8_mode = - 1, dev_mode = 0,
      num_wflags = 0, wflags = Some [], wflags_w = None,
      num_xflags = 2, xflags = Some [Some ''b'', None], xflags_w = None\<rparr>"

text \<open>
  More concrete inputs: a Python library in which every call succeeds and every
  conversion maps a byte to its code point, a process context for a directory-mode
  application in \<^verbatim>\<open>/opt/app\<close>, and a PYZ entry at a given offset.
\<close>

definition py_runtime_ok :: py_runtime where
  "py_runtime_ok =
     \<lparr>Py_DecodeLocale = (\<lambda>s. Some (map of_char s)),
      pyi_win32_utf8_to_wcs = (\<lambda>s. Some (map of_char s)),
      pyi_win32_wcs_to_utf8 = (\<lambda>w. Some (wchar_to_utf8_loop w)),
      PyConfig_InitIsolatedConfig =
        (\<lambda>c. c\<lparr>cfg_site_import := 1, cfg_write_bytecode := 1, cfg_buffered_stdio := 1\<rparr>),
      PyConfig_SetString_ok = (\<lambda>_. True),
      PyConfig_SetBytesString = (\<lambda>s. Some (map of_char s)),
      PyConfig_SetWideStringList_ok = (\<lambda>_. True),
      PyInitConfig_Create = Some Map.empty,
      PyInitConfig_SetInt_ok = (\<lambda>_ _. True),
      PyInitConfig_SetStr_ok = (\<lambda>_ _. True),
      PyInitConfig_SetStrList_ok = (\<lambda>_ _. True),
      Py_PreInitialize_ok = (\<lambda>_ _. True),
      Py_InitializeFromConfig_ok = (\<lambda>_. True),
      Py_InitializeFromInitConfig_ok = (\<lambda>_. True),
      PyUnicode_Decode_filename = (\<lambda>s. Some (map of_char s)),
      PyUnicode_FromFormat_ok = (\<lambda>_. True),
      PySys_SetObject_ok = (\<lambda>_ _. True)\<rparr>"

definition example_context :: "int \<Rightarrow> nat \<Rightarrow> bool \<Rightarrow> TOC_ENTRY list \<Rightarrow> PYI_CONTEXT" where
  "example_context ver nogil pep741 entries =
     \<lparr>argv = [''/opt/app/run''], argv_w = [], pyi_argv = None,
      executable_filename = ''/opt/app/run'', archive_filename = ''/opt/app/run'',
      archive = \<lparr>pkg_offset = 4096, toc = entries, contains_extractable_entries = False,
                 toc_splash = None\<rparr>,
      has_splash = False, suppress_splash = False, is_onefile = False,
      process_level = 1, parent_process_level = - 1,
      application_home_dir = ''/opt/app'',
      dylib_python = \<lparr>version = ver, has_pep741 = pep741\<rparr>,
      strict_unpack_mode = False, nogil_enabled = nogil\<rparr>"

definition pyz_entry :: "32 word \<Rightarrow> TOC_ENTRY" where
  "pyz_entry off =
     \<lparr>typecode = ARCHIVE_ITEM_PYZ, name = ''PYZ.pyz'', offset = off, uncompressed_length = 0\<rparr>"

text \<open>A context with a given level of the parent process, mode and splash screen.\<close>

definition role_example :: "int \<Rightarrow> bool \<Rightarrow> bool \<Rightarrow> PYI_CONTEXT" where
  "role_example parent single_file splash =
     (example_context 312 0 False [])\<lparr>parent_process_level := parent, is_onefile := single_file,
        has_splash := splash\<rparr>"

section \<open>Properties of the run-time options\<close>

lemma libc_ok_fields:
  "calloc_struct_ok libc_ok" "\<not> calloc_zero_null libc_ok" "calloc_ok libc_ok n"
  "malloc_ok libc_ok n" "strdup_ok libc_ok str" "wcsdup_ok libc_ok w"
  "mbstowcs libc_ok str = Some (map of_char str)" "PYI_PATH_MAX libc_ok = 4096"
  "LONG_BIT libc_ok = 64" "SIZE_MAX libc_ok = 2 ^ 64 - 1"
  by (simp_all add: libc_ok_def)

lemma not_W_and_X: "strncmp_eq n ''W '' 2 \<Longrightarrow> \<not> strncmp_eq n ''X '' 2"
  by (auto simp: strncmp_eq_def)

lemma wflag_args_Cons: "wflag_args (e # es) = wflag_args [e] @ wflag_args es"
  by (simp add: wflag_args_def)

lemma xflag_args_Cons: "xflag_args (e # es) = xflag_args [e] @ xflag_args es"
  by (simp add: xflag_args_def)

lemma take2_of_take4: "take 4 n = b \<Longrightarrow> take 2 n = take 2 b"
  by (induction n arbitrary: b) (auto simp: take_Cons' numeral_eq_Suc)

lemma not_flag_and_pyi:
  "strncmp_eq n ''W '' 2 \<Longrightarrow> \<not> strncmp_eq n ''pyi-'' 4"
  "strncmp_eq n ''X '' 2 \<Longrightarrow> \<not> strncmp_eq n ''pyi-'' 4"
  by (auto simp: strncmp_eq_def dest!: take2_of_take4)

lemma W_prefix_cases:
  assumes "strncmp_eq n ''W '' 2"
  shows "\<not> strncmp_eq n ''pyi-'' 4" "\<not> strcmp_eq n ''v''" "\<not> strcmp_eq n ''verbose''"
    "\<not> strcmp_eq n ''u''" "\<not> strcmp_eq n ''unbuffered''"
    "\<not> strcmp_eq n ''O''" "\<not> strcmp_eq n ''optimize''"
  using assms not_flag_and_pyi [of n] by (auto simp: strncmp_eq_def strcmp_eq_def)

lemma X_prefix_cases:
  assumes "strncmp_eq n ''X '' 2"
  shows "\<not> strncmp_eq n ''pyi-'' 4" "\<not> strcmp_eq n ''v''" "\<not> strcmp_eq n ''verbose''"
    "\<not> strcmp_eq n ''u''" "\<not> strcmp_eq n ''unbuffered''"
    "\<not> strcmp_eq n ''O''" "\<not> strcmp_eq n ''optimize''" "\<not> strncmp_eq n ''W '' 2"
  using assms not_flag_and_pyi [of n] by (auto simp: strncmp_eq_def strcmp_eq_def)

lemma scan_entry_counts:
  "snd (options_scan_entry lc e (opts, n_w, n_x)) =
     (n_w + length (wflag_args [e]), n_x + length (xflag_args [e]))"
proof (cases "typecode e = ARCHIVE_ITEM_RUNTIME_OPTION")
  case False
  then show ?thesis by (simp add: options_scan_entry_def wflag_args_def xflag_args_def)
next
  case opt: True
  show ?thesis
  proof (cases "strncmp_eq (name e) ''W '' 2")
    case True
    with opt W_prefix_cases [OF True] not_W_and_X [OF True] show ?thesis
      by (simp add: options_scan_entry_def wflag_args_def xflag_args_def)
  next
    case notW: False
    show ?thesis
    proof (cases "strncmp_eq (name e) ''X '' 2")
      case True
      with opt notW X_prefix_cases [OF True] show ?thesis
        by (simp add: options_scan_entry_def wflag_args_def xflag_args_def)
    next
      case False
      with opt notW show ?thesis
        by (simp add: options_scan_entry_def wflag_args_def xflag_args_def split: option.splits)
    qed
  qed
qed

lemma scan_counts:
  "snd (options_scan lc es (opts, n_w, n_x)) =
     (n_w + length (wflag_args es), n_x + length (xflag_args es))"
proof (induction es arbitrary: opts n_w n_x)
  case Nil
  then show ?case by (simp add: wflag_args_def xflag_args_def)
next
  case (Cons e es)
  obtain o1 w1 x1 where st: "options_scan_entry lc e (opts, n_w, n_x) = (o1, w1, x1)"
    by (cases "options_scan_entry lc e (opts, n_w, n_x)") auto
  from scan_entry_counts [of lc e opts n_w n_x] st
  have "w1 = n_w + length (wflag_args [e])" "x1 = n_x + length (xflag_args [e])" by simp_all
  with Cons.IH [of o1 w1 x1] st show ?case
    by (simp add: wflag_args_Cons [of e es] xflag_args_Cons [of e es])
qed

lemma scan_entry_arrays:
  "wflags (fst (options_scan_entry lc e st)) = wflags (fst st) \<and>
   xflags (fst (options_scan_entry lc e st)) = xflags (fst st) \<and>
   wflags_w (fst (options_scan_entry lc e st)) = wflags_w (fst st) \<and>
   xflags_w (fst (options_scan_entry lc e st)) = xflags_w (fst st) \<and>
   num_wflags (fst (options_scan_entry lc e st)) = num_wflags (fst st) \<and>
   num_xflags (fst (options_scan_entry lc e st)) = num_xflags (fst st) \<and>
   utf8_mode (fst (options_scan_entry lc e st)) = utf8_mode (fst st) \<and>
   dev_mode (fst (options_scan_entry lc e st)) = dev_mode (fst st)"
  by (cases st) (simp add: options_scan_entry_def split: option.splits)

lemma scan_arrays:
  "wflags (fst (options_scan lc es st)) = wflags (fst st) \<and>
   xflags (fst (options_scan lc es st)) = xflags (fst st) \<and>
   wflags_w (fst (options_scan lc es st)) = wflags_w (fst st) \<and>
   xflags_w (fst (options_scan lc es st)) = xflags_w (fst st) \<and>
   num_wflags (fst (options_scan lc es st)) = num_wflags (fst st) \<and>
   num_xflags (fst (options_scan lc es st)) = num_xflags (fst st) \<and>
   utf8_mode (fst (options_scan lc es st)) = utf8_mode (fst st) \<and>
   dev_mode (fst (options_scan lc es st)) = dev_mode (fst st)"
  by (induction es arbitrary: st) (simp_all add: scan_entry_arrays)

lemma take_Suc_update: "i < length xs \<Longrightarrow> take (Suc i) (xs[i := v]) = take i xs @ [v]"
  by (simp add: take_Suc_conv_app_nth)

lemma array_store_Some:
  assumes "array_store arr i p = Inr arr'"
  shows "\<exists>xs. arr = Some xs \<and> i < length xs \<and> arr' = Some (xs[i := p])"
  using assms by (auto simp: array_store_def split: option.splits if_splits)

lemma flag_args_single:
  "wflag_args [e] = (if typecode e = ARCHIVE_ITEM_RUNTIME_OPTION \<and> strncmp_eq (name e) ''W '' 2 then [drop 2 (name e)] else [])"
  "xflag_args [e] = (if typecode e = ARCHIVE_ITEM_RUNTIME_OPTION \<and> strncmp_eq (name e) ''X '' 2 then [drop 2 (name e)] else [])"
  by (simp_all add: wflag_args_def xflag_args_def)

lemma collect_entry_pep741:
  assumes "options_collect_entry lc True e opts = Inr (Some opts')"
  shows "wflags_w opts' = wflags_w opts \<and> xflags_w opts' = xflags_w opts \<and>
    num_wflags opts' = num_wflags opts + length (wflag_args [e]) \<and>
    num_xflags opts' = num_xflags opts + length (xflag_args [e]) \<and>
    length (array_slots (wflags opts')) = length (array_slots (wflags opts)) \<and>
    length (array_slots (xflags opts')) = length (array_slots (xflags opts)) \<and>
    take (num_wflags opts + length (wflag_args [e])) (array_slots (wflags opts')) =
      take (num_wflags opts) (array_slots (wflags opts)) @ map Some (wflag_args [e])"
proof (cases "typecode e = ARCHIVE_ITEM_RUNTIME_OPTION")
  case False
  with assms show ?thesis by (simp add: options_collect_entry_def flag_args_single)
next
  case opt: True
  show ?thesis
  proof (cases "strncmp_eq (name e) ''W '' 2")
    case True
    with opt assms obtain arr where
      st: "array_store (wflags opts) (num_wflags opts) (Some (drop 2 (name e))) = Inr arr" and
      o': "opts' = opts\<lparr>wflags := arr, num_wflags := num_wflags opts + 1\<rparr>"
      by (auto simp: options_collect_entry_def Let_def split: if_splits sum.splits)
    from array_store_Some [OF st] obtain xs where
      xs: "wflags opts = Some xs" "num_wflags opts < length xs"
          "arr = Some (xs[num_wflags opts := Some (drop 2 (name e))])" by blast
    with opt True not_W_and_X [OF True] o' show ?thesis
      by (simp add: flag_args_single array_slots_def take_Suc_update)
  next
    case notW: False
    show ?thesis
    proof (cases "strncmp_eq (name e) ''X '' 2")
      case True
      with opt notW assms obtain arr where
        st: "array_store (xflags opts) (num_wflags opts) (Some (drop 2 (name e))) = Inr arr" and
        o': "wflags opts' = wflags opts" "xflags opts' = arr" "num_wflags opts' = num_wflags opts"
            "num_xflags opts' = num_xflags opts + 1" "wflags_w opts' = wflags_w opts"
            "xflags_w opts' = xflags_w opts"
        by (auto simp: options_collect_entry_def Let_def split: if_splits sum.splits)
      from array_store_Some [OF st] obtain xs where
        xs: "xflags opts = Some xs" "num_wflags opts < length xs"
            "arr = Some (xs[num_wflags opts := Some (drop 2 (name e))])" by blast
      with opt True notW o' show ?thesis
        by (simp add: flag_args_single array_slots_def)
    next
      case False
      with opt notW assms show ?thesis
        by (simp add: options_collect_entry_def flag_args_single)
    qed
  qed
qed

lemma collect_pep741:
  "options_collect lc True es opts = Inr (Some opts') \<Longrightarrow>
    wflags_w opts' = wflags_w opts \<and> xflags_w opts' = xflags_w opts \<and>
    num_wflags opts' = num_wflags opts + length (wflag_args es) \<and>
    num_xflags opts' = num_xflags opts + length (xflag_args es) \<and>
    length (array_slots (wflags opts')) = length (array_slots (wflags opts)) \<and>
    length (array_slots (xflags opts')) = length (array_slots (xflags opts)) \<and>
    take (num_wflags opts + length (wflag_args es)) (array_slots (wflags opts')) =
      take (num_wflags opts) (array_slots (wflags opts)) @ map Some (wflag_args es)"
proof (induction es arbitrary: opts)
  case Nil
  then show ?case by (simp add: wflag_args_def xflag_args_def)
next
  case (Cons e es)
  from Cons.prems obtain o1 where
    e: "options_collect_entry lc True e opts = Inr (Some o1)" and
    r: "options_collect lc True es o1 = Inr (Some opts')"
    by (auto split: sum.splits option.splits)
  from Cons.IH [OF r] collect_entry_pep741 [OF e] show ?case
    by (simp add: wflag_args_Cons [of e es] xflag_args_Cons [of e es] add.assoc)
qed

lemma copy_xwflag_ok:
  assumes "pyi_copy_xwflag lc flag = Inr (p, True)"
  shows "p = mbstowcs lc flag"
  using assms by (auto simp: pyi_copy_xwflag_def split: option.splits if_splits)

lemma collect_entry_pep587:
  assumes "options_collect_entry lc False e opts = Inr (Some opts')"
  shows "wflags opts' = wflags opts \<and> xflags opts' = xflags opts \<and>
    num_wflags opts' = num_wflags opts + length (wflag_args [e]) \<and>
    num_xflags opts' = num_xflags opts + length (xflag_args [e]) \<and>
    length (array_slots (wflags_w opts')) = length (array_slots (wflags_w opts)) \<and>
    length (array_slots (xflags_w opts')) = length (array_slots (xflags_w opts)) \<and>
    take (num_wflags opts + length (wflag_args [e])) (array_slots (wflags_w opts')) =
      take (num_wflags opts) (array_slots (wflags_w opts)) @ map (mbstowcs lc) (wflag_args [e]) \<and>
    take (num_xflags opts + length (xflag_args [e])) (array_slots (xflags_w opts')) =
      take (num_xflags opts) (array_slots (xflags_w opts)) @ map (mbstowcs lc) (xflag_args [e])"
proof (cases "typecode e = ARCHIVE_ITEM_RUNTIME_OPTION")
  case False
  with assms show ?thesis by (simp add: options_collect_entry_def flag_args_single)
next
  case opt: True
  show ?thesis
  proof (cases "strncmp_eq (name e) ''W '' 2")
    case True
    with opt assms obtain p arr where
      cp: "pyi_copy_xwflag lc (drop 2 (name e)) = Inr (p, True)" and
      st: "array_store (wflags_w opts) (num_wflags opts) p = Inr arr" and
      o': "opts' = opts\<lparr>wflags_w := arr, num_wflags := num_wflags opts + 1\<rparr>"
      by (auto simp: options_collect_entry_def Let_def split: if_splits sum.splits prod.splits)
    from array_store_Some [OF st] obtain xs where
      xs: "wflags_w opts = Some xs" "num_wflags opts < length xs"
          "arr = Some (xs[num_wflags opts := p])" by blast
    with opt True not_W_and_X [OF True] o' copy_xwflag_ok [OF cp] show ?thesis
      by (simp add: flag_args_single array_slots_def take_Suc_update)
  next
    case notW: False
    show ?thesis
    proof (cases "strncmp_eq (name e) ''X '' 2")
      case True
      with opt notW assms obtain p arr where
        cp: "pyi_copy_xwflag lc (drop 2 (name e)) = Inr (p, True)" and
        st: "array_store (xflags_w opts) (num_xflags opts) p = Inr arr" and
        o': "wflags opts' = wflags opts" "xflags opts' = xflags opts" "xflags_w opts' = arr"
            "num_wflags opts' = num_wflags opts"
            "num_xflags opts' = num_xflags opts + 1" "wflags_w opts' = wflags_w opts"
        by (auto simp: options_collect_entry_def Let_def split: if_splits sum.splits prod.splits)
      from array_store_Some [OF st] obtain xs where
        xs: "xflags_w opts = Some xs" "num_xflags opts < length xs"
            "arr = Some (xs[num_xflags opts := p])" by blast
      with opt True notW o' copy_xwflag_ok [OF cp] show ?thesis
        by (simp add: flag_args_single array_slots_def take_Suc_update)
    next
      case False
      with opt notW assms show ?thesis
        by (simp add: options_collect_entry_def flag_args_single)
    qed
  qed
qed

lemma collect_pep587:
  "options_collect lc False es opts = Inr (Some opts') \<Longrightarrow>
    wflags opts' = wflags opts \<and> xflags opts' = xflags opts \<and>
    num_wflags opts' = num_wflags opts + length (wflag_args es) \<and>
    num_xflags opts' = num_xflags opts + length (xflag_args es) \<and>
    length (array_slots (wflags_w opts')) = length (array_slots (wflags_w opts)) \<and>
    length (array_slots (xflags_w opts')) = length (array_slots (xflags_w opts)) \<and>
    take (num_wflags opts + length (wflag_args es)) (array_slots (wflags_w opts')) =
      take (num_wflags opts) (array_slots (wflags_w opts)) @ map (mbstowcs lc) (wflag_args es) \<and>
    take (num_xflags opts + length (xflag_args es)) (array_slots (xflags_w opts')) =
      take (num_xflags opts) (array_slots (xflags_w opts)) @ map (mbstowcs lc) (xflag_args es)"
proof (induction es arbitrary: opts)
  case Nil
  then show ?case by (simp add: wflag_args_def xflag_args_def)
next
  case (Cons e es)
  from Cons.prems obtain o1 where
    e: "options_collect_entry lc False e opts = Inr (Some o1)" and
    r: "options_collect lc False es o1 = Inr (Some opts')"
    by (auto split: sum.splits option.splits)
  from Cons.IH [OF r] collect_entry_pep587 [OF e] show ?case
    by (simp add: wflag_args_Cons [of e es] xflag_args_Cons [of e es] add.assoc)
qed

lemma collect_entry_pep741_xset:
  assumes "options_collect_entry lc True e opts = Inr (Some opts')"
  shows "set (array_slots (xflags opts')) \<subseteq> set (array_slots (xflags opts)) \<union> Some ` set (xflag_args [e])"
  using assms set_update_subset_insert
  by (auto simp: options_collect_entry_def Let_def flag_args_single array_slots_def
      dest!: array_store_Some split: if_splits sum.splits) fastforce+

lemma collect_pep741_xset:
  "options_collect lc True es opts = Inr (Some opts') \<Longrightarrow>
   set (array_slots (xflags opts')) \<subseteq> set (array_slots (xflags opts)) \<union> Some ` set (xflag_args es)"
proof (induction es arbitrary: opts)
  case Nil
  then show ?case by simp
next
  case (Cons e es)
  from Cons.prems obtain o1 where
    e: "options_collect_entry lc True e opts = Inr (Some o1)" and
    r: "options_collect lc True es o1 = Inr (Some opts')"
    by (auto split: sum.splits option.splits)
  from Cons.IH [OF r] collect_entry_pep741_xset [OF e] show ?case
    unfolding xflag_args_Cons [of e es] by auto
qed

lemma read_scan:
  assumes "options_scan lc entries (zeroed_options\<lparr>utf8_mode := - 1\<rparr>, 0, 0) = (opts, n_w, n_x)"
  shows "n_w = length (wflag_args entries)" "n_x = length (xflag_args entries)"
    "wflags opts = None" "xflags opts = None" "wflags_w opts = None" "xflags_w opts = None"
    "num_wflags opts = 0" "num_xflags opts = 0" "utf8_mode opts = - 1" "dev_mode opts = 0"
proof -
  from scan_counts [of lc entries "zeroed_options\<lparr>utf8_mode := - 1\<rparr>" 0 0] assms
  show "n_w = length (wflag_args entries)" "n_x = length (xflag_args entries)" by simp_all
  from scan_arrays [of lc entries "(zeroed_options\<lparr>utf8_mode := - 1\<rparr>, 0, 0)"] assms
  show "wflags opts = None" "xflags opts = None" "wflags_w opts = None" "xflags_w opts = None"
    "num_wflags opts = 0" "num_xflags opts = 0" "utf8_mode opts = - 1" "dev_mode opts = 0"
    by (simp_all add: zeroed_options_def)
qed

lemma calloc_slots:
  assumes "\<not> (n \<noteq> 0 \<and> (c_calloc lc n :: 'a ptr_array) = None)"
  shows "array_slots (c_calloc lc n :: 'a ptr_array) = replicate n None"
  using assms by (auto simp: c_calloc_def array_slots_def split: if_splits)

lemmas read_eval = pyi_runtime_options_read_def options_scan_entry_def options_collect_entry_def
  zeroed_options_def c_calloc_def array_store_def pyi_copy_xwflag_def pyi_match_and_parse_xflag_def
  pyi_match_key_value_flag_def strncmp_eq_def strcmp_eq_def libc_ok_def option_entry_def Let_def

lemma read_pep741_overwrite:
  "pyi_runtime_options_read libc_ok True toc_w_x_x = Inr (Some options_w_x_x)"
  by (simp add: read_eval toc_w_x_x_def options_w_x_x_def)

lemma read_pep741_out_of_bounds:
  "pyi_runtime_options_read libc_ok True toc_w_x = Inl (Out_Of_Bounds_Store 1 1)"
  by (simp add: read_eval toc_w_x_def)

lemma read_pep587_example:
  "pyi_runtime_options_read libc_ok False toc_modes = Inr (Some options_modes)"
  by (simp add: read_eval toc_modes_def options_modes_def)

lemma read_pep741_example:
  "pyi_runtime_options_read libc_ok True toc_x_w_x = Inr (Some options_x_w_x)"
  by (simp add: read_eval toc_x_w_x_def options_x_w_x_def)

lemma example_flag_args:
  "wflag_args toc_modes = [''a'']" "xflag_args toc_modes = [''utf8=0'', ''dev'']"
  "wflag_args toc_x_w_x = [''a'']" "xflag_args toc_x_w_x = [''utf8'', ''dev=0'']"
  by (simp_all add: wflag_args_def xflag_args_def toc_modes_def toc_x_w_x_def option_entry_def
      strncmp_eq_def)

lemma collect_entry_pep741_no_wflag:
  assumes "options_collect_entry lc True e opts = Inr (Some opts')" and "wflag_args [e] = []"
  shows "num_wflags opts' = num_wflags opts \<and> wflags opts' = wflags opts \<and>
    (if xflag_args [e] = [] then xflags opts' = xflags opts
     else num_wflags opts < length (array_slots (xflags opts)) \<and>
          xflags opts' =
            Some ((array_slots (xflags opts))[num_wflags opts := Some (last (xflag_args [e]))]))"
proof (cases "typecode e = ARCHIVE_ITEM_RUNTIME_OPTION")
  case False
  with assms show ?thesis by (simp add: options_collect_entry_def flag_args_single)
next
  case opt: True
  have noW: "\<not> strncmp_eq (name e) ''W '' 2"
    using assms(2) opt by (simp add: flag_args_single split: if_splits)
  show ?thesis
  proof (cases "strncmp_eq (name e) ''X '' 2")
    case False
    with assms opt noW show ?thesis by (simp add: options_collect_entry_def flag_args_single)
  next
    case True
    from assms(1) opt noW True obtain arr where
      st: "array_store (xflags opts) (num_wflags opts) (Some (drop 2 (name e))) = Inr arr"
      and o': "opts' = (opts\<lparr>xflags := arr, num_xflags := num_xflags opts + 1\<rparr>)
          \<lparr>utf8_mode := pyi_match_and_parse_xflag (drop 2 (name e)) ''utf8'' (utf8_mode opts),
            dev_mode := pyi_match_and_parse_xflag (drop 2 (name e)) ''dev'' (dev_mode opts)\<rparr>"
      by (auto simp: options_collect_entry_def Let_def split: if_splits sum.splits)
    from array_store_Some [OF st] obtain xs where
      xs: "xflags opts = Some xs" "num_wflags opts < length xs"
        "arr = Some (xs[num_wflags opts := Some (drop 2 (name e))])"
      by blast
    show ?thesis using o' xs opt True by (simp add: flag_args_single array_slots_def)
  qed
qed

lemma collect_pep741_no_wflags:
  "options_collect lc True es opts = Inr (Some opts') \<Longrightarrow> wflag_args es = [] \<Longrightarrow>
   num_wflags opts' = num_wflags opts \<and> wflags opts' = wflags opts \<and>
   (if xflag_args es = [] then xflags opts' = xflags opts
    else num_wflags opts < length (array_slots (xflags opts)) \<and>
         xflags opts' =
           Some ((array_slots (xflags opts))[num_wflags opts := Some (last (xflag_args es))]))"
proof (induction es arbitrary: opts)
  case Nil
  then show ?case by (simp add: xflag_args_def)
next
  case (Cons e es)
  from Cons.prems(1) obtain o1 where
    e: "options_collect_entry lc True e opts = Inr (Some o1)" and
    r: "options_collect lc True es o1 = Inr (Some opts')"
    by (auto split: sum.splits option.splits)
  have we: "wflag_args [e] = []" and wes: "wflag_args es = []"
    using Cons.prems(2) wflag_args_Cons [of e es] by simp_all
  note h = collect_entry_pep741_no_wflag [OF e we]
  note ih = Cons.IH [OF r wes]
  show ?case
  proof (cases "xflag_args es = []")
    case True
    then have "xflag_args (e # es) = xflag_args [e]" using xflag_args_Cons [of e es] by simp
    with h ih True show ?thesis by simp
  next
    case False
    then have l: "last (xflag_args (e # es)) = last (xflag_args es)"
      and ne: "xflag_args (e # es) \<noteq> []"
      using xflag_args_Cons [of e es] by simp_all
    show ?thesis
    proof (cases "xflag_args [e] = []")
      case True
      with h ih False l ne show ?thesis by simp
    next
      case x: False
      with h ih False l ne show ?thesis by (simp add: array_slots_def)
    qed
  qed
qed

lemma collect_entry_pep587_converted:
  assumes "options_collect_entry lc False e opts = Inr (Some opts')"
  shows "None \<notin> mbstowcs lc ` (set (wflag_args [e]) \<union> set (xflag_args [e]))"
  using assms
  by (auto simp: options_collect_entry_def flag_args_single pyi_copy_xwflag_def Let_def not_W_and_X
      split: if_splits sum.splits option.splits prod.splits)

lemma collect_pep587_converted:
  "options_collect lc False es opts = Inr (Some opts') \<Longrightarrow>
   None \<notin> mbstowcs lc ` (set (wflag_args es) \<union> set (xflag_args es))"
proof (induction es arbitrary: opts)
  case Nil
  then show ?case by (simp add: wflag_args_def xflag_args_def)
next
  case (Cons e es)
  from Cons.prems obtain o1 where
    e: "options_collect_entry lc False e opts = Inr (Some o1)" and
    r: "options_collect lc False es o1 = Inr (Some opts')"
    by (auto split: sum.splits option.splits)
  from Cons.IH [OF r] collect_entry_pep587_converted [OF e] show ?case
    unfolding xflag_args_Cons [of e es] wflag_args_Cons [of e es] by auto
qed

lemma x_entry_flags:
  "name (option_entry n) = n"
  "typecode (option_entry n) = ARCHIVE_ITEM_RUNTIME_OPTION"
  "strncmp_eq (CHR ''X'' # CHR '' '' # a) ''X '' 2"
  by (simp_all add: option_entry_def strncmp_eq_def)

lemma scan_x_entry:
  "options_scan_entry lc (option_entry (CHR ''X'' # CHR '' '' # a)) (opts, n_w, n_x)
     = (opts, n_w, n_x + 1)"
  using X_prefix_cases [OF x_entry_flags(3) [of a]]
  by (simp add: options_scan_entry_def x_entry_flags)

lemma collect_x_entry_pep741:
  assumes "strdup_ok lc a"
  shows "options_collect_entry lc True (option_entry (CHR ''X'' # CHR '' '' # a)) opts =
    (case array_store (xflags opts) (num_wflags opts) (Some a) of
       Inl f \<Rightarrow> Inl f
     | Inr arr \<Rightarrow>
         Inr (Some (opts\<lparr>xflags := arr, num_xflags := num_xflags opts + 1,
                utf8_mode := pyi_match_and_parse_xflag a ''utf8'' (utf8_mode opts),
                dev_mode := pyi_match_and_parse_xflag a ''dev'' (dev_mode opts)\<rparr>)))"
  using assms X_prefix_cases(8) [OF x_entry_flags(3) [of a]]
  by (simp add: options_collect_entry_def x_entry_flags Let_def split: sum.splits)

lemma collect_x_entry_pep587:
  assumes "mbstowcs lc a = Some a_w" "length a_w < PYI_PATH_MAX lc" "wcsdup_ok lc a_w"
  shows "options_collect_entry lc False (option_entry (CHR ''X'' # CHR '' '' # a)) opts =
    (case array_store (xflags_w opts) (num_xflags opts) (Some a_w) of
       Inl f \<Rightarrow> Inl f
     | Inr arr \<Rightarrow>
         Inr (Some (opts\<lparr>xflags_w := arr, num_xflags := num_xflags opts + 1,
                utf8_mode := pyi_match_and_parse_xflag a ''utf8'' (utf8_mode opts),
                dev_mode := pyi_match_and_parse_xflag a ''dev'' (dev_mode opts)\<rparr>)))"
  using assms X_prefix_cases(8) [OF x_entry_flags(3) [of a]]
  by (simp add: options_collect_entry_def x_entry_flags pyi_copy_xwflag_def Let_def
      split: sum.splits)

lemma read_two_xflags_pep741:
  assumes "calloc_struct_ok lc" "calloc_ok lc 2" "strdup_ok lc a" "strdup_ok lc b"
  shows "\<exists>opts. pyi_runtime_options_read lc True
                  [option_entry (''X '' @ a), option_entry (''X '' @ b)] = Inr (Some opts)
           \<and> num_xflags opts = 2 \<and> xflags opts = Some [Some b, None]"
  using assms
  by (simp add: pyi_runtime_options_read_def scan_x_entry collect_x_entry_pep741 c_calloc_def
      array_store_def zeroed_options_def Let_def numeral_2_eq_2)

lemma read_two_xflags_pep587:
  assumes "calloc_struct_ok lc" "calloc_ok lc 2"
    "mbstowcs lc a = Some a_w" "length a_w < PYI_PATH_MAX lc" "wcsdup_ok lc a_w"
    "mbstowcs lc b = Some b_w" "length b_w < PYI_PATH_MAX lc" "wcsdup_ok lc b_w"
  shows "\<exists>opts. pyi_runtime_options_read lc False
                  [option_entry (''X '' @ a), option_entry (''X '' @ b)] = Inr (Some opts)
           \<and> num_xflags opts = 2 \<and> xflags_w opts = Some [Some a_w, Some b_w]"
  using assms
  by (simp add: pyi_runtime_options_read_def scan_x_entry
      collect_x_entry_pep587 [OF assms(3,4,5)] collect_x_entry_pep587 [OF assms(6,7,8)]
      c_calloc_def array_store_def zeroed_options_def Let_def numeral_2_eq_2)

lemma read_pairs:
  assumes "pyi_runtime_options_read lc use_pep741 entries = Inr (Some options)"
  shows "num_wflags options = length (wflag_args entries) \<and>
    num_xflags options = length (xflag_args entries) \<and>
    (if use_pep741 then
       wflags_w options = None \<and> xflags_w options = None \<and>
       array_slots (wflags options) = map Some (wflag_args entries) \<and>
       length (array_slots (xflags options)) = length (xflag_args entries) \<and>
       set (array_slots (xflags options)) \<subseteq> insert None (Some ` set (xflag_args entries))
     else
       wflags options = None \<and> xflags options = None \<and>
       array_slots (wflags_w options) = map (mbstowcs lc) (wflag_args entries) \<and>
       array_slots (xflags_w options) = map (mbstowcs lc) (xflag_args entries))"
proof -
  obtain opts n_w n_x where
    sc: "options_scan lc entries (zeroed_options\<lparr>utf8_mode := - 1\<rparr>, 0, 0) = (opts, n_w, n_x)"
    by (cases "options_scan lc entries (zeroed_options\<lparr>utf8_mode := - 1\<rparr>, 0, 0)") auto
  note s = read_scan [OF sc]
  show ?thesis
  proof (cases use_pep741)
    case True
    define o1 where "o1 = opts\<lparr>wflags := c_calloc lc n_w, xflags := c_calloc lc n_x\<rparr>"
    from assms sc True have
      al: "\<not> (n_w \<noteq> 0 \<and> (c_calloc lc n_w :: string ptr_array) = None)"
          "\<not> (n_x \<noteq> 0 \<and> (c_calloc lc n_x :: string ptr_array) = None)" and
      co: "options_collect lc True entries o1 = Inr (Some options)"
      by (auto simp: pyi_runtime_options_read_def Let_def o1_def split: if_splits)
    from collect_pep741 [OF co] collect_pep741_xset [OF co] s calloc_slots [OF al(1)] calloc_slots [OF al(2)]
    show ?thesis using True by (auto simp: o1_def)
  next
    case False
    define o1 where "o1 = opts\<lparr>wflags_w := c_calloc lc n_w, xflags_w := c_calloc lc n_x\<rparr>"
    from assms sc False have
      al: "\<not> (n_w \<noteq> 0 \<and> (c_calloc lc n_w :: wstring ptr_array) = None)"
          "\<not> (n_x \<noteq> 0 \<and> (c_calloc lc n_x :: wstring ptr_array) = None)" and
      co: "options_collect lc False entries o1 = Inr (Some options)"
      by (auto simp: pyi_runtime_options_read_def Let_def o1_def split: if_splits)
    from collect_pep587 [OF co] s calloc_slots [OF al(1)] calloc_slots [OF al(2)]
    show ?thesis using False by (auto simp: o1_def)
  qed
qed

lemma slots_not_null: "array_slots arr \<noteq> [] \<Longrightarrow> arr \<noteq> None"
  by (cases arr) (simp_all add: array_slots_def)

lemma read_pep741_no_wflags:
  assumes "pyi_runtime_options_read lc True entries = Inr (Some options)"
    and "wflag_args entries = []" and "xflag_args entries \<noteq> []"
  shows "xflags options =
           Some (Some (last (xflag_args entries))
                 # replicate (length (xflag_args entries) - 1) None)"
proof -
  obtain opts n_w n_x where
    sc: "options_scan lc entries (zeroed_options\<lparr>utf8_mode := - 1\<rparr>, 0, 0) = (opts, n_w, n_x)"
    by (cases "options_scan lc entries (zeroed_options\<lparr>utf8_mode := - 1\<rparr>, 0, 0)") auto
  note s = read_scan [OF sc]
  define o1 where "o1 = opts\<lparr>wflags := c_calloc lc n_w, xflags := c_calloc lc n_x\<rparr>"
  from assms(1) sc have
    al: "\<not> (n_x \<noteq> 0 \<and> (c_calloc lc n_x :: string ptr_array) = None)" and
    co: "options_collect lc True entries o1 = Inr (Some options)"
    by (auto simp: pyi_runtime_options_read_def Let_def o1_def split: if_splits)
  have n: "n_x = length (xflag_args entries)" "n_x \<noteq> 0" using s(2) assms(3) by simp_all
  have x1: "xflags o1 = Some (replicate n_x None)"
    using al n by (auto simp: o1_def c_calloc_def split: if_splits)
  have w1: "num_wflags o1 = 0" using s(7) by (simp add: o1_def)
  from collect_pep741_no_wflags [OF co assms(2)] assms(3) x1 w1
  have "xflags options = Some ((replicate n_x None)[0 := Some (last (xflag_args entries))])"
    by (simp add: array_slots_def)
  moreover have "(replicate n_x None)[0 := Some (last (xflag_args entries))]
                 = Some (last (xflag_args entries)) # replicate (n_x - 1) None"
    using n(2) by (cases n_x) simp_all
  ultimately show ?thesis using n(1) by simp
qed

lemma read_pep587_converted:
  assumes "pyi_runtime_options_read lc False entries = Inr (Some options)"
  shows "None \<notin> mbstowcs lc ` (set (wflag_args entries) \<union> set (xflag_args entries))"
proof -
  obtain opts n_w n_x where
    sc: "options_scan lc entries (zeroed_options\<lparr>utf8_mode := - 1\<rparr>, 0, 0) = (opts, n_w, n_x)"
    by (cases "options_scan lc entries (zeroed_options\<lparr>utf8_mode := - 1\<rparr>, 0, 0)") auto
  define o1 where "o1 = opts\<lparr>wflags_w := c_calloc lc n_w, xflags_w := c_calloc lc n_x\<rparr>"
  from assms sc have co: "options_collect lc False entries o1 = Inr (Some options)"
    by (auto simp: pyi_runtime_options_read_def Let_def o1_def split: if_splits)
  from collect_pep587_converted [OF co] show ?thesis .
qed

lemma read_x_x: "pyi_runtime_options_read libc_ok True toc_x_x = Inr (Some options_x_x)"
  by (simp add: read_eval toc_x_x_def options_x_x_def)

lemma x_x_flag_args: "wflag_args toc_x_x = []" "xflag_args toc_x_x = [''a'', ''b'']"
  by (simp_all add: wflag_args_def xflag_args_def toc_x_x_def option_entry_def strncmp_eq_def)

text \<open>
  Claim C5. After \<^verbatim>\<open>pyi_runtime_options_read\<close> has returned an options structure, the
  flags are to be in one pair of arrays: the narrow pair \<^verbatim>\<open>wflags\<close>, \<^verbatim>\<open>xflags\<close> with
  \<^verbatim>\<open>has_pep741\<close> set, the wide pair \<^verbatim>\<open>wflags_w\<close>, \<^verbatim>\<open>xflags_w\<close> otherwise, the other pair
  NULL. The code keeps the other pair NULL and the counters equal to the numbers of W-flag
  and X-flag entries. Without \<^verbatim>\<open>has_pep741\<close> the wide arrays hold the converted W-flags
  and X-flags in order, none of them NULL. With \<^verbatim>\<open>has_pep741\<close>, \<^verbatim>\<open>wflags\<close> holds the
  W-flags in order, but \<^verbatim>\<open>xflags\<close> is not populated with the X-flags: each X-flag is stored
  at the index \<^verbatim>\<open>num_wflags\<close>, where the wide branch stores at \<^verbatim>\<open>num_xflags\<close>. In a table of
  contents with X-flags and no W-flag every X-flag goes to slot 0, so that the array holds
  the last X-flag followed by NULL slots; for the two X-flags \<open>a\<close> and \<open>b\<close> the function
  returns successfully with \<^verbatim>\<open>num_xflags = 2\<close> and \<^verbatim>\<open>xflags\<close> \<open>[b, NULL]\<close>, where the wide
  branch returns \<^verbatim>\<open>xflags_w\<close> \<open>[a, b]\<close>.
\<close>

theorem runtime_options_narrow_xflags_lost:
  "(pyi_runtime_options_read lc use_pep741 entries = Inr (Some options) \<longrightarrow>
      num_wflags options = length (wflag_args entries) \<and>
      num_xflags options = length (xflag_args entries) \<and>
      (if use_pep741 then
         wflags_w options = None \<and> xflags_w options = None \<and>
         (wflag_args entries \<noteq> [] \<longrightarrow> wflags options \<noteq> None) \<and>
         (xflag_args entries \<noteq> [] \<longrightarrow> xflags options \<noteq> None) \<and>
         array_slots (wflags options) = map Some (wflag_args entries) \<and>
         length (array_slots (xflags options)) = length (xflag_args entries) \<and>
         set (array_slots (xflags options)) \<subseteq> insert None (Some ` set (xflag_args entries)) \<and>
         (wflag_args entries = [] \<and> xflag_args entries \<noteq> [] \<longrightarrow>
            xflags options =
              Some (Some (last (xflag_args entries))
                    # replicate (length (xflag_args entries) - 1) None))
       else
         wflags options = None \<and> xflags options = None \<and>
         (wflag_args entries \<noteq> [] \<longrightarrow> wflags_w options \<noteq> None) \<and>
         (xflag_args entries \<noteq> [] \<longrightarrow> xflags_w options \<noteq> None) \<and>
         array_slots (wflags_w options) = map (mbstowcs lc) (wflag_args entries) \<and>
         array_slots (xflags_w options) = map (mbstowcs lc) (xflag_args entries) \<and>
         None \<notin> set (array_slots (wflags_w options)) \<and>
         None \<notin> set (array_slots (xflags_w options))))
   \<and> (calloc_struct_ok lc \<and> calloc_ok lc 2 \<and> strdup_ok lc a \<and> strdup_ok lc b \<longrightarrow>
        (\<exists>opts. pyi_runtime_options_read lc True
                   [option_entry (''X '' @ a), option_entry (''X '' @ b)] = Inr (Some opts)
           \<and> num_xflags opts = 2 \<and> xflags opts = Some [Some b, None]))
   \<and> (calloc_struct_ok lc \<and> calloc_ok lc 2
        \<and> mbstowcs lc a = Some a_w \<and> length a_w < PYI_PATH_MAX lc \<and> wcsdup_ok lc a_w
        \<and> mbstowcs lc b = Some b_w \<and> length b_w < PYI_PATH_MAX lc \<and> wcsdup_ok lc b_w \<longrightarrow>
        (\<exists>opts. pyi_runtime_options_read lc False
                   [option_entry (''X '' @ a), option_entry (''X '' @ b)] = Inr (Some opts)
           \<and> num_xflags opts = 2 \<and> xflags_w opts = Some [Some a_w, Some b_w]))"
proof (intro conjI impI)
  assume r: "pyi_runtime_options_read lc use_pep741 entries = Inr (Some options)"
  note p = read_pairs [OF r]
  show "num_wflags options = length (wflag_args entries)" using p by simp
  show "num_xflags options = length (xflag_args entries)" using p by simp
  show "if use_pep741 then
         wflags_w options = None \<and> xflags_w options = None \<and>
         (wflag_args entries \<noteq> [] \<longrightarrow> wflags options \<noteq> None) \<and>
         (xflag_args entries \<noteq> [] \<longrightarrow> xflags options \<noteq> None) \<and>
         array_slots (wflags options) = map Some (wflag_args entries) \<and>
         length (array_slots (xflags options)) = length (xflag_args entries) \<and>
         set (array_slots (xflags options)) \<subseteq> insert None (Some ` set (xflag_args entries)) \<and>
         (wflag_args entries = [] \<and> xflag_args entries \<noteq> [] \<longrightarrow>
            xflags options =
              Some (Some (last (xflag_args entries))
                    # replicate (length (xflag_args entries) - 1) None))
       else
         wflags options = None \<and> xflags options = None \<and>
         (wflag_args entries \<noteq> [] \<longrightarrow> wflags_w options \<noteq> None) \<and>
         (xflag_args entries \<noteq> [] \<longrightarrow> xflags_w options \<noteq> None) \<and>
         array_slots (wflags_w options) = map (mbstowcs lc) (wflag_args entries) \<and>
         array_slots (xflags_w options) = map (mbstowcs lc) (xflag_args entries) \<and>
         None \<notin> set (array_slots (wflags_w options)) \<and>
         None \<notin> set (array_slots (xflags_w options))"
  proof (cases use_pep741)
    case True
    have w: "wflags options \<noteq> None" if "wflag_args entries \<noteq> []"
      using p True that by (intro slots_not_null) simp
    have x: "xflags options \<noteq> None" if "xflag_args entries \<noteq> []"
      using p True that by (intro slots_not_null) auto
    have l: "xflags options =
              Some (Some (last (xflag_args entries))
                    # replicate (length (xflag_args entries) - 1) None)"
      if "wflag_args entries = []" "xflag_args entries \<noteq> []"
      using read_pep741_no_wflags [of lc entries options] r True that by simp
    show ?thesis using p True w x l by simp
  next
    case False
    have w: "wflags_w options \<noteq> None" if "wflag_args entries \<noteq> []"
      using p False that by (intro slots_not_null) simp
    have x: "xflags_w options \<noteq> None" if "xflag_args entries \<noteq> []"
      using p False that by (intro slots_not_null) simp
    have c: "None \<notin> mbstowcs lc ` (set (wflag_args entries) \<union> set (xflag_args entries))"
      using read_pep587_converted [of lc entries options] r False by simp
    have n: "None \<notin> set (array_slots (wflags_w options))"
      "None \<notin> set (array_slots (xflags_w options))"
      using p False c by auto
    show ?thesis using p False w x n by simp
  qed
next
  assume "calloc_struct_ok lc \<and> calloc_ok lc 2 \<and> strdup_ok lc a \<and> strdup_ok lc b"
  then show "\<exists>opts. pyi_runtime_options_read lc True
                   [option_entry (''X '' @ a), option_entry (''X '' @ b)] = Inr (Some opts)
           \<and> num_xflags opts = 2 \<and> xflags opts = Some [Some b, None]"
    using read_two_xflags_pep741 [of lc a b] by simp
next
  assume "calloc_struct_ok lc \<and> calloc_ok lc 2
        \<and> mbstowcs lc a = Some a_w \<and> length a_w < PYI_PATH_MAX lc \<and> wcsdup_ok lc a_w
        \<and> mbstowcs lc b = Some b_w \<and> length b_w < PYI_PATH_MAX lc \<and> wcsdup_ok lc b_w"
  then show "\<exists>opts. pyi_runtime_options_read lc False
                   [option_entry (''X '' @ a), option_entry (''X '' @ b)] = Inr (Some opts)
           \<and> num_xflags opts = 2 \<and> xflags_w opts = Some [Some a_w, Some b_w]"
    using read_two_xflags_pep587 [of lc a a_w b b_w] by simp
qed

theorem runtime_options_narrow_xflags_lost_witness:
  "pyi_runtime_options_read libc_ok True toc_x_x = Inr (Some options_x_x)
   \<and> wflag_args toc_x_x = [] \<and> xflag_args toc_x_x = [''a'', ''b'']
   \<and> num_xflags options_x_x = 2
   \<and> xflags options_x_x = Some [Some ''b'', None]
   \<and> wflags_w options_x_x = None \<and> xflags_w options_x_x = None
   \<and> (\<exists>opts. pyi_runtime_options_read libc_ok False toc_x_x = Inr (Some opts)
          \<and> num_xflags opts = 2 \<and> xflags_w opts = Some [Some [97], Some [98]])
   \<and> pyi_runtime_options_read libc_ok False toc_modes = Inr (Some options_modes)
   \<and> wflags options_modes = None \<and> xflags options_modes = None
   \<and> array_slots (wflags_w options_modes) = map (mbstowcs libc_ok) [''a'']
   \<and> array_slots (xflags_w options_modes) = map (mbstowcs libc_ok) [''utf8=0'', ''dev'']
   \<and> None \<notin> set (array_slots (xflags_w options_modes))"
  using runtime_options_narrow_xflags_lost
          [where lc = libc_ok and ?use_pep741.0 = True and entries = toc_x_x
             and options = options_x_x and a = "''a''" and b = "''b''"
             and a_w = "[97]" and b_w = "[98]"]
        runtime_options_narrow_xflags_lost
          [where lc = libc_ok and ?use_pep741.0 = False and entries = toc_modes
             and options = options_modes and a = "''a''" and b = "''b''"
             and a_w = "[97]" and b_w = "[98]"]
        read_x_x read_pep587_example
  by (simp add: x_x_flag_args example_flag_args libc_ok_fields toc_x_x_def [symmetric])

lemma collect_entry_modes:
  assumes "options_collect_entry lc pep e opts = Inr (Some opts')"
  shows "utf8_mode opts' =
      foldl (\<lambda>m flag. pyi_match_and_parse_xflag flag ''utf8'' m) (utf8_mode opts) (xflag_args [e])"
    and "dev_mode opts' =
      foldl (\<lambda>m flag. pyi_match_and_parse_xflag flag ''dev'' m) (dev_mode opts) (xflag_args [e])"
  using assms
  by (auto simp: options_collect_entry_def xflag_args_def Let_def not_W_and_X
           split: if_splits sum.splits option.splits prod.splits)

lemma collect_modes:
  "options_collect lc pep es opts = Inr (Some opts') \<Longrightarrow>
   utf8_mode opts' =
     foldl (\<lambda>m flag. pyi_match_and_parse_xflag flag ''utf8'' m) (utf8_mode opts) (xflag_args es) \<and>
   dev_mode opts' =
     foldl (\<lambda>m flag. pyi_match_and_parse_xflag flag ''dev'' m) (dev_mode opts) (xflag_args es)"
proof (induction es arbitrary: opts)
  case Nil
  then show ?case by (simp add: xflag_args_def)
next
  case (Cons e es)
  from Cons.prems obtain o1 where
    e: "options_collect_entry lc pep e opts = Inr (Some o1)" and
    r: "options_collect lc pep es o1 = Inr (Some opts')"
    by (auto split: sum.splits option.splits)
  from Cons.IH [OF r] collect_entry_modes [OF e] show ?case
    by (simp add: xflag_args_Cons [of e es])
qed

lemma read_modes:
  assumes "pyi_runtime_options_read lc use_pep741 entries = Inr (Some options)"
  shows "utf8_mode options =
      foldl (\<lambda>m flag. pyi_match_and_parse_xflag flag ''utf8'' m) (- 1) (xflag_args entries) \<and>
    dev_mode options =
      foldl (\<lambda>m flag. pyi_match_and_parse_xflag flag ''dev'' m) 0 (xflag_args entries)"
proof -
  obtain opts n_w n_x where
    sc: "options_scan lc entries (zeroed_options\<lparr>utf8_mode := - 1\<rparr>, 0, 0) = (opts, n_w, n_x)"
    by (cases "options_scan lc entries (zeroed_options\<lparr>utf8_mode := - 1\<rparr>, 0, 0)") auto
  note s = read_scan [OF sc]
  from assms sc obtain o1 where
    co: "options_collect lc use_pep741 entries o1 = Inr (Some options)" and
    m: "utf8_mode o1 = utf8_mode opts" "dev_mode o1 = dev_mode opts"
    by (auto simp: pyi_runtime_options_read_def Let_def split: if_splits)
  from collect_modes [OF co] m s show ?thesis by simp
qed

lemma parse_xflag_bare: "pyi_match_and_parse_xflag nm nm d = 1"
  by (simp add: pyi_match_and_parse_xflag_def pyi_match_key_value_flag_def strncmp_eq_def)

lemma parse_xflag_value:
  "c = CHR ''='' \<or> c = CHR '' '' \<Longrightarrow>
   pyi_match_and_parse_xflag (nm @ c # v) nm d = (if v = ''0'' then 0 else 1)"
  by (auto simp: pyi_match_and_parse_xflag_def pyi_match_key_value_flag_def strncmp_eq_def
      strcmp_eq_def)

lemma parse_xflag_longer_name:
  "c \<noteq> CHR ''='' \<Longrightarrow> c \<noteq> CHR '' '' \<Longrightarrow> pyi_match_and_parse_xflag (nm @ c # rest) nm d = d"
  by (simp add: pyi_match_and_parse_xflag_def pyi_match_key_value_flag_def strncmp_eq_def)

lemma parse_xflag_other_name:
  "take (length nm) flag \<noteq> nm \<Longrightarrow> pyi_match_and_parse_xflag flag nm d = d"
  by (simp add: pyi_match_and_parse_xflag_def pyi_match_key_value_flag_def strncmp_eq_def)

text \<open>
  Claim C9. In the options structure that \<^verbatim>\<open>pyi_runtime_options_read\<close> returns,
  \<^verbatim>\<open>utf8_mode\<close> is the default \<open>-1\<close> and \<^verbatim>\<open>dev_mode\<close> the default \<open>0\<close>, updated by
  \<^verbatim>\<open>_pyi_match_and_parse_xflag\<close> for the names \<^verbatim>\<open>utf8\<close> and \<^verbatim>\<open>dev\<close> at every X-flag
  entry of the table of contents, in order. That helper sets the field to 1 for the bare
  name, to 0 for the value \<^verbatim>\<open>0\<close> and to 1 for every other value (given after \<^verbatim>\<open>=\<close> or
  after a space), and leaves the field alone when the name is followed by any other
  character or is not a prefix of the flag at all.
\<close>

theorem xflag_utf8_dev_modes:
  "(pyi_runtime_options_read lc use_pep741 entries = Inr (Some options) \<longrightarrow>
      utf8_mode options =
        foldl (\<lambda>m flag. pyi_match_and_parse_xflag flag ''utf8'' m) (- 1) (xflag_args entries) \<and>
      dev_mode options =
        foldl (\<lambda>m flag. pyi_match_and_parse_xflag flag ''dev'' m) 0 (xflag_args entries)) \<and>
   pyi_match_and_parse_xflag nm nm d = 1 \<and>
   pyi_match_and_parse_xflag (nm @ CHR ''='' # v) nm d = (if v = ''0'' then 0 else 1) \<and>
   pyi_match_and_parse_xflag (nm @ CHR '' '' # v) nm d = (if v = ''0'' then 0 else 1) \<and>
   (c \<noteq> CHR ''='' \<and> c \<noteq> CHR '' '' \<longrightarrow> pyi_match_and_parse_xflag (nm @ c # rest) nm d = d) \<and>
   (take (length nm) flag \<noteq> nm \<longrightarrow> pyi_match_and_parse_xflag flag nm d = d)"
  using read_modes [of lc use_pep741 entries options] parse_xflag_bare [of nm d]
    parse_xflag_value [of "CHR ''=''" nm v d] parse_xflag_value [of "CHR '' ''" nm v d]
    parse_xflag_longer_name [of c nm rest d] parse_xflag_other_name [of nm flag d]
  by simp

theorem xflag_utf8_dev_modes_witness:
  "pyi_runtime_options_read libc_ok False toc_modes = Inr (Some options_modes) \<and>
   utf8_mode options_modes = pyi_match_and_parse_xflag ''dev'' ''utf8''
     (pyi_match_and_parse_xflag ''utf8=0'' ''utf8'' (- 1)) \<and>
   dev_mode options_modes = pyi_match_and_parse_xflag ''dev'' ''dev''
     (pyi_match_and_parse_xflag ''utf8=0'' ''dev'' 0) \<and>
   pyi_match_and_parse_xflag ''utf8'' ''utf8'' (- 1) = 1 \<and>
   pyi_match_and_parse_xflag ''utf8=0'' ''utf8'' (- 1) = 0 \<and>
   pyi_match_and_parse_xflag ''utf8 0'' ''utf8'' (- 1) = 0 \<and>
   pyi_match_and_parse_xflag ''utf8_strict'' ''utf8'' (- 1) = - 1 \<and>
   pyi_match_and_parse_xflag ''dev'' ''utf8'' (- 1) = - 1"
  using xflag_utf8_dev_modes [of libc_ok False toc_modes options_modes
      "''utf8''" "- 1" "''0''" "CHR ''_''" "''strict''" "''dev''"]
    read_pep587_example
  by (simp add: example_flag_args)

lemma collect_entry_xflag_pep741:
  assumes "typecode e = ARCHIVE_ITEM_RUNTIME_OPTION" and "name e = ''X '' @ flag"
    and "strdup_ok lc flag" and "xflags options = Some slots"
  shows "options_collect_entry lc True e options =
     (if num_wflags options < length slots
      then Inr (Some (options\<lparr>xflags := Some (slots[num_wflags options := Some flag]),
                              num_xflags := num_xflags options + 1,
                              utf8_mode := pyi_match_and_parse_xflag flag ''utf8'' (utf8_mode options),
                              dev_mode := pyi_match_and_parse_xflag flag ''dev'' (dev_mode options)\<rparr>))
      else Inl (Out_Of_Bounds_Store (num_wflags options) (length slots)))"
  using assms
  by (simp add: options_collect_entry_def array_store_def strncmp_eq_def Let_def)

lemma collect_prefix_example:
  "options_collect libc_ok True [option_entry ''W a'', option_entry ''X b'']
     (zeroed_options\<lparr>utf8_mode := - 1, wflags := Some [None], xflags := Some [None, None]\<rparr>) =
   Inr (Some (zeroed_options\<lparr>utf8_mode := - 1, wflags := Some [Some ''a''], num_wflags := 1,
                xflags := Some [None, Some ''b''], num_xflags := 1\<rparr>))"
  by (simp add: read_eval)

lemma overwrite_example_args:
  "wflag_args toc_w_x_x = [''a'']" "xflag_args toc_w_x_x = [''b'', ''c'']"
  "wflag_args toc_w_x = [''a'']" "xflag_args toc_w_x = [''b'']"
  by (simp_all add: wflag_args_def xflag_args_def toc_w_x_x_def toc_w_x_def option_entry_def
      strncmp_eq_def)

text \<open>
  Claim C2. Under the PEP 741 protocol the second loop of \<^verbatim>\<open>pyi_runtime_options_read\<close>
  stores the copy of an X-flag into \<^verbatim>\<open>xflags\<close> at the index \<^verbatim>\<open>options->num_wflags\<close>, the
  W-flag counter, and then increments \<^verbatim>\<open>num_xflags\<close>; the store is out of bounds when
  that counter is not below the number of slots. For the table of contents
  \<^verbatim>\<open>W a, X b, X c\<close> the array has two slots, \<^verbatim>\<open>b\<close> is stored in slot 1 and then
  overwritten by \<^verbatim>\<open>c\<close>, and slot 0 stays NULL. For \<^verbatim>\<open>W a, X b\<close> the array has one slot
  (\<^verbatim>\<open>num_xflags\<close> of the first loop) and the store goes to index 1, past its end.
\<close>

theorem xflags_stored_at_wflag_counter:
  "(typecode e = ARCHIVE_ITEM_RUNTIME_OPTION \<and> name e = ''X '' @ flag \<and> strdup_ok lc flag \<and>
    xflags options = Some slots \<longrightarrow>
      options_collect_entry lc True e options =
        (if num_wflags options < length slots
         then Inr (Some (options\<lparr>xflags := Some (slots[num_wflags options := Some flag]),
                 num_xflags := num_xflags options + 1,
                 utf8_mode := pyi_match_and_parse_xflag flag ''utf8'' (utf8_mode options),
                 dev_mode := pyi_match_and_parse_xflag flag ''dev'' (dev_mode options)\<rparr>))
         else Inl (Out_Of_Bounds_Store (num_wflags options) (length slots)))) \<and>
   wflag_args [option_entry ''W a'', option_entry ''X b'', option_entry ''X c''] = [''a''] \<and>
   xflag_args [option_entry ''W a'', option_entry ''X b'', option_entry ''X c''] = [''b'', ''c''] \<and>
   options_collect libc_ok True [option_entry ''W a'', option_entry ''X b'']
     (zeroed_options\<lparr>utf8_mode := - 1, wflags := Some [None], xflags := Some [None, None]\<rparr>) =
     Inr (Some (zeroed_options\<lparr>utf8_mode := - 1, wflags := Some [Some ''a''], num_wflags := 1,
                  xflags := Some [None, Some ''b''], num_xflags := 1\<rparr>)) \<and>
   pyi_runtime_options_read libc_ok True
     [option_entry ''W a'', option_entry ''X b'', option_entry ''X c''] =
     Inr (Some (zeroed_options\<lparr>utf8_mode := - 1, wflags := Some [Some ''a''], num_wflags := 1,
                  xflags := Some [None, Some ''c''], num_xflags := 2\<rparr>)) \<and>
   wflag_args [option_entry ''W a'', option_entry ''X b''] = [''a''] \<and>
   xflag_args [option_entry ''W a'', option_entry ''X b''] = [''b''] \<and>
   pyi_runtime_options_read libc_ok True [option_entry ''W a'', option_entry ''X b''] =
     Inl (Out_Of_Bounds_Store 1 1)"
  using collect_entry_xflag_pep741 [of e flag lc options slots] collect_prefix_example
    read_pep741_overwrite read_pep741_out_of_bounds overwrite_example_args
  by (simp add: toc_w_x_x_def toc_w_x_def options_w_x_x_def zeroed_options_def)

theorem xflags_stored_at_wflag_counter_witness:
  "options_collect_entry libc_ok True (option_entry ''X b'')
     (zeroed_options\<lparr>num_wflags := 1, xflags := Some [None, None]\<rparr>) =
   Inr (Some (zeroed_options\<lparr>num_wflags := 1, xflags := Some [None, Some ''b''],
                num_xflags := 1\<rparr>)) \<and>
   options_collect_entry libc_ok True (option_entry ''X b'')
     (zeroed_options\<lparr>num_wflags := 1, xflags := Some [None]\<rparr>) =
   Inl (Out_Of_Bounds_Store 1 1)"
  using xflags_stored_at_wflag_counter [of "option_entry ''X b''" "''b''" libc_ok
      "zeroed_options\<lparr>num_wflags := 1, xflags := Some [None, None]\<rparr>" "[None, None]"]
    xflags_stored_at_wflag_counter [of "option_entry ''X b''" "''b''" libc_ok
      "zeroed_options\<lparr>num_wflags := 1, xflags := Some [None]\<rparr>" "[None]"]
  by (simp add: option_entry_def libc_ok_def zeroed_options_def pyi_match_and_parse_xflag_def
      pyi_match_key_value_flag_def strncmp_eq_def)

section \<open>Properties of the configurators and of the launcher\<close>

lemma MAKE_VERSION_ID_flag: "g \<le> 1 \<Longrightarrow> MAKE_VERSION_ID v (int g) = 2 * v + int g"
proof -
  assume "g \<le> 1"
  then consider "g = 0" | "g = 1" by linarith
  then show ?thesis
  proof cases
    case 1
    then show ?thesis by (simp add: MAKE_VERSION_ID_def)
  next
    case 2
    have "v * 2 OR 1 = 2 * v + 1" by (simp add: or_one_eq)
    with 2 show ?thesis by (simp add: MAKE_VERSION_ID_def)
  qed
qed

lemma MAKE_VERSION_ID_consts:
  "MAKE_VERSION_ID 308 0 = 616" "MAKE_VERSION_ID 309 0 = 618" "MAKE_VERSION_ID 310 0 = 620"
  "MAKE_VERSION_ID 311 0 = 622" "MAKE_VERSION_ID 312 0 = 624" "MAKE_VERSION_ID 313 0 = 626"
  "MAKE_VERSION_ID 313 1 = 627"
  using MAKE_VERSION_ID_flag [of 0 308] MAKE_VERSION_ID_flag [of 0 309] MAKE_VERSION_ID_flag [of 0 310]
    MAKE_VERSION_ID_flag [of 0 311] MAKE_VERSION_ID_flag [of 0 312] MAKE_VERSION_ID_flag [of 0 313]
    MAKE_VERSION_ID_flag [of 1 313]
  by simp_all




lemma example_context_fields:
  "nogil_enabled (example_context ver nogil pep741 entries) = nogil"
  "version (dylib_python (example_context ver nogil pep741 entries)) = ver"
  "has_pep741 (dylib_python (example_context ver nogil pep741 entries)) = pep741"
  "toc (archive (example_context ver nogil pep741 entries)) = entries"
  "pkg_offset (archive (example_context ver nogil pep741 entries)) = 4096"
  "application_home_dir (example_context ver nogil pep741 entries) = ''/opt/app''"
  "archive_filename (example_context ver nogil pep741 entries) = ''/opt/app/run''"
  by (simp_all add: example_context_def)

lemma find_first:
  assumes "entries = pre @ e # post" and "\<forall>x \<in> set pre. \<not> P x" and "P e"
  shows "find P entries = Some e"
  using assms by (induction pre arbitrary: entries) auto

lemma find_none: "\<forall>x \<in> set entries. \<not> P x \<Longrightarrow> find P entries = None"
  by (induction entries) auto

lemma pyz_offset_sum:
  "unat ((p :: 64 word) + ucast (q :: 32 word)) = (unat p + unat q) mod 2 ^ 64"
proof -
  have "unat (ucast q :: 64 word) = unat q"
    using unsigned_less [of q, where ?'a = nat]
    by (simp add: unsigned_ucast_eq take_bit_nat_eq_self_iff)
  then show ?thesis by (simp add: unat_word_ariths)
qed

text \<open>
  Claim C8. When the table of contents has no entry of type PYZ,
  \<^verbatim>\<open>pyi_python_install_pyz\<close> returns \<open>-1\<close> with its message and leaves the attributes of
  \<^verbatim>\<open>sys\<close> as they are. Otherwise, with \<open>e\<close> the first entry of type PYZ and the calls
  into the Python library succeeding, it returns 0 and sets \<^verbatim>\<open>_pyinstaller_pyz\<close> to the
  decoded archive file name, a question mark, and the decimal digits of \<^verbatim>\<open>pkg_offset\<close>
  plus the offset of \<open>e\<close> (an \<^verbatim>\<open>unsigned long long\<close>, so modulo \<open>2 ^ 64\<close>).
\<close>

theorem install_pyz_publishes_offset:
  "((\<forall>x \<in> set (toc (archive pyi_ctx)). typecode x \<noteq> ARCHIVE_ITEM_PYZ) \<longrightarrow>
      pyi_python_install_pyz rt pyi_ctx sys_attrs =
        Inr (- 1, sys_attrs, [''PYZ archive entry not found in the TOC!''])) \<and>
   (toc (archive pyi_ctx) = pre @ e # post \<and>
    (\<forall>x \<in> set pre. typecode x \<noteq> ARCHIVE_ITEM_PYZ) \<and> typecode e = ARCHIVE_ITEM_PYZ \<and>
    PyUnicode_Decode_filename rt (archive_filename pyi_ctx) = Some path \<and>
    PyUnicode_FromFormat_ok rt
      (path @ map of_char (''?'' @ show_nat
         ((unat (pkg_offset (archive pyi_ctx)) + unat (offset e)) mod 2 ^ 64))) \<and>
    PySys_SetObject_ok rt ''_pyinstaller_pyz''
      (path @ map of_char (''?'' @ show_nat
         ((unat (pkg_offset (archive pyi_ctx)) + unat (offset e)) mod 2 ^ 64))) \<longrightarrow>
      pyi_python_install_pyz rt pyi_ctx sys_attrs =
        Inr (0, sys_attrs(''_pyinstaller_pyz'' \<mapsto>
                  path @ map of_char (''?'' @ show_nat
                    ((unat (pkg_offset (archive pyi_ctx)) + unat (offset e)) mod 2 ^ 64))), []))"
proof (intro conjI impI)
  assume "\<forall>x \<in> set (toc (archive pyi_ctx)). typecode x \<noteq> ARCHIVE_ITEM_PYZ"
  then have "find (\<lambda>e. typecode e = ARCHIVE_ITEM_PYZ) (toc (archive pyi_ctx)) = None"
    by (intro find_none) simp
  then show "pyi_python_install_pyz rt pyi_ctx sys_attrs =
      Inr (- 1, sys_attrs, [''PYZ archive entry not found in the TOC!''])"
    by (simp add: pyi_python_install_pyz_def)
next
  let ?off = "(unat (pkg_offset (archive pyi_ctx)) + unat (offset e)) mod 2 ^ 64"
  let ?obj = "path @ map of_char (''?'' @ show_nat ?off)"
  assume a: "toc (archive pyi_ctx) = pre @ e # post \<and>
    (\<forall>x \<in> set pre. typecode x \<noteq> ARCHIVE_ITEM_PYZ) \<and> typecode e = ARCHIVE_ITEM_PYZ \<and>
    PyUnicode_Decode_filename rt (archive_filename pyi_ctx) = Some path \<and>
    PyUnicode_FromFormat_ok rt ?obj \<and> PySys_SetObject_ok rt ''_pyinstaller_pyz'' ?obj"
  then have f: "find (\<lambda>e. typecode e = ARCHIVE_ITEM_PYZ) (toc (archive pyi_ctx)) = Some e"
    by (intro find_first [of _ pre e post]) simp_all
  have off: "unat (pkg_offset (archive pyi_ctx) + ucast (offset e)) = ?off"
    by (rule pyz_offset_sum)
  from a have d: "PyUnicode_Decode_filename rt (archive_filename pyi_ctx) = Some path"
    and ok: "PyUnicode_FromFormat_ok rt ?obj" "PySys_SetObject_ok rt ''_pyinstaller_pyz'' ?obj"
    by simp_all
  show "pyi_python_install_pyz rt pyi_ctx sys_attrs =
      Inr (0, sys_attrs(''_pyinstaller_pyz'' \<mapsto> ?obj), [])"
    using ok by (simp add: pyi_python_install_pyz_def f d off Let_def)
qed

lemma show_nat_4196: "show_nat 4196 = ''4196''"
  by (simp add: show_nat.simps)

theorem install_pyz_publishes_offset_witness:
  "pyi_python_install_pyz py_runtime_ok
     (example_context 312 0 False [option_entry ''v'', pyz_entry 100, pyz_entry 7]) Map.empty =
     Inr (0, [''_pyinstaller_pyz'' \<mapsto> map of_char ''/opt/app/run?4196''], []) \<and>
   pyi_python_install_pyz py_runtime_ok (example_context 312 0 False [option_entry ''v''])
     Map.empty = Inr (- 1, Map.empty, [''PYZ archive entry not found in the TOC!''])"
  using install_pyz_publishes_offset [of "example_context 312 0 False [option_entry ''v'']"
      py_runtime_ok Map.empty]
    install_pyz_publishes_offset [of
      "example_context 312 0 False [option_entry ''v'', pyz_entry 100, pyz_entry 7]"
      py_runtime_ok Map.empty "[option_entry ''v'']" "pyz_entry 100" "[pyz_entry 7]"
      "map of_char ''/opt/app/run''"]
  by (simp add: example_context_fields option_entry_def pyz_entry_def py_runtime_ok_def
      show_nat_4196)

lemma pep741_set_ints_ok:
  "pep741_set_ints rt config kvs = (0, c', errs) \<Longrightarrow>
   c' = foldl (\<lambda>c kv. c(fst kv \<mapsto> Config_Int (snd kv))) config kvs \<and> errs = []"
  by (induction rt config kvs rule: pep741_set_ints.induct) (auto split: if_splits)

lemma pep741_set_ints_status:
  "fst (pep741_set_ints rt config kvs) = 0 \<or> fst (pep741_set_ints rt config kvs) = - 1"
proof (induction kvs arbitrary: config)
  case Nil
  show ?case by simp
next
  case (Cons kv kvs)
  obtain nm v where kv: "kv = (nm, v)" by (cases kv)
  from Cons.IH [of "config(nm \<mapsto> Config_Int v)"] show ?case
    unfolding kv pep741_set_ints.simps
    by (cases "PyInitConfig_SetInt_ok rt nm v") (simp_all add: fun_upd_def)
qed

lemma pep741_runtime_options_ok:
  assumes "pyi_pyconfig_pep741_set_runtime_options rt config ro = Inr (0, config', errs)"
  shows "\<exists>ws xs.
    array_read_strings (wflags ro) (num_wflags ro) = Inr ws \<and>
    array_read_strings (xflags ro) (num_xflags ro) = Inr xs \<and>
    config' = (foldl (\<lambda>c kv. c(fst kv \<mapsto> Config_Int (snd kv))) config (pep741_runtime_ints ro))
      (''warnoptions'' \<mapsto> Config_StrList ws, ''xoptions'' \<mapsto> Config_StrList xs)"
proof -
  obtain r c1 es where s: "pep741_set_ints rt config (pep741_runtime_ints ro) = (r, c1, es)"
    by (cases "pep741_set_ints rt config (pep741_runtime_ints ro)") auto
  from pep741_set_ints_status [of rt config "pep741_runtime_ints ro"] s
  have "r = 0 \<or> r = - 1" by simp
  with assms s have r: "r = 0"
    by (auto simp: pyi_pyconfig_pep741_set_runtime_options_def)
  from pep741_set_ints_ok [of rt config "pep741_runtime_ints ro" c1 es] s r
  have c1: "c1 = foldl (\<lambda>c kv. c(fst kv \<mapsto> Config_Int (snd kv))) config (pep741_runtime_ints ro)"
    by simp
  from assms s r c1 show ?thesis
    by (auto simp: pyi_pyconfig_pep741_set_runtime_options_def Let_def
        split: sum.splits if_splits)
qed

lemma pep587_set_flag_list_ok:
  assumes "pep587_set_flag_list rt n arr old = Inr (Some l)"
  shows "if n = 0 then l = old else array_read_strings arr n = Inr l"
  using assms by (auto simp: pep587_set_flag_list_def split: if_splits sum.splits)

lemma pep587_runtime_options_ok:
  assumes "pyi_pyconfig_pep587_set_runtime_options rt pyi_ctx config ro = Inr (0, config')"
  shows "\<exists>ws xs.
    (if num_wflags ro = 0 then ws = cfg_warnoptions config
     else array_read_strings (wflags_w ro) (num_wflags ro) = Inr ws) \<and>
    (if num_xflags ro = 0 then xs = cfg_xoptions config
     else array_read_strings (xflags_w ro) (num_xflags ro) = Inr xs) \<and>
    config' = config\<lparr>cfg_site_import := 0, cfg_write_bytecode := 0, cfg_configure_c_stdio := 1,
      cfg_optimization_level := optimize ro,
      cfg_buffered_stdio := (if unbuffered ro = 0 then 1 else 0),
      cfg_verbose := verbose ro, cfg_use_hash_seed := use_hash_seed ro,
      cfg_hash_seed := hash_seed ro, cfg_dev_mode := dev_mode ro,
      cfg_warnoptions := ws, cfg_xoptions := xs, cfg_install_signal_handlers := 1\<rparr>"
proof -
  define c1 where "c1 = config\<lparr>cfg_site_import := 0, cfg_write_bytecode := 0,
      cfg_configure_c_stdio := 1, cfg_optimization_level := optimize ro,
      cfg_buffered_stdio := (if unbuffered ro = 0 then 1 else 0),
      cfg_verbose := verbose ro, cfg_use_hash_seed := use_hash_seed ro,
      cfg_hash_seed := hash_seed ro, cfg_dev_mode := dev_mode ro\<rparr>"
  from assms obtain ws where
    w: "pep587_set_flag_list rt (num_wflags ro) (wflags_w ro) (cfg_warnoptions c1) = Inr (Some ws)"
    and r1: "(case pep587_set_flag_list rt (num_xflags ro) (xflags_w ro)
                (cfg_xoptions (c1\<lparr>cfg_warnoptions := ws\<rparr>)) of
              Inl f \<Rightarrow> Inl f
            | Inr None \<Rightarrow> Inr (- 1 :: int, c1\<lparr>cfg_warnoptions := ws\<rparr>)
            | Inr (Some xs) \<Rightarrow>
                Inr (0, c1\<lparr>cfg_warnoptions := ws, cfg_xoptions := xs,
                            cfg_install_signal_handlers := 1\<rparr>)) = Inr (0 :: int, config')"
    by (auto simp: pyi_pyconfig_pep587_set_runtime_options_def Let_def c1_def
        split: option.splits sum.splits)
  have "\<exists>xs. pep587_set_flag_list rt (num_xflags ro) (xflags_w ro)
          (cfg_xoptions (c1\<lparr>cfg_warnoptions := ws\<rparr>)) = Inr (Some xs) \<and>
        config' = c1\<lparr>cfg_warnoptions := ws, cfg_xoptions := xs,
                          cfg_install_signal_handlers := 1\<rparr>"
  proof (cases "pep587_set_flag_list rt (num_xflags ro) (xflags_w ro)
          (cfg_xoptions (c1\<lparr>cfg_warnoptions := ws\<rparr>))")
    case (Inl f)
    with r1 show ?thesis by simp
  next
    case (Inr v)
    with r1 show ?thesis by (cases v) simp_all
  qed
  then obtain xs where
    x: "pep587_set_flag_list rt (num_xflags ro) (xflags_w ro)
          (cfg_xoptions (c1\<lparr>cfg_warnoptions := ws\<rparr>)) = Inr (Some xs)"
    and c': "config' = c1\<lparr>cfg_warnoptions := ws, cfg_xoptions := xs,
                          cfg_install_signal_handlers := 1\<rparr>"
    by blast
  from pep587_set_flag_list_ok [OF w]
  have w': "if num_wflags ro = 0 then ws = cfg_warnoptions config
     else array_read_strings (wflags_w ro) (num_wflags ro) = Inr ws"
    by (simp add: c1_def)
  from pep587_set_flag_list_ok [OF x]
  have x': "if num_xflags ro = 0 then xs = cfg_xoptions config
     else array_read_strings (xflags_w ro) (num_xflags ro) = Inr xs"
    by (simp add: c1_def)
  from c' have "config' = config\<lparr>cfg_site_import := 0, cfg_write_bytecode := 0,
      cfg_configure_c_stdio := 1, cfg_optimization_level := optimize ro,
      cfg_buffered_stdio := (if unbuffered ro = 0 then 1 else 0),
      cfg_verbose := verbose ro, cfg_use_hash_seed := use_hash_seed ro,
      cfg_hash_seed := hash_seed ro, cfg_dev_mode := dev_mode ro,
      cfg_warnoptions := ws, cfg_xoptions := xs, cfg_install_signal_handlers := 1\<rparr>"
    by (simp add: c1_def)
  with w' x' show ?thesis by blast
qed

text \<open>
  Claim C1. What the two implementations of \<^verbatim>\<open>set_runtime_options\<close> have set when they
  return 0. They agree on every option but one: the PEP 587 implementation sets
  \<^verbatim>\<open>configure_c_stdio\<close> to 1, the PEP 741 implementation sets it to 0.
\<close>

theorem runtime_options_mapping_configure_c_stdio:
  "(pyi_pyconfig_pep587_set_runtime_options rt pyi_ctx config ro = Inr (0, config') \<longrightarrow>
      cfg_site_import config' = 0 \<and> cfg_write_bytecode config' = 0 \<and>
      cfg_configure_c_stdio config' = 1 \<and>
      cfg_optimization_level config' = optimize ro \<and>
      cfg_buffered_stdio config' = (if unbuffered ro = 0 then 1 else 0) \<and>
      cfg_verbose config' = verbose ro \<and>
      cfg_use_hash_seed config' = use_hash_seed ro \<and> cfg_hash_seed config' = hash_seed ro \<and>
      cfg_dev_mode config' = dev_mode ro \<and> cfg_install_signal_handlers config' = 1 \<and>
      (num_wflags ro \<noteq> 0 \<longrightarrow>
         array_read_strings (wflags_w ro) (num_wflags ro) = Inr (cfg_warnoptions config')) \<and>
      (num_xflags ro \<noteq> 0 \<longrightarrow>
         array_read_strings (xflags_w ro) (num_xflags ro) = Inr (cfg_xoptions config'))) \<and>
   (pyi_pyconfig_pep741_set_runtime_options rt init_config ro = Inr (0, init_config', errs) \<longrightarrow>
      init_config' ''site_import'' = Some (Config_Int 0) \<and>
      init_config' ''write_bytecode'' = Some (Config_Int 0) \<and>
      init_config' ''configure_c_stdio'' = Some (Config_Int 0) \<and>
      init_config' ''optimization_level'' = Some (Config_Int (optimize ro)) \<and>
      init_config' ''buffered_stdio'' = Some (Config_Int (if unbuffered ro = 0 then 1 else 0)) \<and>
      init_config' ''verbose'' = Some (Config_Int (verbose ro)) \<and>
      init_config' ''use_hash_seed'' = Some (Config_Int (use_hash_seed ro)) \<and>
      init_config' ''hash_seed'' = Some (Config_Int (signed_take_bit 63 (int (hash_seed ro)))) \<and>
      init_config' ''dev_mode'' = Some (Config_Int (dev_mode ro)) \<and>
      init_config' ''install_signal_handlers'' = Some (Config_Int 1) \<and>
      (\<exists>ws. array_read_strings (wflags ro) (num_wflags ro) = Inr ws \<and>
            init_config' ''warnoptions'' = Some (Config_StrList ws)) \<and>
      (\<exists>xs. array_read_strings (xflags ro) (num_xflags ro) = Inr xs \<and>
            init_config' ''xoptions'' = Some (Config_StrList xs)))"
proof (intro conjI impI)
  assume a: "pyi_pyconfig_pep587_set_runtime_options rt pyi_ctx config ro = Inr (0, config')"
  from pep587_runtime_options_ok [OF a] obtain ws xs where
    w: "if num_wflags ro = 0 then ws = cfg_warnoptions config
        else array_read_strings (wflags_w ro) (num_wflags ro) = Inr ws" and
    x: "if num_xflags ro = 0 then xs = cfg_xoptions config
        else array_read_strings (xflags_w ro) (num_xflags ro) = Inr xs" and
    c: "config' = config\<lparr>cfg_site_import := 0, cfg_write_bytecode := 0, cfg_configure_c_stdio := 1,
      cfg_optimization_level := optimize ro,
      cfg_buffered_stdio := (if unbuffered ro = 0 then 1 else 0),
      cfg_verbose := verbose ro, cfg_use_hash_seed := use_hash_seed ro,
      cfg_hash_seed := hash_seed ro, cfg_dev_mode := dev_mode ro,
      cfg_warnoptions := ws, cfg_xoptions := xs, cfg_install_signal_handlers := 1\<rparr>"
    by blast
  from c show "cfg_site_import config' = 0" "cfg_write_bytecode config' = 0"
    "cfg_configure_c_stdio config' = 1" "cfg_optimization_level config' = optimize ro"
    "cfg_buffered_stdio config' = (if unbuffered ro = 0 then 1 else 0)"
    "cfg_verbose config' = verbose ro" "cfg_use_hash_seed config' = use_hash_seed ro"
    "cfg_hash_seed config' = hash_seed ro" "cfg_dev_mode config' = dev_mode ro"
    "cfg_install_signal_handlers config' = 1"
    by simp_all
  {
    assume "num_wflags ro \<noteq> 0"
    with w c show "array_read_strings (wflags_w ro) (num_wflags ro) = Inr (cfg_warnoptions config')"
      by simp
  }
  {
    assume "num_xflags ro \<noteq> 0"
    with x c show "array_read_strings (xflags_w ro) (num_xflags ro) = Inr (cfg_xoptions config')"
      by simp
  }
next
  assume a: "pyi_pyconfig_pep741_set_runtime_options rt init_config ro = Inr (0, init_config', errs)"
  from pep741_runtime_options_ok [OF a] obtain ws xs where
    w: "array_read_strings (wflags ro) (num_wflags ro) = Inr ws" and
    x: "array_read_strings (xflags ro) (num_xflags ro) = Inr xs" and
    c: "init_config' =
      (foldl (\<lambda>c kv. c(fst kv \<mapsto> Config_Int (snd kv))) init_config (pep741_runtime_ints ro))
      (''warnoptions'' \<mapsto> Config_StrList ws, ''xoptions'' \<mapsto> Config_StrList xs)"
    by blast
  from c show "init_config' ''site_import'' = Some (Config_Int 0)"
    "init_config' ''write_bytecode'' = Some (Config_Int 0)"
    "init_config' ''configure_c_stdio'' = Some (Config_Int 0)"
    "init_config' ''optimization_level'' = Some (Config_Int (optimize ro))"
    "init_config' ''buffered_stdio'' = Some (Config_Int (if unbuffered ro = 0 then 1 else 0))"
    "init_config' ''verbose'' = Some (Config_Int (verbose ro))"
    "init_config' ''use_hash_seed'' = Some (Config_Int (use_hash_seed ro))"
    "init_config' ''hash_seed'' = Some (Config_Int (signed_take_bit 63 (int (hash_seed ro))))"
    "init_config' ''dev_mode'' = Some (Config_Int (dev_mode ro))"
    "init_config' ''install_signal_handlers'' = Some (Config_Int 1)"
    by (simp_all add: pep741_runtime_ints_def)
  from c w show "\<exists>ws. array_read_strings (wflags ro) (num_wflags ro) = Inr ws \<and>
            init_config' ''warnoptions'' = Some (Config_StrList ws)"
    by simp
  from c x show "\<exists>xs. array_read_strings (xflags ro) (num_xflags ro) = Inr xs \<and>
            init_config' ''xoptions'' = Some (Config_StrList xs)"
    by simp
qed

theorem runtime_options_mapping_configure_c_stdio_witness:
  "(\<exists>c. pyi_pyconfig_pep587_set_runtime_options py_runtime_ok (example_context 312 0 False [])
          zeroed_config options_modes = Inr (0, c) \<and> cfg_configure_c_stdio c = 1) \<and>
   (\<exists>c. pyi_pyconfig_pep741_set_runtime_options py_runtime_ok Map.empty options_x_w_x =
          Inr (0, c, []) \<and> c ''configure_c_stdio'' = Some (Config_Int 0))"
proof -
  have "\<exists>c. pyi_pyconfig_pep587_set_runtime_options py_runtime_ok
      (example_context 312 0 False []) zeroed_config options_modes = Inr (0, c)"
    by (simp add: pyi_pyconfig_pep587_set_runtime_options_def context_version_id_def
        example_context_fields pep587_impl_case_def MAKE_VERSION_ID_consts
        pep587_set_flag_list_def array_read_strings_def array_slots_def options_modes_def
        py_runtime_ok_def Let_def)
  then obtain c1 where c1: "pyi_pyconfig_pep587_set_runtime_options py_runtime_ok
      (example_context 312 0 False []) zeroed_config options_modes = Inr (0, c1)" ..
  have "\<exists>c. pyi_pyconfig_pep741_set_runtime_options py_runtime_ok Map.empty options_x_w_x =
      Inr (0, c, [])"
    by (simp add: pyi_pyconfig_pep741_set_runtime_options_def pep741_runtime_ints_def
        array_read_strings_def array_slots_def options_x_w_x_def py_runtime_ok_def Let_def)
  then obtain c2 where c2: "pyi_pyconfig_pep741_set_runtime_options py_runtime_ok Map.empty
      options_x_w_x = Inr (0, c2, [])" ..
  from runtime_options_mapping_configure_c_stdio [of py_runtime_ok
      "example_context 312 0 False []" zeroed_config options_modes c1 Map.empty c2 "[]"]
    runtime_options_mapping_configure_c_stdio [of py_runtime_ok
      "example_context 312 0 False []" zeroed_config options_x_w_x c1 Map.empty c2 "[]"] c1 c2
  show ?thesis by simp
qed

lemma pep587_paths_ok:
  assumes "pyi_pyconfig_pep587_set_module_search_paths lc rt plat pyi_ctx config = (0, config')"
  shows "\<exists>b d h.
    (if plat = Win32 then pyi_win32_utf8_to_wcs rt else Py_DecodeLocale rt)
      (base_library_path plat (application_home_dir pyi_ctx)) = Some b \<and>
    (if plat = Win32 then pyi_win32_utf8_to_wcs rt else Py_DecodeLocale rt)
      (lib_dynload_path plat (application_home_dir pyi_ctx) (version (dylib_python pyi_ctx))) = Some d \<and>
    (if plat = Win32 then pyi_win32_utf8_to_wcs rt else Py_DecodeLocale rt)
      (application_home_dir pyi_ctx) = Some h \<and>
    config' = config\<lparr>cfg_module_search_paths := [b, d, h], cfg_module_search_paths_set := 1\<rparr>"
proof -
  let ?conv = "if plat = Win32 then pyi_win32_utf8_to_wcs rt else Py_DecodeLocale rt"
  let ?b = "base_library_path plat (application_home_dir pyi_ctx)"
  let ?d = "lib_dynload_path plat (application_home_dir pyi_ctx) (version (dylib_python pyi_ctx))"
  let ?h = "application_home_dir pyi_ctx"
  from assms have
    nn: "None \<notin> set (map ?conv [?b, ?d, ?h])" and
    st: "pyi_pyconfig_set_module_search_paths rt pyi_ctx config (map the (map ?conv [?b, ?d, ?h]))
          = (0, config')"
    by (auto simp: pyi_pyconfig_pep587_set_module_search_paths_def Let_def split: if_splits)
  from nn obtain b d h where c: "?conv ?b = Some b" "?conv ?d = Some d" "?conv ?h = Some h"
    by (cases "?conv ?b"; cases "?conv ?d"; cases "?conv ?h") auto
  from st c have "config' = config\<lparr>cfg_module_search_paths := [b, d, h],
      cfg_module_search_paths_set := 1\<rparr>"
    by (auto simp: pyi_pyconfig_set_module_search_paths_def split: option.splits if_splits)
  with c show ?thesis by blast
qed

lemma pep741_paths_ok:
  assumes "pyi_pyconfig_pep741_set_module_search_paths lc rt plat pyi_ctx config =
     Inr (0, config', errs)"
  shows "\<exists>h. pep741_home_dir_utf8 lc rt plat pyi_ctx = Inr (Inr h) \<and>
    config' = config(''module_search_paths'' \<mapsto> Config_StrList
      [base_library_path plat h, lib_dynload_path plat h (version (dylib_python pyi_ctx)), h])"
  using assms
  by (auto simp: pyi_pyconfig_pep741_set_module_search_paths_def Let_def
      split: sum.splits if_splits)

lemma set_paths_flag:
  "pep587_impl_case (context_version_id pyi_ctx) \<noteq> None \<Longrightarrow>
   cfg_module_search_paths_set (snd (pyi_pyconfig_set_module_search_paths rt pyi_ctx config paths)) = 1"
  by (auto simp: pyi_pyconfig_set_module_search_paths_def)

lemma wchar_to_utf8_loop_ascii:
  "\<forall>c \<in> set s. (of_char c :: int) < 0x80 \<Longrightarrow> wchar_to_utf8_loop (map of_char s) = s"
proof (induction s rule: induct_list012)
  case 1
  show ?case by simp
next
  case (2 c)
  then show ?case by (simp add: utf8_encode_def)
next
  case (3 c d s)
  then show ?case by (simp add: utf8_encode_def)
qed

lemma pep741_home_cases:
  assumes "pep741_home_dir_utf8 lc rt plat pyi_ctx = Inr (Inr h)"
  shows "if plat = Win32 then h = application_home_dir pyi_ctx
         else \<exists>w. Py_DecodeLocale rt (application_home_dir pyi_ctx) = Some w \<and>
                  wchar_to_utf8 lc w = Some h"
  using assms
  by (auto simp: pep741_home_dir_utf8_def locale_encoding_to_utf8_def
      split: if_splits sum.splits option.splits)

text \<open>
  Claim C4. When a module-search-path configurator returns 0 it has set three paths, in
  this order: the home directory joined with \<^verbatim>\<open>base_library.zip\<close>, the home directory
  joined with \<^verbatim>\<open>python<major>.<minor>\<close> and \<^verbatim>\<open>lib-dynload\<close>, where major and minor are
  \<^verbatim>\<open>version / 100\<close> and \<^verbatim>\<open>version % 100\<close>, and the home directory itself. The components
  are joined with \<^verbatim>\<open>PYI_SEPSTR\<close>, the slash everywhere but on Windows. The legacy
  configurator passes the paths converted to wide strings and has set
  \<^verbatim>\<open>module_search_paths_set\<close> to 1; its helper sets that flag for every supported
  version, whatever the status of the call that stores the list. The PEP 741
  configurator builds the paths from the home directory in UTF-8.
\<close>

theorem module_search_paths_three:
  "(pyi_pyconfig_pep587_set_module_search_paths lc rt plat pyi_ctx config = (0, config') \<longrightarrow>
      cfg_module_search_paths_set config' = 1 \<and>
      map Some (cfg_module_search_paths config') =
        map (if plat = Win32 then pyi_win32_utf8_to_wcs rt else Py_DecodeLocale rt)
          [application_home_dir pyi_ctx @ PYI_SEPSTR plat @ ''base_library.zip'',
           application_home_dir pyi_ctx @ PYI_SEPSTR plat @ ''python''
             @ show_int (c_div (version (dylib_python pyi_ctx)) 100) @ ''.''
             @ show_int (c_mod (version (dylib_python pyi_ctx)) 100)
             @ PYI_SEPSTR plat @ ''lib-dynload'',
           application_home_dir pyi_ctx]) \<and>
   (pyi_pyconfig_pep741_set_module_search_paths lc rt plat pyi_ctx init_config =
      Inr (0, init_config', errs) \<longrightarrow>
      (\<exists>h. (if plat = Win32 then h = application_home_dir pyi_ctx
             else \<exists>w. Py_DecodeLocale rt (application_home_dir pyi_ctx) = Some w \<and>
                      wchar_to_utf8 lc w = Some h) \<and>
            init_config' ''module_search_paths'' =
              Some (Config_StrList
                [h @ PYI_SEPSTR plat @ ''base_library.zip'',
                 h @ PYI_SEPSTR plat @ ''python''
                   @ show_int (c_div (version (dylib_python pyi_ctx)) 100) @ ''.''
                   @ show_int (c_mod (version (dylib_python pyi_ctx)) 100)
                   @ PYI_SEPSTR plat @ ''lib-dynload'',
                 h]))) \<and>
   (pep587_impl_case (context_version_id pyi_ctx) \<noteq> None \<longrightarrow>
      cfg_module_search_paths_set
        (snd (pyi_pyconfig_set_module_search_paths rt pyi_ctx config paths)) = 1)"
proof (intro conjI impI)
  assume a: "pyi_pyconfig_pep587_set_module_search_paths lc rt plat pyi_ctx config = (0, config')"
  from pep587_paths_ok [OF a] show "cfg_module_search_paths_set config' = 1"
    by auto
  from pep587_paths_ok [OF a] show "map Some (cfg_module_search_paths config') =
        map (if plat = Win32 then pyi_win32_utf8_to_wcs rt else Py_DecodeLocale rt)
          [application_home_dir pyi_ctx @ PYI_SEPSTR plat @ ''base_library.zip'',
           application_home_dir pyi_ctx @ PYI_SEPSTR plat @ ''python''
             @ show_int (c_div (version (dylib_python pyi_ctx)) 100) @ ''.''
             @ show_int (c_mod (version (dylib_python pyi_ctx)) 100)
             @ PYI_SEPSTR plat @ ''lib-dynload'',
           application_home_dir pyi_ctx]"
    by (auto simp: base_library_path_def lib_dynload_path_def)
next
  assume a: "pyi_pyconfig_pep741_set_module_search_paths lc rt plat pyi_ctx init_config =
      Inr (0, init_config', errs)"
  from pep741_paths_ok [OF a] obtain h where
    h: "pep741_home_dir_utf8 lc rt plat pyi_ctx = Inr (Inr h)" and
    c: "init_config' = init_config(''module_search_paths'' \<mapsto> Config_StrList
      [base_library_path plat h, lib_dynload_path plat h (version (dylib_python pyi_ctx)), h])"
    by blast
  from pep741_home_cases [OF h] c
  show "\<exists>h. (if plat = Win32 then h = application_home_dir pyi_ctx
             else \<exists>w. Py_DecodeLocale rt (application_home_dir pyi_ctx) = Some w \<and>
                      wchar_to_utf8 lc w = Some h) \<and>
            init_config' ''module_search_paths'' =
              Some (Config_StrList
                [h @ PYI_SEPSTR plat @ ''base_library.zip'',
                 h @ PYI_SEPSTR plat @ ''python''
                   @ show_int (c_div (version (dylib_python pyi_ctx)) 100) @ ''.''
                   @ show_int (c_mod (version (dylib_python pyi_ctx)) 100)
                   @ PYI_SEPSTR plat @ ''lib-dynload'',
                 h])"
    by (intro exI [of _ h]) (simp add: base_library_path_def lib_dynload_path_def)
next
  assume "pep587_impl_case (context_version_id pyi_ctx) \<noteq> None"
  then show "cfg_module_search_paths_set
        (snd (pyi_pyconfig_set_module_search_paths rt pyi_ctx config paths)) = 1"
    by (rule set_paths_flag)
qed

lemma show_version_312: "show_int (c_div 312 100) = ''3''" "show_int (c_mod 312 100) = ''12''"
  by (simp_all add: show_int_def c_div_def c_mod_def show_nat.simps)

lemma example_paths:
  "base_library_path Other_POSIX ''/opt/app'' = ''/opt/app/base_library.zip''"
  "lib_dynload_path Other_POSIX ''/opt/app'' 312 = ''/opt/app/python3.12/lib-dynload''"
  "base_library_path Win32 ''/opt/app'' = ''/opt/app'' @ [CHR 0x5C] @ ''base_library.zip''"
  "lib_dynload_path Win32 ''/opt/app'' 312 =
     ''/opt/app'' @ [CHR 0x5C] @ ''python3.12'' @ [CHR 0x5C] @ ''lib-dynload''"
  by (simp_all add: base_library_path_def lib_dynload_path_def PYI_SEPSTR_def show_version_312)

lemma py_runtime_ok_fields:
  "Py_DecodeLocale py_runtime_ok str = Some (map of_char str)"
  "pyi_win32_utf8_to_wcs py_runtime_ok str = Some (map of_char str)"
  "pyi_win32_wcs_to_utf8 py_runtime_ok w = Some (wchar_to_utf8_loop w)"
  "PyConfig_SetString_ok py_runtime_ok w"
  "PyConfig_SetBytesString py_runtime_ok str = Some (map of_char str)"
  "PyConfig_SetWideStringList_ok py_runtime_ok ws"
  "PyInitConfig_Create py_runtime_ok = Some Map.empty"
  "PyInitConfig_SetInt_ok py_runtime_ok nm i"
  "PyInitConfig_SetStr_ok py_runtime_ok nm str"
  "PyInitConfig_SetStrList_ok py_runtime_ok nm strs"
  "Py_PreInitialize_ok py_runtime_ok u d"
  "PyUnicode_Decode_filename py_runtime_ok str = Some (map of_char str)"
  "PyUnicode_FromFormat_ok py_runtime_ok w"
  "PySys_SetObject_ok py_runtime_ok nm w"
  by (simp_all add: py_runtime_ok_def)

lemma pep587_paths_example:
  "pyi_pyconfig_pep587_set_module_search_paths libc_ok py_runtime_ok Other_POSIX
     (example_context 312 0 False []) zeroed_config =
   (0, zeroed_config\<lparr>cfg_module_search_paths :=
         [map of_char ''/opt/app/base_library.zip'',
          map of_char ''/opt/app/python3.12/lib-dynload'',
          map of_char ''/opt/app''],
       cfg_module_search_paths_set := 1\<rparr>)"
  by (simp add: pyi_pyconfig_pep587_set_module_search_paths_def example_context_fields
      example_paths snprintf_overflows_def libc_ok_fields py_runtime_ok_fields
      pyi_pyconfig_set_module_search_paths_def context_version_id_def pep587_impl_case_def
      MAKE_VERSION_ID_consts Let_def)

lemma home_utf8_example:
  "pep741_home_dir_utf8 libc_ok py_runtime_ok Other_POSIX (example_context 312 0 True []) =
     Inr (Inr ''/opt/app'')"
proof -
  have "wchar_to_utf8_loop (map of_char ''/opt/app'') = ''/opt/app''"
    by (rule wchar_to_utf8_loop_ascii) simp
  then show ?thesis
    by (simp add: pep741_home_dir_utf8_def locale_encoding_to_utf8_def wchar_to_utf8_def
        example_context_fields libc_ok_fields py_runtime_ok_fields Let_def)
qed

lemma pep741_paths_example:
  "pyi_pyconfig_pep741_set_module_search_paths libc_ok py_runtime_ok Other_POSIX
     (example_context 312 0 True []) Map.empty =
   Inr (0, [''module_search_paths'' \<mapsto> Config_StrList
              [''/opt/app/base_library.zip'', ''/opt/app/python3.12/lib-dynload'', ''/opt/app'']],
        [])"
  by (simp add: pyi_pyconfig_pep741_set_module_search_paths_def home_utf8_example
      example_context_fields example_paths snprintf_overflows_def libc_ok_fields py_runtime_ok_fields
      Let_def)

lemma pep741_paths_example_win32:
  "pyi_pyconfig_pep741_set_module_search_paths libc_ok py_runtime_ok Win32
     (example_context 312 0 True []) Map.empty =
   Inr (0, [''module_search_paths'' \<mapsto> Config_StrList
              [''/opt/app'' @ [CHR 0x5C] @ ''base_library.zip'',
               ''/opt/app'' @ [CHR 0x5C] @ ''python3.12'' @ [CHR 0x5C] @ ''lib-dynload'',
               ''/opt/app'']],
        [])"
  by (simp add: pyi_pyconfig_pep741_set_module_search_paths_def pep741_home_dir_utf8_def
      example_context_fields example_paths snprintf_overflows_def libc_ok_fields py_runtime_ok_fields
      Let_def)

theorem module_search_paths_three_witness:
  "pyi_pyconfig_pep587_set_module_search_paths libc_ok py_runtime_ok Other_POSIX
     (example_context 312 0 False []) zeroed_config =
   (0, zeroed_config\<lparr>cfg_module_search_paths :=
         [map of_char ''/opt/app/base_library.zip'',
          map of_char ''/opt/app/python3.12/lib-dynload'',
          map of_char ''/opt/app''],
       cfg_module_search_paths_set := 1\<rparr>) \<and>
   pyi_pyconfig_pep741_set_module_search_paths libc_ok py_runtime_ok Other_POSIX
     (example_context 312 0 True []) Map.empty =
   Inr (0, [''module_search_paths'' \<mapsto> Config_StrList
              [''/opt/app/base_library.zip'', ''/opt/app/python3.12/lib-dynload'', ''/opt/app'']],
        []) \<and>
   pyi_pyconfig_pep741_set_module_search_paths libc_ok py_runtime_ok Win32
     (example_context 312 0 True []) Map.empty =
   Inr (0, [''module_search_paths'' \<mapsto> Config_StrList
              [''/opt/app'' @ [CHR 0x5C] @ ''base_library.zip'',
               ''/opt/app'' @ [CHR 0x5C] @ ''python3.12'' @ [CHR 0x5C] @ ''lib-dynload'',
               ''/opt/app'']],
        []) \<and>
   cfg_module_search_paths_set
     (snd (pyi_pyconfig_set_module_search_paths py_runtime_ok (example_context 312 0 False [])
        zeroed_config [])) = 1"
  using module_search_paths_three [of libc_ok py_runtime_ok Other_POSIX
      "example_context 312 0 False []" zeroed_config
      "snd (pyi_pyconfig_pep587_set_module_search_paths libc_ok py_runtime_ok Other_POSIX
         (example_context 312 0 False []) zeroed_config)" Map.empty Map.empty "[]" "[]"]
    pep587_paths_example pep741_paths_example pep741_paths_example_win32
  by (simp add: context_version_id_def example_context_fields pep587_impl_case_def
      MAKE_VERSION_ID_consts)

subsection \<open>The supported versions of the legacy protocol\<close>












section \<open>Properties of the orchestrator\<close>

subsection \<open>The conversion of \<^verbatim>\<open>strtol\<close>\<close>

lemma digit_not_space: "is_digit_of b c \<Longrightarrow> \<not> c_isspace c"
  by (auto simp add: is_digit_of_def digit_value_def c_isspace_def Let_def split: option.splits if_splits)

lemma digit_not_sign: "is_digit_of b c \<Longrightarrow> c \<noteq> CHR ''-'' \<and> c \<noteq> CHR ''+''"
  by (auto simp add: is_digit_of_def digit_value_def Let_def split: option.splits if_splits)

lemma sign_not_space: "\<not> c_isspace CHR ''-''" "\<not> c_isspace CHR ''+''"
  by (simp_all add: c_isspace_def)

lemma digit_mono: "is_digit_of b c \<Longrightarrow> b \<le> b' \<Longrightarrow> is_digit_of b' c"
  by (auto simp add: is_digit_of_def split: option.splits)

lemma zero_digit: "0 < b \<Longrightarrow> is_digit_of b CHR ''0''"
  by (simp add: is_digit_of_def digit_value_def)

lemma x_not_digit: "b \<le> 16 \<Longrightarrow> \<not> is_digit_of b CHR ''x''" "b \<le> 16 \<Longrightarrow> \<not> is_digit_of b CHR ''X''"
  by (simp_all add: is_digit_of_def digit_value_def)

lemma strto_base_decimal:
  "c0 \<noteq> CHR ''0'' \<Longrightarrow> strto_base 0 (c0 # s) = (10, c0 # s)"
  by (simp add: strto_base_def split: list.splits)

lemma strto_base_octal:
  assumes "\<forall>c\<in>set s. is_digit_of 8 c"
  shows "strto_base 0 (CHR ''0'' # s) = (8, CHR ''0'' # s)"
  using assms x_not_digit [of 8]
  by (auto simp add: strto_base_def split: list.splits)

lemma strto_base_hex:
  "is_digit_of 16 h \<Longrightarrow> strto_base 0 (CHR ''0'' # CHR ''x'' # h # s) = (16, h # s)"
  "is_digit_of 16 h \<Longrightarrow> strto_base 0 (CHR ''0'' # CHR ''X'' # h # s) = (16, h # s)"
  by (simp_all add: strto_base_def)

lemma scan_digits:
  assumes "ds \<noteq> []" "\<forall>d\<in>set ds. is_digit_of b d" "post = [] \<or> \<not> is_digit_of b (hd post)"
    and "strto_base 0 (ds @ post) = (b, ds @ post)"
  shows "strto_scan 0 (ds @ post) = Some (False, digits_value b ds, post)"
proof -
  obtain d ds' where ds: "ds = d # ds'" using assms(1) by (cases ds) auto
  have d: "is_digit_of b d" using assms(2) ds by simp
  have sp: "dropWhile c_isspace (ds @ post) = ds @ post"
    using digit_not_space [OF d] ds by simp
  have sg: "strto_sign (ds @ post) = (False, ds @ post)"
    using digit_not_sign [OF d] ds by (simp add: strto_sign_def)
  have tw: "takeWhile (is_digit_of b) (ds @ post) = ds"
    using assms(2,3) by (cases post) (simp_all add: takeWhile_append2)
  have dw: "dropWhile (is_digit_of b) (ds @ post) = post"
    using assms(2,3) by (cases post) (simp_all add: dropWhile_append2)
  show ?thesis
    unfolding strto_scan_def sp sg using assms(1,4) by (simp add: tw dw)
qed

lemmas level_consts = PYI_PROCESS_LEVEL_UNKNOWN_def PYI_PROCESS_LEVEL_PARENT_NEEDS_RESTART_def
  PYI_PROCESS_LEVEL_PARENT_def PYI_PROCESS_LEVEL_MAIN_def PYI_PROCESS_LEVEL_SUBPROCESS_def

lemma scan_signed:
  assumes "ds \<noteq> []" "\<forall>d\<in>set ds. is_digit_of b d" "post = [] \<or> \<not> is_digit_of b (hd post)"
    and "strto_base 0 (ds @ post) = (b, ds @ post)"
    and "sg \<in> {[], ''-'', ''+''}"
  shows "strto_scan 0 (sg @ ds @ post) = Some (sg = ''-'', digits_value b ds, post)"
proof -
  have tw: "takeWhile (is_digit_of b) (ds @ post) = ds"
    using assms(2,3) by (cases post) (simp_all add: takeWhile_append2)
  have dw: "dropWhile (is_digit_of b) (ds @ post) = post"
    using assms(2,3) by (cases post) (simp_all add: dropWhile_append2)
  consider "sg = []" | "sg = ''-''" | "sg = ''+''" using assms(5) by auto
  then show ?thesis
  proof cases
    case 1
    then show ?thesis using scan_digits [OF assms(1-4)] by simp
  next
    case 2
    then show ?thesis
      using assms(1,4) by (simp add: strto_scan_def sign_not_space strto_sign_def tw dw)
  next
    case 3
    then show ?thesis
      using assms(1,4) by (simp add: strto_scan_def sign_not_space strto_sign_def tw dw)
  qed
qed

lemma strtol_decimal_rest:
  assumes "sg \<in> {[], ''-'', ''+''}" "ds \<noteq> []" "\<forall>d\<in>set ds. is_digit_of 10 d"
    "hd ds \<noteq> CHR ''0''" "post = [] \<or> \<not> is_digit_of 10 (hd post)"
  shows "c_strtol lc (sg @ ds @ post) 0 =
           (max (- (2 ^ (LONG_BIT lc - 1))) (min (2 ^ (LONG_BIT lc - 1) - 1)
              (if sg = ''-'' then - int (digits_value 10 ds) else int (digits_value 10 ds))), post)"
proof -
  obtain d ds' where ds: "ds = d # ds'" using assms(2) by (cases ds) auto
  have b: "strto_base 0 (ds @ post) = (10, ds @ post)"
    using assms(4) ds strto_base_decimal [of d "ds' @ post"] by simp
  show ?thesis
    using scan_signed [OF assms(2,3,5) b assms(1)]
    by (simp add: c_strtol_def Let_def)
qed

lemma strtol_hex:
  assumes "hs \<noteq> []" "\<forall>h\<in>set hs. is_digit_of 16 h"
  shows "c_strtol lc (''0x'' @ hs) 0 =
           (max (- (2 ^ (LONG_BIT lc - 1))) (min (2 ^ (LONG_BIT lc - 1) - 1)
              (int (digits_value 16 hs))), [])"
proof -
  obtain h hs' where hs: "hs = h # hs'" using assms(1) by (cases hs) auto
  have h: "is_digit_of 16 h" using assms(2) hs by simp
  have tw: "takeWhile (is_digit_of 16) hs = hs" using assms(2) by (simp add: takeWhile_eq_all_conv)
  have dw: "dropWhile (is_digit_of 16) hs = []" using assms(2) by simp
  have z: "\<not> c_isspace CHR ''0''" by (simp add: c_isspace_def)
  have "strto_scan 0 (''0x'' @ hs) = Some (False, digits_value 16 hs, [])"
    using strto_base_hex(1) [OF h, of hs'] tw dw assms(1) hs z
    by (simp add: strto_scan_def strto_sign_def)
  then show ?thesis by (simp add: c_strtol_def Let_def)
qed

lemma strtol_octal:
  assumes "\<forall>d\<in>set ods. is_digit_of 8 d"
  shows "c_strtol lc (CHR ''0'' # ods) 0 =
           (max (- (2 ^ (LONG_BIT lc - 1))) (min (2 ^ (LONG_BIT lc - 1) - 1)
              (int (digits_value 8 (CHR ''0'' # ods)))), [])"
proof -
  have all: "\<forall>d\<in>set (CHR ''0'' # ods). is_digit_of 8 d"
    using assms zero_digit [of 8] by simp
  have "strto_scan 0 ((CHR ''0'' # ods) @ []) = Some (False, digits_value 8 (CHR ''0'' # ods), [])"
    using strto_base_octal [OF assms] by (intro scan_digits all) simp_all
  then show ?thesis by (simp add: c_strtol_def Let_def)
qed

subsection \<open>Reading the level of the parent process\<close>

lemma read_unset:
  "pyi_main_read_parent_level lc (env(''_PYI_PARENT_PROCESS_LEVEL'' := None))
     = Inr PYI_PROCESS_LEVEL_UNKNOWN"
  by (simp add: pyi_main_read_parent_level_def)

lemma read_empty_value:
  "pyi_main_read_parent_level lc (env(''_PYI_PARENT_PROCESS_LEVEL'' \<mapsto> []))
     = Inr PYI_PROCESS_LEVEL_UNKNOWN"
  by (simp add: pyi_main_read_parent_level_def)

lemma read_value:
  assumes "v \<noteq> []"
  shows "pyi_main_read_parent_level lc (env(''_PYI_PARENT_PROCESS_LEVEL'' \<mapsto> v)) =
           (if snd (c_strtol lc v 0) \<noteq> []
            then Inl ''Invalid value in _PYI_PARENT_PROCESS_LEVEL: %s''
            else Inr (signed_take_bit 7 (fst (c_strtol lc v 0))))"
  using assms by (simp add: pyi_main_read_parent_level_def split: prod.splits)

lemma main_read_failure:
  assumes "resolve_executable os pyi_ctx = Some c1" "resolve_pkg_archive os c1 = Some c2"
    and "pyi_main_read_parent_level lc
           (pyi_main_reset_environment os plat (pyi_main_splash_flags env c2) env) = Inl msg"
  shows "pyi_main os lc plat continue pyi_ctx env =
           (- 1, pyi_main_reset_environment os plat (pyi_main_splash_flags env c2) env, [msg])"
  using assms by (simp add: pyi_main_def pyi_main_roles_def Let_def)

lemma os_ok_fields:
  "resolve_executable os_ok c = Some c" "resolve_pkg_archive os_ok c = Some c"
  "setenv_ok os_ok var val" "is_linux os_ok"
  by (simp_all add: os_ok_def)

lemma example_context_mode:
  "contains_extractable_entries (archive (example_context ver nogil pep741 entries)) = False"
  "toc_splash (archive (example_context ver nogil pep741 entries)) = None"
  by (simp_all add: example_context_def)

lemma show_int_levels:
  "show_int (- 1) = ''-1''" "show_int 0 = ''0''" "show_int 1 = ''1''"
  by (simp_all add: show_int_def show_nat.simps)

lemma strtol_one: "c_strtol libc_ok ''1'' 0 = (1, [])"
  by (simp add: c_strtol_def strto_scan_def strto_sign_def strto_base_def c_isspace_def
      is_digit_of_def digit_value_def digits_value_def libc_ok_fields Let_def)

lemma splash_flags_example:
  "pyi_main_splash_flags env (example_context ver nogil pep741 entries) =
     (example_context ver nogil pep741 entries)\<lparr>is_onefile := False, has_splash := False\<rparr>"
  by (simp add: pyi_main_splash_flags_def Let_def example_context_mode)

lemmas strtol_eval = c_strtol_def strto_scan_def strto_sign_def strto_base_def c_isspace_def
  is_digit_of_def digit_value_def digits_value_def libc_ok_fields Let_def

lemma digits_examples:
  "is_digit_of 10 CHR ''1''" "\<not> is_digit_of 10 CHR ''x''" "is_digit_of 16 CHR ''1''"
  "is_digit_of 8 CHR ''1''" "is_digit_of 8 CHR ''0''"
  "digits_value 10 ''1'' = 1" "digits_value 16 ''1'' = 1" "digits_value 8 ''010'' = 8"
  by (simp_all add: is_digit_of_def digit_value_def digits_value_def)

lemma strtol_trailing_space: "snd (c_strtol libc_ok ''1 '' 0) = '' ''"
  by (simp add: strtol_eval)

lemma strtol_one_x: "c_strtol libc_ok ''1x'' 0 = (1, ''x'')"
  by (simp add: strtol_eval)

lemma signed_byte_examples:
  "signed_take_bit 7 (max (- (2 ^ 63)) (min (2 ^ 63 - 1) (- 1 :: int))) = - 1"
  "signed_take_bit 7 (max (- (2 ^ 63)) (min (2 ^ 63 - 1) (1 :: int))) = 1"
  "signed_take_bit 7 (max (- (2 ^ 63)) (min (2 ^ 63 - 1) (8 :: int))) = 8"
  by (simp_all add: signed_take_bit_eq_take_bit_shift)

lemma reset_example:
  "pyi_main_reset_environment os_ok Other_POSIX
     (pyi_main_splash_flags env (example_context 312 0 False []))
     [''_PYI_ARCHIVE_FILE'' \<mapsto> ''/opt/app/run'', ''_PYI_PARENT_PROCESS_LEVEL'' \<mapsto> v]
   = [''_PYI_ARCHIVE_FILE'' \<mapsto> ''/opt/app/run'', ''_PYI_PARENT_PROCESS_LEVEL'' \<mapsto> v]"
  by (simp add: pyi_main_reset_environment_def Let_def splash_flags_example
      example_context_fields strcmp_eq_def fun_upd_idem)

lemma read_one_x:
  "pyi_main_read_parent_level libc_ok
     [''_PYI_ARCHIVE_FILE'' \<mapsto> ''/opt/app/run'', ''_PYI_PARENT_PROCESS_LEVEL'' \<mapsto> ''1x'']
   = Inl ''Invalid value in _PYI_PARENT_PROCESS_LEVEL: %s''"
  by (simp add: pyi_main_read_parent_level_def strtol_one_x)

text \<open>
  Claim C10. \<^verbatim>\<open>pyi_main\<close> reads \<^verbatim>\<open>_PYI_PARENT_PROCESS_LEVEL\<close> in the same way when the
  variable is unset and when it is set to the empty string: the level of the parent is
  \<open>PYI_PROCESS_LEVEL_UNKNOWN\<close>. A non-empty value that \<^verbatim>\<open>strtol\<close> does not convert to its
  end, in particular a decimal number (with or without a sign) followed by any character
  that is not a decimal digit, is an error, and \<^verbatim>\<open>pyi_main\<close> returns \<open>-1\<close> with the message
  about the invalid value. The conversion is in base 0: decimal, hexadecimal (\<^verbatim>\<open>0x\<close>) and
  octal (leading \<^verbatim>\<open>0\<close>) numbers are accepted, and give the low eight bits, as a signed
  number, of the value within the range of \<^verbatim>\<open>long\<close>.
\<close>

theorem parent_level_parsing:
  "pyi_main_read_parent_level lc (env(''_PYI_PARENT_PROCESS_LEVEL'' := None))
     = Inr PYI_PROCESS_LEVEL_UNKNOWN
   \<and> pyi_main_read_parent_level lc (env(''_PYI_PARENT_PROCESS_LEVEL'' \<mapsto> []))
     = Inr PYI_PROCESS_LEVEL_UNKNOWN
   \<and> (v \<noteq> [] \<and> snd (c_strtol lc v 0) \<noteq> [] \<longrightarrow>
        pyi_main_read_parent_level lc (env(''_PYI_PARENT_PROCESS_LEVEL'' \<mapsto> v))
          = Inl ''Invalid value in _PYI_PARENT_PROCESS_LEVEL: %s'')
   \<and> (sg \<in> {[], ''-'', ''+''} \<and> ds \<noteq> [] \<and> (\<forall>d\<in>set ds. is_digit_of 10 d)
        \<and> hd ds \<noteq> CHR ''0'' \<and> \<not> is_digit_of 10 c \<longrightarrow>
        pyi_main_read_parent_level lc
            (env(''_PYI_PARENT_PROCESS_LEVEL'' \<mapsto> sg @ ds @ c # post))
          = Inl ''Invalid value in _PYI_PARENT_PROCESS_LEVEL: %s'')
   \<and> (resolve_executable os pyi_ctx = Some c1 \<and> resolve_pkg_archive os c1 = Some c2
        \<and> pyi_main_read_parent_level lc
             (pyi_main_reset_environment os plat (pyi_main_splash_flags env c2) env) = Inl msg
        \<longrightarrow> pyi_main os lc plat continue pyi_ctx env =
              (- 1, pyi_main_reset_environment os plat (pyi_main_splash_flags env c2) env, [msg]))
   \<and> (sg \<in> {[], ''-'', ''+''} \<and> ds \<noteq> [] \<and> (\<forall>d\<in>set ds. is_digit_of 10 d)
        \<and> hd ds \<noteq> CHR ''0'' \<longrightarrow>
        pyi_main_read_parent_level lc (env(''_PYI_PARENT_PROCESS_LEVEL'' \<mapsto> sg @ ds))
          = Inr (signed_take_bit 7
                   (max (- (2 ^ (LONG_BIT lc - 1))) (min (2 ^ (LONG_BIT lc - 1) - 1)
                      (if sg = ''-'' then - int (digits_value 10 ds)
                       else int (digits_value 10 ds))))))
   \<and> (hs \<noteq> [] \<and> (\<forall>h\<in>set hs. is_digit_of 16 h) \<longrightarrow>
        pyi_main_read_parent_level lc (env(''_PYI_PARENT_PROCESS_LEVEL'' \<mapsto> ''0x'' @ hs))
          = Inr (signed_take_bit 7
                   (max (- (2 ^ (LONG_BIT lc - 1))) (min (2 ^ (LONG_BIT lc - 1) - 1)
                      (int (digits_value 16 hs))))))
   \<and> ((\<forall>d\<in>set ods. is_digit_of 8 d) \<longrightarrow>
        pyi_main_read_parent_level lc (env(''_PYI_PARENT_PROCESS_LEVEL'' \<mapsto> CHR ''0'' # ods))
          = Inr (signed_take_bit 7
                   (max (- (2 ^ (LONG_BIT lc - 1))) (min (2 ^ (LONG_BIT lc - 1) - 1)
                      (int (digits_value 8 (CHR ''0'' # ods)))))))"
proof -
  let ?K = "''_PYI_PARENT_PROCESS_LEVEL''"
  let ?bad = "Inl ''Invalid value in _PYI_PARENT_PROCESS_LEVEL: %s'' :: string + int"
  have trailing: "pyi_main_read_parent_level lc (env(?K \<mapsto> v)) = ?bad"
    if "v \<noteq> []" "snd (c_strtol lc v 0) \<noteq> []"
    using that read_value [of v lc env] by simp
  have decimal_trailing:
    "pyi_main_read_parent_level lc (env(?K \<mapsto> sg @ ds @ c # post)) = ?bad"
    if h: "sg \<in> {[], ''-'', ''+''}" "ds \<noteq> []" "\<forall>d\<in>set ds. is_digit_of 10 d"
      "hd ds \<noteq> CHR ''0''" "\<not> is_digit_of 10 c"
  proof -
    have "snd (c_strtol lc (sg @ ds @ c # post) 0) = c # post"
      using strtol_decimal_rest [OF h(1-4), of "c # post" lc] h(5) by simp
    moreover have "sg @ ds @ c # post \<noteq> []" by simp
    ultimately show ?thesis using read_value [of "sg @ ds @ c # post" lc env] by simp
  qed
  have decimal:
    "pyi_main_read_parent_level lc (env(?K \<mapsto> sg @ ds))
       = Inr (signed_take_bit 7
                (max (- (2 ^ (LONG_BIT lc - 1))) (min (2 ^ (LONG_BIT lc - 1) - 1)
                   (if sg = ''-'' then - int (digits_value 10 ds)
                    else int (digits_value 10 ds)))))"
    if h: "sg \<in> {[], ''-'', ''+''}" "ds \<noteq> []" "\<forall>d\<in>set ds. is_digit_of 10 d"
      "hd ds \<noteq> CHR ''0''"
  proof -
    have "sg @ ds \<noteq> []" using h(2) by simp
    then show ?thesis
      using strtol_decimal_rest [OF h, of "[]" lc] read_value [of "sg @ ds" lc env] by simp
  qed
  have hex:
    "pyi_main_read_parent_level lc (env(?K \<mapsto> ''0x'' @ hs))
       = Inr (signed_take_bit 7
                (max (- (2 ^ (LONG_BIT lc - 1))) (min (2 ^ (LONG_BIT lc - 1) - 1)
                   (int (digits_value 16 hs)))))"
    if h: "hs \<noteq> []" "\<forall>h\<in>set hs. is_digit_of 16 h"
    using strtol_hex [OF h, of lc] read_value [of "''0x'' @ hs" lc env] by simp
  have octal:
    "pyi_main_read_parent_level lc (env(?K \<mapsto> CHR ''0'' # ods))
       = Inr (signed_take_bit 7
                (max (- (2 ^ (LONG_BIT lc - 1))) (min (2 ^ (LONG_BIT lc - 1) - 1)
                   (int (digits_value 8 (CHR ''0'' # ods))))))"
    if h: "\<forall>d\<in>set ods. is_digit_of 8 d"
    using strtol_octal [OF h, of lc] read_value [of "CHR ''0'' # ods" lc env] by simp
  show ?thesis
    using read_unset [of lc env] read_empty_value [of lc env] trailing decimal_trailing
      main_read_failure [of os pyi_ctx c1 c2 lc plat env msg continue] decimal hex octal
    by blast
qed

theorem parent_level_parsing_witness:
  "pyi_main_read_parent_level libc_ok
      ([''_PYI_ARCHIVE_FILE'' \<mapsto> ''/opt/app/run'', ''_PYI_PARENT_PROCESS_LEVEL'' \<mapsto> ''1x'']
         (''_PYI_PARENT_PROCESS_LEVEL'' := None))
     = Inr PYI_PROCESS_LEVEL_UNKNOWN
   \<and> pyi_main_read_parent_level libc_ok
      [''_PYI_ARCHIVE_FILE'' \<mapsto> ''/opt/app/run'', ''_PYI_PARENT_PROCESS_LEVEL'' \<mapsto> []]
     = Inr PYI_PROCESS_LEVEL_UNKNOWN
   \<and> pyi_main_read_parent_level libc_ok
      [''_PYI_ARCHIVE_FILE'' \<mapsto> ''/opt/app/run'', ''_PYI_PARENT_PROCESS_LEVEL'' \<mapsto> ''1 '']
     = Inl ''Invalid value in _PYI_PARENT_PROCESS_LEVEL: %s''
   \<and> pyi_main_read_parent_level libc_ok
      [''_PYI_ARCHIVE_FILE'' \<mapsto> ''/opt/app/run'', ''_PYI_PARENT_PROCESS_LEVEL'' \<mapsto> ''-1x'']
     = Inl ''Invalid value in _PYI_PARENT_PROCESS_LEVEL: %s''
   \<and> pyi_main os_ok libc_ok Other_POSIX (\<lambda>c e. (0, e, [])) (example_context 312 0 False [])
      [''_PYI_ARCHIVE_FILE'' \<mapsto> ''/opt/app/run'', ''_PYI_PARENT_PROCESS_LEVEL'' \<mapsto> ''1x'']
     = (- 1,
        [''_PYI_ARCHIVE_FILE'' \<mapsto> ''/opt/app/run'', ''_PYI_PARENT_PROCESS_LEVEL'' \<mapsto> ''1x''],
        [''Invalid value in _PYI_PARENT_PROCESS_LEVEL: %s''])
   \<and> pyi_main_read_parent_level libc_ok
      [''_PYI_ARCHIVE_FILE'' \<mapsto> ''/opt/app/run'', ''_PYI_PARENT_PROCESS_LEVEL'' \<mapsto> ''-1'']
     = Inr PYI_PROCESS_LEVEL_PARENT_NEEDS_RESTART
   \<and> pyi_main_read_parent_level libc_ok
      [''_PYI_ARCHIVE_FILE'' \<mapsto> ''/opt/app/run'', ''_PYI_PARENT_PROCESS_LEVEL'' \<mapsto> ''0x1'']
     = Inr PYI_PROCESS_LEVEL_MAIN
   \<and> pyi_main_read_parent_level libc_ok
      [''_PYI_ARCHIVE_FILE'' \<mapsto> ''/opt/app/run'', ''_PYI_PARENT_PROCESS_LEVEL'' \<mapsto> ''010'']
     = Inr 8"
  using parent_level_parsing [where lc = libc_ok
      and env = "[''_PYI_ARCHIVE_FILE'' \<mapsto> ''/opt/app/run'',
                  ''_PYI_PARENT_PROCESS_LEVEL'' \<mapsto> ''1x'']"
      and v = "''1 ''" and sg = "''-''" and ds = "''1''" and c = "CHR ''x''" and post = "[]"
      and os = os_ok and pyi_ctx = "example_context 312 0 False []"
      and ?c1.0 = "example_context 312 0 False []" and ?c2.0 = "example_context 312 0 False []"
      and plat = Other_POSIX and msg = "''Invalid value in _PYI_PARENT_PROCESS_LEVEL: %s''"
      and continue = "\<lambda>c e. (0, e, [])" and hs = "''1''" and ods = "''10''"]
  by (simp add: os_ok_fields reset_example read_one_x strtol_trailing_space digits_examples
      signed_byte_examples libc_ok_fields level_consts)

subsection \<open>The roles\<close>

lemma role_example_fields:
  "parent_process_level (role_example parent single_file splash) = parent"
  "is_onefile (role_example parent single_file splash) = single_file"
  "has_splash (role_example parent single_file splash) = splash"
  "suppress_splash (role_example parent single_file splash) = False"
  by (simp_all add: role_example_def example_context_def)

lemmas role_table_eval = role_example_fields spec_role_table_def role_column_of_def level_consts

text \<open>
  Claim C3. For every level of the parent process, mode, splash eligibility and platform,
  the \<^verbatim>\<open>switch\<close> of \<^verbatim>\<open>pyi_main\<close> assigns the level of the role table: for a parent of
  unknown level, \<open>PARENT\<close> (single-file on Windows, macOS and Cygwin, or on another POSIX
  platform without a splash screen to show), \<open>PARENT_NEEDS_RESTART\<close> (another POSIX
  platform, single-file with a splash screen to show, or directory mode) or \<open>MAIN\<close>
  (directory mode on Windows, macOS and Cygwin); for a parent of level
  \<open>PARENT_NEEDS_RESTART\<close> on another POSIX platform, \<open>PARENT\<close> in single-file mode and
  \<open>MAIN\<close> in directory mode; for a parent of level \<open>PARENT\<close>, \<open>MAIN\<close>; for a parent of level
  \<open>MAIN\<close>, \<open>SUBPROCESS\<close>. Every other level of the parent is rejected with the message
  about the invalid level.
\<close>

theorem role_resolution_table:
  "pyi_main_resolve_level plat pyi_ctx =
     (case spec_role_table (parent_process_level pyi_ctx)
             (role_column_of plat (is_onefile pyi_ctx)
                (has_splash pyi_ctx \<and> \<not> suppress_splash pyi_ctx)) of
        Some level \<Rightarrow> Inr level
      | None \<Rightarrow> Inl ''Invalid parent process level: %d'')"
  by (cases plat)
     (simp_all add: pyi_main_resolve_level_def spec_role_table_def role_column_of_def level_consts)

theorem role_resolution_table_witness:
  "pyi_main_resolve_level Win32 (role_example (- 2) True True) = Inr PYI_PROCESS_LEVEL_PARENT
   \<and> pyi_main_resolve_level Other_POSIX (role_example (- 2) True True)
       = Inr PYI_PROCESS_LEVEL_PARENT_NEEDS_RESTART
   \<and> pyi_main_resolve_level Other_POSIX (role_example (- 2) True False)
       = Inr PYI_PROCESS_LEVEL_PARENT
   \<and> pyi_main_resolve_level Darwin (role_example (- 2) False False) = Inr PYI_PROCESS_LEVEL_MAIN
   \<and> pyi_main_resolve_level Other_POSIX (role_example (- 2) False False)
       = Inr PYI_PROCESS_LEVEL_PARENT_NEEDS_RESTART
   \<and> pyi_main_resolve_level Other_POSIX (role_example (- 1) True False)
       = Inr PYI_PROCESS_LEVEL_PARENT
   \<and> pyi_main_resolve_level Other_POSIX (role_example (- 1) False False)
       = Inr PYI_PROCESS_LEVEL_MAIN
   \<and> pyi_main_resolve_level Cygwin (role_example (- 1) True False)
       = Inl ''Invalid parent process level: %d''
   \<and> pyi_main_resolve_level Win32 (role_example 0 True False) = Inr PYI_PROCESS_LEVEL_MAIN
   \<and> pyi_main_resolve_level Other_POSIX (role_example 1 False False)
       = Inr PYI_PROCESS_LEVEL_SUBPROCESS
   \<and> pyi_main_resolve_level Other_POSIX (role_example 2 False False)
       = Inl ''Invalid parent process level: %d''"
  using role_resolution_table [of Win32 "role_example (- 2) True True"]
    role_resolution_table [of Other_POSIX "role_example (- 2) True True"]
    role_resolution_table [of Other_POSIX "role_example (- 2) True False"]
    role_resolution_table [of Darwin "role_example (- 2) False False"]
    role_resolution_table [of Other_POSIX "role_example (- 2) False False"]
    role_resolution_table [of Other_POSIX "role_example (- 1) True False"]
    role_resolution_table [of Other_POSIX "role_example (- 1) False False"]
    role_resolution_table [of Cygwin "role_example (- 1) True False"]
    role_resolution_table [of Win32 "role_example 0 True False"]
    role_resolution_table [of Other_POSIX "role_example 1 False False"]
    role_resolution_table [of Other_POSIX "role_example 2 False False"]
  by (simp add: role_table_eval)

subsection \<open>Publishing the level\<close>

lemma reset_cases:
  "pyi_main_reset_environment os plat c env = env(''PYINSTALLER_RESET_ENVIRONMENT'' := None)
   \<or> pyi_main_reset_environment os plat c env ''_PYI_PARENT_PROCESS_LEVEL'' = None"
  by (simp add: pyi_main_reset_environment_def Let_def)

lemma reset_keeps_level:
  assumes "pyi_main_reset_environment os plat c env ''_PYI_PARENT_PROCESS_LEVEL'' \<noteq> None"
  shows "pyi_main_reset_environment os plat c env = env(''PYINSTALLER_RESET_ENVIRONMENT'' := None)"
  using assms reset_cases [of os plat c env] by auto

lemma resolve_level_subprocess:
  assumes "pyi_main_resolve_level plat c = Inr level" "\<not> level < PYI_PROCESS_LEVEL_SUBPROCESS"
  shows "level = PYI_PROCESS_LEVEL_SUBPROCESS \<and> parent_process_level c = PYI_PROCESS_LEVEL_MAIN"
  using assms
  by (simp add: pyi_main_resolve_level_def level_consts split: if_splits)

lemma read_level_set:
  assumes "pyi_main_read_parent_level lc env = Inr p" "p \<noteq> PYI_PROCESS_LEVEL_UNKNOWN"
  shows "env ''_PYI_PARENT_PROCESS_LEVEL'' \<noteq> None"
  using assms
  by (auto simp add: pyi_main_read_parent_level_def split: option.splits)

lemma publish_level_cases:
  assumes "pyi_main_publish_level os env1 level = Inr env'"
  shows "if level < PYI_PROCESS_LEVEL_SUBPROCESS
         then env' = env1(''_PYI_PARENT_PROCESS_LEVEL'' \<mapsto> show_int level)
         else env' = env1"
  using assms
  by (auto simp add: pyi_main_publish_level_def pyi_setenv_def split: if_splits)

lemma roles_success:
  assumes "pyi_main_roles os lc plat pyi_ctx env = Inr (c', env')"
  obtains c1 c2 parent level where
    "resolve_executable os pyi_ctx = Some c1" "resolve_pkg_archive os c1 = Some c2"
    "pyi_main_read_parent_level lc
       (pyi_main_reset_environment os plat (pyi_main_splash_flags env c2) env) = Inr parent"
    "pyi_main_resolve_level plat
       ((pyi_main_splash_flags env c2)\<lparr>parent_process_level := parent\<rparr>) = Inr level"
    "pyi_main_publish_level os
       (pyi_main_reset_environment os plat (pyi_main_splash_flags env c2) env) level = Inr env'"
    "c' = (pyi_main_splash_flags env c2)\<lparr>parent_process_level := parent, process_level := level\<rparr>"
  using assms unfolding pyi_main_roles_def Let_def
  by (auto split: option.splits sum.splits)

lemmas roles_eval = pyi_main_roles_def os_ok_fields splash_flags_example Let_def
  pyi_main_reset_environment_def pyi_setenv_def example_context_fields strcmp_eq_def
  pyi_main_read_parent_level_def pyi_main_resolve_level_def level_consts strtol_one
  pyi_main_publish_level_def show_int_levels

lemma roles_first_run:
  "\<exists>c' env'. pyi_main_roles os_ok libc_ok Other_POSIX (example_context 312 0 False []) Map.empty
                = Inr (c', env') \<and> process_level c' = - 1"
  by (simp add: roles_eval)

lemma roles_restarted:
  "\<exists>c' env'. pyi_main_roles os_ok libc_ok Other_POSIX (example_context 312 0 False [])
                 [''_PYI_ARCHIVE_FILE'' \<mapsto> ''/opt/app/run'',
                  ''_PYI_PARENT_PROCESS_LEVEL'' \<mapsto> ''-1'']
                = Inr (c', env') \<and> process_level c' = 1"
  by (simp add: roles_eval c_strtol_def strto_scan_def strto_sign_def strto_base_def c_isspace_def
      is_digit_of_def digit_value_def digits_value_def libc_ok_fields)

lemma roles_subprocess:
  "\<exists>c' env'. pyi_main_roles os_ok libc_ok Other_POSIX (example_context 312 0 False [])
                 [''_PYI_ARCHIVE_FILE'' \<mapsto> ''/opt/app/run'',
                  ''_PYI_PARENT_PROCESS_LEVEL'' \<mapsto> ''1'']
                = Inr (c', env') \<and> process_level c' = 2"
  by (simp add: roles_eval)

text \<open>
  Claim C6. When \<^verbatim>\<open>pyi_main\<close> has assigned a level below \<open>PYI_PROCESS_LEVEL_SUBPROCESS\<close>
  and goes on, \<^verbatim>\<open>_PYI_PARENT_PROCESS_LEVEL\<close> holds the decimal form of that level in the
  environment with which the rest of \<^verbatim>\<open>pyi_main\<close> runs, where every child process is
  spawned; when the level is \<open>PYI_PROCESS_LEVEL_SUBPROCESS\<close>, the variable is as it was at
  the start of \<^verbatim>\<open>pyi_main\<close>. When \<^verbatim>\<open>pyi_main\<close> fails before that point (also when setting
  the variable fails), it returns \<open>-1\<close> and the rest does not run.
\<close>

theorem parent_level_published:
  "(case pyi_main_roles os lc plat pyi_ctx env of
      Inl (errs, env') \<Rightarrow> pyi_main os lc plat continue pyi_ctx env = (- 1, env', errs)
    | Inr (pyi_ctx', env') \<Rightarrow>
        pyi_main os lc plat continue pyi_ctx env = continue pyi_ctx' env'
        \<and> (if process_level pyi_ctx' < PYI_PROCESS_LEVEL_SUBPROCESS
           then process_level pyi_ctx' \<in> {PYI_PROCESS_LEVEL_PARENT_NEEDS_RESTART,
                   PYI_PROCESS_LEVEL_PARENT, PYI_PROCESS_LEVEL_MAIN}
                \<and> env' ''_PYI_PARENT_PROCESS_LEVEL'' = Some (show_int (process_level pyi_ctx'))
           else process_level pyi_ctx' = PYI_PROCESS_LEVEL_SUBPROCESS
                \<and> env' ''_PYI_PARENT_PROCESS_LEVEL'' = env ''_PYI_PARENT_PROCESS_LEVEL''))"
proof (cases "pyi_main_roles os lc plat pyi_ctx env")
  case (Inl failure)
  then show ?thesis by (cases failure) (simp add: pyi_main_def)
next
  case (Inr success)
  obtain c' env' where success: "success = (c', env')" by (cases success)
  have roles: "pyi_main_roles os lc plat pyi_ctx env = Inr (c', env')"
    using Inr success by simp
  from roles_success [OF roles] obtain c1 c2 parent level where
    r: "pyi_main_read_parent_level lc
          (pyi_main_reset_environment os plat (pyi_main_splash_flags env c2) env) = Inr parent"
    and l: "pyi_main_resolve_level plat
          ((pyi_main_splash_flags env c2)\<lparr>parent_process_level := parent\<rparr>) = Inr level"
    and p: "pyi_main_publish_level os
          (pyi_main_reset_environment os plat (pyi_main_splash_flags env c2) env) level = Inr env'"
    and c': "c' = (pyi_main_splash_flags env c2)\<lparr>parent_process_level := parent,
                                                   process_level := level\<rparr>"
    by blast
  let ?env1 = "pyi_main_reset_environment os plat (pyi_main_splash_flags env c2) env"
  have level: "process_level c' = level" using c' by simp
  have main: "pyi_main os lc plat continue pyi_ctx env = continue c' env'"
    using roles by (simp add: pyi_main_def)
  have range: "level \<in> {PYI_PROCESS_LEVEL_PARENT_NEEDS_RESTART, PYI_PROCESS_LEVEL_PARENT,
                         PYI_PROCESS_LEVEL_MAIN, PYI_PROCESS_LEVEL_SUBPROCESS}"
    using l by (auto simp add: pyi_main_resolve_level_def split: if_splits)
  have published: "process_level c' \<in> {PYI_PROCESS_LEVEL_PARENT_NEEDS_RESTART,
                     PYI_PROCESS_LEVEL_PARENT, PYI_PROCESS_LEVEL_MAIN}
                   \<and> env' ''_PYI_PARENT_PROCESS_LEVEL'' = Some (show_int (process_level c'))"
    if less: "process_level c' < PYI_PROCESS_LEVEL_SUBPROCESS"
  proof -
    have "env' = ?env1(''_PYI_PARENT_PROCESS_LEVEL'' \<mapsto> show_int level)"
      using publish_level_cases [OF p] less level by simp
    then show ?thesis using level range less by auto
  qed
  have unchanged: "process_level c' = PYI_PROCESS_LEVEL_SUBPROCESS
                   \<and> env' ''_PYI_PARENT_PROCESS_LEVEL'' = env ''_PYI_PARENT_PROCESS_LEVEL''"
    if geq: "\<not> process_level c' < PYI_PROCESS_LEVEL_SUBPROCESS"
  proof -
    have same: "env' = ?env1" using publish_level_cases [OF p] geq level by simp
    have sub: "level = PYI_PROCESS_LEVEL_SUBPROCESS" and par: "parent = PYI_PROCESS_LEVEL_MAIN"
      using resolve_level_subprocess [OF l] geq level by simp_all
    have "parent \<noteq> PYI_PROCESS_LEVEL_UNKNOWN" using par by (simp add: level_consts)
    then have "?env1 ''_PYI_PARENT_PROCESS_LEVEL'' \<noteq> None" using read_level_set [OF r] by simp
    then have "?env1 = env(''PYINSTALLER_RESET_ENVIRONMENT'' := None)"
      by (rule reset_keeps_level)
    then have "?env1 ''_PYI_PARENT_PROCESS_LEVEL'' = env ''_PYI_PARENT_PROCESS_LEVEL''" by simp
    then show ?thesis using same sub level by simp
  qed
  show ?thesis using Inr success main published unchanged by simp
qed

theorem parent_level_published_witness:
  "(\<exists>c' env'. pyi_main_roles os_ok libc_ok Other_POSIX (example_context 312 0 False []) Map.empty
                 = Inr (c', env')
       \<and> process_level c' = PYI_PROCESS_LEVEL_PARENT_NEEDS_RESTART
       \<and> env' ''_PYI_PARENT_PROCESS_LEVEL'' = Some ''-1''
       \<and> pyi_main os_ok libc_ok Other_POSIX (\<lambda>c e. (0, e, []))
            (example_context 312 0 False []) Map.empty = (0, env', []))
   \<and> (\<exists>c' env'. pyi_main_roles os_ok libc_ok Other_POSIX (example_context 312 0 False [])
                   [''_PYI_ARCHIVE_FILE'' \<mapsto> ''/opt/app/run'',
                    ''_PYI_PARENT_PROCESS_LEVEL'' \<mapsto> ''-1'']
                 = Inr (c', env')
       \<and> process_level c' = PYI_PROCESS_LEVEL_MAIN
       \<and> env' ''_PYI_PARENT_PROCESS_LEVEL'' = Some ''1'')
   \<and> (\<exists>c' env'. pyi_main_roles os_ok libc_ok Other_POSIX (example_context 312 0 False [])
                   [''_PYI_ARCHIVE_FILE'' \<mapsto> ''/opt/app/run'',
                    ''_PYI_PARENT_PROCESS_LEVEL'' \<mapsto> ''1'']
                 = Inr (c', env')
       \<and> process_level c' = PYI_PROCESS_LEVEL_SUBPROCESS
       \<and> env' ''_PYI_PARENT_PROCESS_LEVEL'' = Some ''1'')"
proof -
  let ?c = "example_context 312 0 False []"
  let ?continue = "\<lambda>(c :: PYI_CONTEXT) (e :: environ). (0 :: int, e, [] :: string list)"
  let ?e2 = "[''_PYI_ARCHIVE_FILE'' \<mapsto> ''/opt/app/run'', ''_PYI_PARENT_PROCESS_LEVEL'' \<mapsto> ''-1'']"
  let ?e3 = "[''_PYI_ARCHIVE_FILE'' \<mapsto> ''/opt/app/run'', ''_PYI_PARENT_PROCESS_LEVEL'' \<mapsto> ''1'']"
  obtain c1 e1 where r1: "pyi_main_roles os_ok libc_ok Other_POSIX ?c Map.empty = Inr (c1, e1)"
    and l1: "process_level c1 = - 1" using roles_first_run by blast
  obtain c2 e2 where r2: "pyi_main_roles os_ok libc_ok Other_POSIX ?c ?e2 = Inr (c2, e2)"
    and l2: "process_level c2 = 1" using roles_restarted by blast
  obtain c3 e3 where r3: "pyi_main_roles os_ok libc_ok Other_POSIX ?c ?e3 = Inr (c3, e3)"
    and l3: "process_level c3 = 2" using roles_subprocess by blast
  have "process_level c1 = PYI_PROCESS_LEVEL_PARENT_NEEDS_RESTART
        \<and> e1 ''_PYI_PARENT_PROCESS_LEVEL'' = Some ''-1''
        \<and> pyi_main os_ok libc_ok Other_POSIX ?continue ?c Map.empty = (0, e1, [])"
    using parent_level_published [of os_ok libc_ok Other_POSIX ?continue ?c Map.empty] r1 l1
    by (simp add: level_consts show_int_levels)
  moreover have "process_level c2 = PYI_PROCESS_LEVEL_MAIN
        \<and> e2 ''_PYI_PARENT_PROCESS_LEVEL'' = Some ''1''"
    using parent_level_published [of os_ok libc_ok Other_POSIX ?continue ?c ?e2] r2 l2
    by (simp add: level_consts show_int_levels)
  moreover have "process_level c3 = PYI_PROCESS_LEVEL_SUBPROCESS
        \<and> e3 ''_PYI_PARENT_PROCESS_LEVEL'' = Some ''1''"
    using parent_level_published [of os_ok libc_ok Other_POSIX ?continue ?c ?e3] r3 l3
    by (simp add: level_consts)
  ultimately show ?thesis using r1 r2 r3 by simp
qed

end
